theory Spec2Isabelle
  imports Complex_Main "HOL-Library.AList"
begin

section \<open>Jet-hadron correlations: shallow embedding of the analysis code\<close>

text \<open>
  The development follows three source files:
  \<^item> \<^verbatim>\<open>jet_hadron/analysis/fit.py\<close>: the background fit functions, the definition of the
    cost functions and the propagation of the fit errors;
  \<^item> \<^verbatim>\<open>jet_hadron/analysis/correlations_helpers.py\<close>: the mixed event normalization;
  \<^item> \<^verbatim>\<open>jet_hadron/analysis/correlations.py\<close>: the per-bin analysis object
    (\<^verbatim>\<open>Correlations\<close>) and the manager that drives the bins through the stages.

  Python floats are modelled as reals. An exception is a value of \<open>py_error\<close>; a function
  that can raise returns \<open>py_error + 'a\<close>. A stage of the manager, which mutates the
  analysis objects and writes files before it raises, returns the error (if any) together
  with the objects as they stand at that moment.
\<close>

datatype py_error =
  ZeroDivisionError | ValueError | KeyError | IndexError | TypeError
  | AttributeError | RuntimeError | FileNotFoundError | UnboundLocalError

text \<open>
  The binding of the arguments of a call to the parameters of the function called, before
  its body runs. The function has the parameters \<open>required\<close> (without a default) followed by
  \<open>optional\<close> (with one); the call passes \<open>n_positional\<close> positional arguments and the
  keyword arguments \<open>keywords\<close>. Python raises \<^verbatim>\<open>TypeError\<close> when there are more positional
  arguments than parameters, when a keyword names no parameter or one that a positional
  argument has filled, and when a required parameter is left without an argument.
\<close>

definition bind_arguments :: "string list \<Rightarrow> string list \<Rightarrow> nat \<Rightarrow> string list \<Rightarrow> py_error option" where
  "bind_arguments required optional n_positional keywords =
     (if length (required @ optional) < n_positional then Some TypeError
      else if list_ex (\<lambda>keyword. keyword \<notin> set (drop n_positional (required @ optional))) keywords
      then Some TypeError
      else if list_ex (\<lambda>parameter. parameter \<notin> set keywords) (drop n_positional required)
      then Some TypeError
      else None)"

subsection \<open>Enumerations and small containers\<close>

text \<open>
  \<^verbatim>\<open>params.ReactionPlaneOrientation\<close>. \<^verbatim>\<open>correlations.py\<close> names the first member
  \<^verbatim>\<open>inclusive\<close>, \<^verbatim>\<open>fit.py\<close> names the same member \<^verbatim>\<open>all\<close>.
\<close>

datatype ReactionPlaneOrientation = inclusive | in_plane | mid_plane | out_of_plane

text \<open>\<^verbatim>\<open>analysis_objects.CorrelationType\<close>.\<close>

datatype CorrelationType = signal_dominated | background_dominated | near_side | away_side

section \<open>fit.py: the background fit functions\<close>

text \<open>
  \<^verbatim>\<open>
  def Fourier(x, BG, v2_t, v2_a, v4_t, v4_a, v1, v3, **kwargs):
      return BG*(1 + 2*v1*np.cos(x) + 2*v2_t*v2_a*np.cos(2*x) + 2*v3*np.cos(3*x) + 2*v4_t*v4_a*np.cos(4*x))
  \<close>
\<close>

definition Fourier ::
  "real \<Rightarrow> real \<Rightarrow> real \<Rightarrow> real \<Rightarrow> real \<Rightarrow> real \<Rightarrow> real \<Rightarrow> real \<Rightarrow> real" where
  "Fourier x BG v2_t v2_a v4_t v4_a v1 v3 =
     BG * (1 + 2 * v1 * cos x + 2 * v2_t * v2_a * cos (2 * x) + 2 * v3 * cos (3 * x)
             + 2 * v4_t * v4_a * cos (4 * x))"

text \<open>\<^verbatim>\<open>fitConfig["epResolutionParameters"]\<close>: the map from \<^verbatim>\<open>"R22"\<close> ... \<^verbatim>\<open>"R82"\<close> to values.\<close>

record resolution_parameters =
  R22 :: real
  R42 :: real
  R62 :: real
  R82 :: real

text \<open>
  \<^verbatim>\<open>config["fitOptions"]\<close>, as far as the functions below read it.
  \<^verbatim>\<open>logLikelihoodTrackPtBins\<close> maps a jet pt bin to a list of track pt bins.
\<close>

record fit_config =
  includeSignalInFit :: bool
  allAnglesSignal :: bool
  allAnglesBackground :: bool
  logLikelihoodTrackPtBins :: "(nat \<times> nat list) list"
  epResolutionParameters :: resolution_parameters

text \<open>
  \<^verbatim>\<open>Background(x, phi, c, resolutionParameters, B, v2_t, v2_a, v4_t, v4_a, v1, v3)\<close>.
  The divisions are Python float divisions: a zero divisor (\<open>c = 0\<close> or \<open>den = 0\<close>)
  raises \<^verbatim>\<open>ZeroDivisionError\<close>.
\<close>

definition Background ::
  "real \<Rightarrow> real \<Rightarrow> real \<Rightarrow> resolution_parameters
    \<Rightarrow> real \<Rightarrow> real \<Rightarrow> real \<Rightarrow> real \<Rightarrow> real \<Rightarrow> real \<Rightarrow> real \<Rightarrow> py_error + real" where
  "Background x phi c resolutionParameters B v2_t v2_a v4_t v4_a v1 v3 =
     (if c = 0 then Inl ZeroDivisionError
      else
        let num = v2_t + cos (2 * phi) * sin (2 * c) / (2 * c) * R22 resolutionParameters
                  + v4_t * cos (2 * phi) * sin (2 * c) / (2 * c) * R22 resolutionParameters
                  + v2_t * cos (4 * phi) * sin (4 * c) / (4 * c) * R42 resolutionParameters
                  + v4_t * cos (6 * phi) * sin (6 * c) / (6 * c) * R62 resolutionParameters;
            den = 1 + 2 * v2_t * cos (2 * phi) * sin (2 * c) / (2 * c) * R22 resolutionParameters
                  + 2 * v4_t * cos (4 * phi) * sin (4 * c) / (4 * c) * R42 resolutionParameters
        in if den = 0 then Inl ZeroDivisionError
           else
             let v2R = num / den;
                 num2 = v4_t + cos (4 * phi) * sin (4 * c) / (4 * c) * R42 resolutionParameters
                        + v2_t * cos (2 * phi) * sin (2 * c) / (2 * c) * R22 resolutionParameters
                        + v2_t * cos (6 * phi) * sin (6 * c) / (6 * c) * R62 resolutionParameters
                        + v4_t * cos (8 * phi) * sin (8 * c) / (8 * c) * R82 resolutionParameters;
                 v4R = num2 / den;
                 BR = B * den * c * 2 / pi;
                 factor = (if c = pi / 12 then 2 else 1);
                 BR = BR * factor
             in Inr (Fourier x BR v2R v2_a v4R v4_a v1 v3))"

text \<open>
  \<^verbatim>\<open>BackgroundWrapperEP(phi, c, resolutionParameters)\<close> returns the closure
  \<^verbatim>\<open>BackgroundWrapper(x, B, v2_t, v2_a, v4_t, v4_a, v1, v3)\<close>.
\<close>

definition BackgroundWrapperEP ::
  "real \<Rightarrow> real \<Rightarrow> resolution_parameters
    \<Rightarrow> real \<Rightarrow> real \<Rightarrow> real \<Rightarrow> real \<Rightarrow> real \<Rightarrow> real \<Rightarrow> real \<Rightarrow> real \<Rightarrow> py_error + real" where
  "BackgroundWrapperEP phi c resolutionParameters =
     (\<lambda>x B v2_t v2_a v4_t v4_a v1 v3.
        Background x phi c resolutionParameters B v2_t v2_a v4_t v4_a v1 v3)"

text \<open>The tables \<^verbatim>\<open>phiS\<close> and \<^verbatim>\<open>c\<close> of \<^verbatim>\<open>GetBackgroundDominatedFitFunction\<close>; they have
  no entry for the inclusive orientation, which never reads them.\<close>

fun phiS :: "ReactionPlaneOrientation \<Rightarrow> real option" where
  "phiS inclusive = None"
| "phiS in_plane = Some 0"
| "phiS mid_plane = Some (pi / 4)"
| "phiS out_of_plane = Some (pi / 2)"

fun c_width :: "ReactionPlaneOrientation \<Rightarrow> real option" where
  "c_width inclusive = None"
| "c_width in_plane = Some (pi / 6)"
| "c_width mid_plane = Some (pi / 12)"
| "c_width out_of_plane = Some (pi / 6)"

text \<open>
  \<^verbatim>\<open>
  def GetBackgroundDominatedFitFunction(epAngle, fitConfig):
      if epAngle == params.ReactionPlaneOrientation.all:
          backgroundFunc = Fourier
      else:
          ...
          resolutionParameters = fitConfig["epResolutionParameters"]
          backgroundFunc = BackgroundWrapperEP(phi = phiS[epAngle], c = c[epAngle],
                                               resolutionParameters = resolutionParameters)
      return backgroundFunc
  \<close>
\<close>

definition GetBackgroundDominatedFitFunction ::
  "ReactionPlaneOrientation \<Rightarrow> fit_config
    \<Rightarrow> real \<Rightarrow> real \<Rightarrow> real \<Rightarrow> real \<Rightarrow> real \<Rightarrow> real \<Rightarrow> real \<Rightarrow> real \<Rightarrow> py_error + real" where
  "GetBackgroundDominatedFitFunction epAngle fitConfig =
     (if epAngle = inclusive
      then (\<lambda>x BG v2_t v2_a v4_t v4_a v1 v3. Inr (Fourier x BG v2_t v2_a v4_t v4_a v1 v3))
      else BackgroundWrapperEP (the (phiS epAngle)) (the (c_width epAngle))
             (epResolutionParameters fitConfig))"

section \<open>fit.py: the cost functions of the reaction plane fit\<close>

text \<open>
  The histogram of an observable as \<^verbatim>\<open>fit.py\<close> reads it: \<^verbatim>\<open>hist.x\<close>,
  \<^verbatim>\<open>hist.array\<close>, \<^verbatim>\<open>hist.errors\<close> and \<^verbatim>\<open>hist.binCenters\<close>.
\<close>

record HistArray =
  hist_x :: "real list"
  hist_array :: "real list"
  hist_errors :: "real list"
  binCenters :: "real list"

record Observable =
  correlationType :: CorrelationType
  jetPtBin :: nat
  trackPtBin :: nat
  hist :: HistArray

text \<open>
  \<^verbatim>\<open>JetHEPFit.CheckIfFitIsEnabled(epAngle, correlationType)\<close>: the two \<^verbatim>\<open>if\<close>s of each
  branch run one after the other, each able to set \<^verbatim>\<open>retVal\<close> to \<^verbatim>\<open>False\<close>.
\<close>

definition CheckIfFitIsEnabled ::
  "fit_config \<Rightarrow> ReactionPlaneOrientation \<Rightarrow> CorrelationType \<Rightarrow> bool" where
  "CheckIfFitIsEnabled fitConfig epAngle corrType =
     (let retVal = True in
      if corrType = signal_dominated then
        let retVal = (if \<not> includeSignalInFit fitConfig then False else retVal);
            retVal = (if epAngle \<noteq> inclusive \<and> allAnglesSignal fitConfig then False else retVal)
        in retVal
      else
        let retVal = (if epAngle = inclusive \<and> \<not> allAnglesBackground fitConfig
                      then False else retVal);
            retVal = (if epAngle \<noteq> inclusive \<and> allAnglesBackground fitConfig
                      then False else retVal)
        in retVal)"

text \<open>
  The callable that \<^verbatim>\<open>JetHEPFit.GetFitFunction(fitType, epAngle)\<close> returns is determined by
  its two arguments (and the fit configuration of the object); a cost function keeps it
  as this pair. \<^verbatim>\<open>fitFunctionMap\<close> has the keys \<^verbatim>\<open>signal_dominated\<close> and
  \<^verbatim>\<open>background_dominated\<close> only: any other type raises \<^verbatim>\<open>KeyError\<close>.
\<close>

datatype fit_function = FitFunction CorrelationType ReactionPlaneOrientation

definition GetFitFunction ::
  "CorrelationType \<Rightarrow> ReactionPlaneOrientation \<Rightarrow> py_error + fit_function" where
  "GetFitFunction fitType epAngle =
     (if fitType = signal_dominated \<or> fitType = background_dominated
      then Inr (FitFunction fitType epAngle) else Inl KeyError)"

text \<open>
  The two cost functions of \<^verbatim>\<open>probfit\<close> with the data each is given:
  \<^verbatim>\<open>probfit.UnbinnedLH(f = fitFunc, data = x)\<close> and
  \<^verbatim>\<open>probfit.Chi2Regression(f = fitFunc, x = x, y = y, error = errors)\<close>.
\<close>

datatype cost_function =
    UnbinnedLH fit_function "real list"
  | Chi2Regression fit_function "real list" "real list" "real list"

text \<open>\<^verbatim>\<open>self.logLikelihoodTrackPtBins.get(observable.jetPtBin, [])\<close>.\<close>

definition logLikelihood_bins :: "fit_config \<Rightarrow> nat \<Rightarrow> nat list" where
  "logLikelihood_bins fitConfig jpt =
     (case map_of (logLikelihoodTrackPtBins fitConfig) jpt of None \<Rightarrow> [] | Some bs \<Rightarrow> bs)"

text \<open>
  The body of the loop of \<^verbatim>\<open>JetHEPFit.DefineFits\<close> for one observable that passed
  \<^verbatim>\<open>CheckIfFitIsEnabled\<close>:
  \<^verbatim>\<open>
  x = observable.hist.x
  y = observable.hist.array
  errors = observable.hist.errors
  fitFunc = self.GetFitFunction(fitType = observable.correlationType, epAngle = ...)
  if observable.correlationType == analysis_objects.CorrelationType.background_dominated:
      # Use only near-side data (ie dPhi < pi/2)
      NSrange = int(len(x)/2.)
      x = x[:NSrange]
      y = y[:NSrange]
      errors = errors[:NSrange]
  if observable.trackPtBin in self.logLikelihoodTrackPtBins.get(observable.jetPtBin, []):
      costFunction = probfit.UnbinnedLH(f = fitFunc, data = x)
  else:
      costFunction = probfit.Chi2Regression(f = fitFunc, x = x, y = y, error = errors)
  \<close>
  \<^verbatim>\<open>int(len(x)/2.)\<close> truncates a non-negative quotient: it is \<open>length x div 2\<close>; the
  slice \<^verbatim>\<open>a[:n]\<close> with \<open>n \<ge> 0\<close> is \<open>take n a\<close>.
\<close>

definition DefineFits_cost_function ::
  "fit_config \<Rightarrow> ReactionPlaneOrientation \<Rightarrow> Observable \<Rightarrow> py_error + cost_function" where
  "DefineFits_cost_function fitConfig epAngle observable =
     (let x = hist_x (hist observable);
          y = hist_array (hist observable);
          errors = hist_errors (hist observable)
      in case GetFitFunction (correlationType observable) epAngle of
           Inl e \<Rightarrow> Inl e
         | Inr fitFunc \<Rightarrow>
             let NSrange = length x div 2;
                 restricted = (correlationType observable = background_dominated);
                 x = (if restricted then take NSrange x else x);
                 y = (if restricted then take NSrange y else y);
                 errors = (if restricted then take NSrange errors else errors)
             in if trackPtBin observable \<in> set (logLikelihood_bins fitConfig (jetPtBin observable))
                then Inr (UnbinnedLH fitFunc x)
                else Inr (Chi2Regression fitFunc x y errors))"

text \<open>
  An analysis object as \<^verbatim>\<open>DefineFits\<close> reads it, and the loop over the analyses and
  their observables (\<^verbatim>\<open>itertools.chain(jetH.dPhiArray.values(),
  jetH.dPhiSideBandArray.values())\<close>). \<^verbatim>\<open>self.fits\<close> maps a jet and track pt bin to the
  cost functions of that bin, keyed by orientation and correlation type.
\<close>

record JetHAnalysis =
  jetH_orientation :: ReactionPlaneOrientation
  dPhiArray :: "Observable list"
  dPhiSideBandArray :: "Observable list"

type_synonym fits =
  "(nat \<times> nat) \<rightharpoonup> ((ReactionPlaneOrientation \<times> CorrelationType) \<rightharpoonup> cost_function)"

fun DefineFits_observables ::
  "fit_config \<Rightarrow> ReactionPlaneOrientation \<Rightarrow> Observable list \<Rightarrow> fits \<Rightarrow> py_error + fits" where
  "DefineFits_observables fitConfig epAngle [] fs = Inr fs"
| "DefineFits_observables fitConfig epAngle (observable # rest) fs =
     (if \<not> CheckIfFitIsEnabled fitConfig epAngle (correlationType observable)
      then DefineFits_observables fitConfig epAngle rest fs
      else
        let key = (jetPtBin observable, trackPtBin observable);
            inner = (case fs key of None \<Rightarrow> Map.empty | Some m \<Rightarrow> m)
        in case DefineFits_cost_function fitConfig epAngle observable of
             Inl e \<Rightarrow> Inl e
           | Inr costFunction \<Rightarrow>
               DefineFits_observables fitConfig epAngle rest
                 (fs(key \<mapsto> inner((epAngle, correlationType observable) \<mapsto> costFunction))))"

fun DefineFits :: "fit_config \<Rightarrow> JetHAnalysis list \<Rightarrow> fits \<Rightarrow> py_error + fits" where
  "DefineFits fitConfig [] fs = Inr fs"
| "DefineFits fitConfig (jetH # rest) fs =
     (case DefineFits_observables fitConfig (jetH_orientation jetH)
             (dPhiArray jetH @ dPhiSideBandArray jetH) fs of
        Inl e \<Rightarrow> Inl e
      | Inr fs' \<Rightarrow> DefineFits fitConfig rest fs')"

section \<open>fit.py: propagation of the fit errors\<close>

text \<open>
  The fit container: \<^verbatim>\<open>fitContainer.values\<close> (\<^verbatim>\<open>minuit.values\<close>: parameter name to
  fitted value), \<^verbatim>\<open>fitContainer.params\<close> (\<^verbatim>\<open>minuit.fitarg\<close>: the entries
  \<^verbatim>\<open>name\<close>, \<^verbatim>\<open>error_name\<close>, \<^verbatim>\<open>limit_name\<close> and \<^verbatim>\<open>fix_name\<close>) and
  \<^verbatim>\<open>fitContainer.covarianceMatrix\<close> (keyed by pairs of names). The dictionaries are
  association lists in insertion order.
\<close>

datatype param_value = PBool bool | PFloat real | PLimit real real

record FitContainer =
  fit_values :: "(string \<times> real) list"
  fit_params :: "(string \<times> param_value) list"
  covarianceMatrix :: "((string \<times> string) \<times> real) list"

text \<open>Python's \<^verbatim>\<open>sub in s\<close> for strings.\<close>

fun str_contains :: "string \<Rightarrow> string \<Rightarrow> bool" where
  "str_contains sub [] = (sub = [])"
| "str_contains sub (c # cs) = (take (length sub) (c # cs) = sub \<or> str_contains sub cs)"

text \<open>
  Python's \<^verbatim>\<open>s.replace(sub, "")\<close> for a non-empty \<^verbatim>\<open>sub\<close>: the occurrences of
  \<^verbatim>\<open>sub\<close> are removed from left to right, without overlap. The counter is the number
  of characters of the current occurrence still to be dropped.
\<close>

fun str_remove_from :: "nat \<Rightarrow> string \<Rightarrow> string \<Rightarrow> string" where
  "str_remove_from k sub [] = []"
| "str_remove_from k sub (c # cs) =
     (if 0 < k then str_remove_from (k - 1) sub cs
      else if sub \<noteq> [] \<and> take (length sub) (c # cs) = sub
           then str_remove_from (length sub - 1) sub cs
           else c # str_remove_from 0 sub cs)"

definition str_remove :: "string \<Rightarrow> string \<Rightarrow> string" where
  "str_remove sub s = str_remove_from 0 sub s"

text \<open>Python's \<^verbatim>\<open>v == True\<close>: true of \<^verbatim>\<open>True\<close> and of the number 1.\<close>

fun eq_True :: "param_value \<Rightarrow> bool" where
  "eq_True (PBool b) = b"
| "eq_True (PFloat r) = (r = 1)"
| "eq_True (PLimit lo hi) = False"

text \<open>
  \<^verbatim>\<open>
  @staticmethod
  def GetArgsForFunc(func, xValue, fitContainer):
      funcDescription = probfit.describe(func)
      funcDescription.pop(funcDescription.index("x"))
      argsForFuncCall = {}
      argsForFuncCall["x"] = xValue
      for name in funcDescription:
          argsForFuncCall[name] = fitContainer.values[name]
      return argsForFuncCall
  \<close>
  \<^verbatim>\<open>probfit.describe(func)\<close>, the list of the argument names of the function, is the
  first parameter. The result is the dictionary without its first entry \<^verbatim>\<open>"x"\<close>, whose
  value the caller sets for every point.
\<close>

fun lookup_values :: "(string \<times> real) list \<Rightarrow> string list \<Rightarrow> py_error + (string \<times> real) list" where
  "lookup_values vs [] = Inr []"
| "lookup_values vs (name # names) =
     (case map_of vs name of
        None \<Rightarrow> Inl KeyError
      | Some v \<Rightarrow>
          (case lookup_values vs names of
             Inl e \<Rightarrow> Inl e
           | Inr rest \<Rightarrow> Inr ((name, v) # rest)))"

definition GetArgsForFunc :: "string list \<Rightarrow> FitContainer \<Rightarrow> py_error + (string \<times> real) list" where
  "GetArgsForFunc funcDescription fitContainer =
     (if ''x'' \<notin> set funcDescription then Inl ValueError
      else lookup_values (fit_values fitContainer) (remove1 ''x'' funcDescription))"

text \<open>
  The parameters the error runs over:
  \<^verbatim>\<open>
  funcArgs = probfit.describe(fitFunc)
  funcArgs.pop(funcArgs.index("x"))
  for param in fitContainer.params:
      if "fix_" in param and fitContainer.params[param] == True:
          funcArgParamName = param.replace("fix_", "")
          if funcArgParamName in funcArgs:
              funcArgs.pop(funcArgs.index(funcArgParamName))
  \<close>
\<close>

definition drop_fixed :: "(string \<times> param_value) list \<Rightarrow> string \<Rightarrow> string list \<Rightarrow> string list" where
  "drop_fixed params param funcArgs =
     (if str_contains ''fix_'' param
         \<and> (case map_of params param of None \<Rightarrow> False | Some v \<Rightarrow> eq_True v)
      then let funcArgParamName = str_remove ''fix_'' param
           in if funcArgParamName \<in> set funcArgs then remove1 funcArgParamName funcArgs
              else funcArgs
      else funcArgs)"

definition free_funcArgs :: "string list \<Rightarrow> (string \<times> param_value) list \<Rightarrow> string list" where
  "free_funcArgs funcDescription params =
     fold (drop_fixed params) (map fst params) (remove1 ''x'' funcDescription)"

text \<open>Python's \<^verbatim>\<open>list.index(v)\<close>: the position of the first entry equal to \<open>v\<close>.\<close>

fun list_index :: "'a list \<Rightarrow> 'a \<Rightarrow> nat option" where
  "list_index [] v = None"
| "list_index (a # as) v = (if a = v then Some 0 else map_option Suc (list_index as v))"

text \<open>
  One term of the double sum, for the names \<^verbatim>\<open>iName\<close> and \<^verbatim>\<open>jName\<close>:
  \<^verbatim>\<open>
  listOfArgsForFuncCall = list(argsForFuncCall.values())
  iNameIndex = listOfArgsForFuncCall.index(argsForFuncCall[iName])
  jNameIndex = listOfArgsForFuncCall.index(argsForFuncCall[jName])
  errorVal += partialDerivative[iNameIndex] * partialDerivative[jNameIndex]
              * fitContainer.covarianceMatrix[(iName, jName)]
  \<close>
  The index of a parameter in the gradient is found by looking its \<^emph>\<open>value\<close> up in the
  list of the values of all arguments.
\<close>

definition error_term ::
  "(string \<times> real) list \<Rightarrow> real list \<Rightarrow> ((string \<times> string) \<times> real) list
    \<Rightarrow> string \<times> string \<Rightarrow> py_error + real" where
  "error_term argsForFuncCall partialDerivative cov names =
     (let iName = fst names; jName = snd names;
          listOfArgsForFuncCall = map snd argsForFuncCall
      in case (map_of argsForFuncCall iName, map_of argsForFuncCall jName) of
           (Some vi, Some vj) \<Rightarrow>
             (case (list_index listOfArgsForFuncCall vi, list_index listOfArgsForFuncCall vj) of
                (Some iNameIndex, Some jNameIndex) \<Rightarrow>
                  if iNameIndex < length partialDerivative \<and> jNameIndex < length partialDerivative
                  then (case map_of cov (iName, jName) of
                          None \<Rightarrow> Inl KeyError
                        | Some cij \<Rightarrow>
                            Inr (partialDerivative ! iNameIndex * partialDerivative ! jNameIndex * cij))
                  else Inl IndexError
              | _ \<Rightarrow> Inl ValueError)
         | _ \<Rightarrow> Inl KeyError)"

text \<open>\<^verbatim>\<open>errorVal += ...\<close> over a list of terms, stopping at the first one that raises.\<close>

fun sum_terms :: "('a \<Rightarrow> py_error + real) \<Rightarrow> 'a list \<Rightarrow> real \<Rightarrow> py_error + real" where
  "sum_terms f [] errorVal = Inr errorVal"
| "sum_terms f (a # as) errorVal =
     (case f a of Inl e \<Rightarrow> Inl e | Inr t \<Rightarrow> sum_terms f as (errorVal + t))"

text \<open>\<^verbatim>\<open>np.sqrt\<close>: the square root; of a negative number it is \<^verbatim>\<open>nan\<close>, here \<open>None\<close>.\<close>

definition np_sqrt :: "real \<Rightarrow> real option" where
  "np_sqrt r = (if r < 0 then None else Some (sqrt r))"

text \<open>The error at one bin center \<^verbatim>\<open>val\<close>: the body of the loop over the bin centers.\<close>

definition error_at_point ::
  "(real list \<Rightarrow> real list) \<Rightarrow> (string \<times> real) list \<Rightarrow> string list
    \<Rightarrow> ((string \<times> string) \<times> real) list \<Rightarrow> real \<Rightarrow> py_error + real option" where
  "error_at_point partialDerivatives args funcArgs cov val =
     (let argsForFuncCall = (''x'', val) # args;
          partialDerivative = partialDerivatives (map snd argsForFuncCall)
      in case sum_terms (error_term argsForFuncCall partialDerivative cov)
                (List.product funcArgs funcArgs) 0 of
           Inl e \<Rightarrow> Inl e
         | Inr errorVal \<Rightarrow> Inr (np_sqrt errorVal))"

fun map_raising :: "('a \<Rightarrow> py_error + 'b) \<Rightarrow> 'a list \<Rightarrow> py_error + 'b list" where
  "map_raising f [] = Inr []"
| "map_raising f (a # as) =
     (case f a of
        Inl e \<Rightarrow> Inl e
      | Inr b \<Rightarrow> (case map_raising f as of Inl e \<Rightarrow> Inl e | Inr bs \<Rightarrow> Inr (b # bs)))"

text \<open>
  \<^verbatim>\<open>JetHEPFit.CalculateRPFError(fitFunc, histArray, fitContainer, epAngle)\<close>. The fit
  function enters through \<^verbatim>\<open>probfit.describe(fitFunc)\<close> (its argument names) and
  \<^verbatim>\<open>nd.Gradient(funcWrap)\<close> (its numerical gradient, a function of the list of all
  argument values, \<open>x\<close> first); \<^verbatim>\<open>epAngle\<close> is not read.
\<close>

definition CalculateRPFError ::
  "string list \<Rightarrow> (real list \<Rightarrow> real list) \<Rightarrow> HistArray \<Rightarrow> FitContainer
    \<Rightarrow> py_error + real option list" where
  "CalculateRPFError funcDescription partialDerivatives histArray fitContainer =
     (case GetArgsForFunc funcDescription fitContainer of
        Inl e \<Rightarrow> Inl e
      | Inr args \<Rightarrow>
          let funcArgs = free_funcArgs funcDescription (fit_params fitContainer)
          in map_raising
               (error_at_point partialDerivatives args funcArgs (covarianceMatrix fitContainer))
               (binCenters histArray))"

text \<open>
  The error as the specification words it, for comparison: the square root of the double
  sum over the free parameters \<open>i\<close>, \<open>j\<close> of
  \<open>(\<partial>f/\<partial>\<theta>\<^sub>i) (\<partial>f/\<partial>\<theta>\<^sub>j) Cov(\<theta>\<^sub>i, \<theta>\<^sub>j)\<close>, where the derivative with respect to a
  parameter is the component of the gradient at the position of that parameter in the
  argument list.
\<close>

definition derivative_of :: "string list \<Rightarrow> real list \<Rightarrow> string \<Rightarrow> real" where
  "derivative_of funcDescription gradient name =
     gradient ! the (list_index funcDescription name)"

definition rpf_error_spec ::
  "string list \<Rightarrow> real list \<Rightarrow> string list \<Rightarrow> (string \<times> string \<Rightarrow> real) \<Rightarrow> real" where
  "rpf_error_spec funcDescription gradient free cov =
     sqrt (\<Sum>i \<leftarrow> free. \<Sum>j \<leftarrow> free.
             derivative_of funcDescription gradient i * derivative_of funcDescription gradient j
             * cov (i, j))"

text \<open>The argument names of \<^verbatim>\<open>Fourier\<close>, as \<^verbatim>\<open>probfit.describe\<close> lists them.\<close>

definition describe_Fourier :: "string list" where
  "describe_Fourier = [''x'', ''BG'', ''v2_t'', ''v2_a'', ''v4_t'', ''v4_a'', ''v1'', ''v3'']"

text \<open>
  A fit of \<^verbatim>\<open>Fourier\<close> in which \<^verbatim>\<open>v2_t\<close> and \<^verbatim>\<open>v4_t\<close> are free, every other
  parameter is fixed, and the two free parameters have the same fitted value.
\<close>

definition equal_values_fit :: FitContainer where
  "equal_values_fit =
     \<lparr>fit_values = [(''BG'', 1), (''v2_t'', 1 / 10), (''v2_a'', 1 / 5), (''v4_t'', 1 / 10),
                    (''v4_a'', 3 / 10), (''v1'', 0), (''v3'', 1 / 20)],
      fit_params = [(''BG'', PFloat 1), (''fix_BG'', PBool True),
                    (''v2_t'', PFloat (1 / 50)), (''limit_v2_t'', PLimit 0 (1 / 2)),
                    (''v2_a'', PFloat (1 / 50)), (''fix_v2_a'', PBool True),
                    (''v4_t'', PFloat (1 / 100)), (''limit_v4_t'', PLimit 0 (1 / 2)),
                    (''v4_a'', PFloat (1 / 100)), (''fix_v4_a'', PBool True),
                    (''v3'', PFloat 0), (''fix_v3'', PBool True),
                    (''v1'', PFloat 0), (''fix_v1'', PBool True)],
      covarianceMatrix = [((''v2_t'', ''v2_t''), 1 / 100), ((''v2_t'', ''v4_t''), 0),
                          ((''v4_t'', ''v2_t''), 0), ((''v4_t'', ''v4_t''), 1 / 100)]\<rparr>"

text \<open>
  The gradient of \<^verbatim>\<open>Fourier\<close> at \<open>x = 0\<close> and the values of \<open>equal_values_fit\<close>, in the
  order of the arguments: \<open>\<partial>/\<partial>x = 0\<close>, \<open>\<partial>/\<partial>BG = 1 + 2 v1 + 2 v2_t v2_a + 2 v3 + 2 v4_t v4_a\<close>,
  \<open>\<partial>/\<partial>v2_t = 2 BG v2_a\<close>, \<open>\<partial>/\<partial>v2_a = 2 BG v2_t\<close>, \<open>\<partial>/\<partial>v4_t = 2 BG v4_a\<close>,
  \<open>\<partial>/\<partial>v4_a = 2 BG v4_t\<close>, \<open>\<partial>/\<partial>v1 = 2 BG\<close>, \<open>\<partial>/\<partial>v3 = 2 BG\<close>.
\<close>

definition equal_values_gradient :: "real list" where
  "equal_values_gradient = [0, 6 / 5, 2 / 5, 1 / 5, 3 / 5, 1 / 5, 2, 2]"

section \<open>correlations\_helpers.py: the mixed event normalization\<close>

text \<open>
  The histogram library is outside the repository. The methods the normalization calls
  are the fields of an interface: of the 2D histogram \<^verbatim>\<open>mixed_event\<close> and its y axis
  (\<^verbatim>\<open>GetYaxis().FindBin\<close>, \<^verbatim>\<open>GetBinUpEdge\<close>, \<^verbatim>\<open>GetBinLowEdge\<close>, \<^verbatim>\<open>GetBinWidth\<close>,
  \<^verbatim>\<open>ProjectionX(name, firstybin, lastybin)\<close>), of the projected 1D histogram
  (\<^verbatim>\<open>Scale\<close>, which in the source scales in place) and the attribute \<^verbatim>\<open>y\<close> of a
  \<^verbatim>\<open>histogram.Histogram1D\<close>, the array of the bin contents.

  \<^verbatim>\<open>histogram.Histogram1D\<close> is the dataclass of the library with the fields \<^verbatim>\<open>bin_edges\<close>,
  \<^verbatim>\<open>y\<close> and \<^verbatim>\<open>errors_squared\<close>, none with a default: \<^verbatim>\<open>correlations.py\<close> constructs it with
  these three arguments (in \<^verbatim>\<open>fit_delta_eta_correlations\<close> and in
  \<^verbatim>\<open>subtract_delta_eta_correlations\<close>) and converts a ROOT histogram with
  \<^verbatim>\<open>Histogram1D.from_existing_hist\<close>.
\<close>

definition Histogram1D_parameters :: "string list" where
  "Histogram1D_parameters = [''bin_edges'', ''y'', ''errors_squared'']"

record ('h2, 'h1) hist_methods =
  YFindBin :: "'h2 \<Rightarrow> real \<Rightarrow> int"
  YGetBinUpEdge :: "'h2 \<Rightarrow> int \<Rightarrow> real"
  YGetBinLowEdge :: "'h2 \<Rightarrow> int \<Rightarrow> real"
  YGetBinWidth :: "'h2 \<Rightarrow> int \<Rightarrow> real"
  ProjectionX :: "'h2 \<Rightarrow> int \<Rightarrow> int \<Rightarrow> 'h1"
  Scale :: "'h1 \<Rightarrow> real \<Rightarrow> 'h1"
  Histogram1D_y :: "'h1 \<Rightarrow> real list"

text \<open>
  \<^verbatim>\<open>
  def _peak_finding_objects_from_mixed_event(mixed_event, eta_limits):
      eta_limit_bins = [
          mixed_event.GetYaxis().FindBin(eta_limits[0] + epsilon),
          mixed_event.GetYaxis().FindBin(eta_limits[1] - epsilon),
      ]
      projection_length = mixed_event.GetYaxis().GetBinUpEdge(eta_limit_bins[1])
                          - mixed_event.GetYaxis().GetBinLowEdge(eta_limit_bins[0])
      logger.info(f"... {mixed_event.GetYaxis().GetBinWidth(1) / projection_length}")
      peak_finding_hist = mixed_event.ProjectionX(name, eta_limit_bins[0], eta_limit_bins[1])
      peak_finding_hist.Scale(mixed_event.GetYaxis().GetBinWidth(1) / projection_length)
      peak_finding_hist_array = histogram.Histogram1D(peak_finding_hist).y
      return peak_finding_hist, peak_finding_hist_array
  \<close>
  \<^verbatim>\<open>epsilon\<close> is \<^verbatim>\<open>pachyderm.utils.epsilon\<close>, a constant of the library. The division is
  a division of Python floats: a zero \<^verbatim>\<open>projection_length\<close> raises.
  \<^verbatim>\<open>histogram.Histogram1D(peak_finding_hist)\<close> calls the constructor with one positional
  argument and no keyword.
\<close>

definition peak_finding_objects_from_mixed_event ::
  "('h2, 'h1) hist_methods \<Rightarrow> real \<Rightarrow> 'h2 \<Rightarrow> real \<times> real \<Rightarrow> py_error + ('h1 \<times> real list)" where
  "peak_finding_objects_from_mixed_event m epsilon mixed_event eta_limits =
     (let eta_limit_bins = (YFindBin m mixed_event (fst eta_limits + epsilon),
                            YFindBin m mixed_event (snd eta_limits - epsilon));
          projection_length = YGetBinUpEdge m mixed_event (snd eta_limit_bins)
                              - YGetBinLowEdge m mixed_event (fst eta_limit_bins)
      in if projection_length = 0 then Inl ZeroDivisionError
         else
           let peak_finding_hist =
                 ProjectionX m mixed_event (fst eta_limit_bins) (snd eta_limit_bins);
               peak_finding_hist =
                 Scale m peak_finding_hist (YGetBinWidth m mixed_event 1 / projection_length)
           in case bind_arguments Histogram1D_parameters [] 1 [] of
                Some e \<Rightarrow> Inl e
              | None \<Rightarrow>
                  let peak_finding_hist_array = Histogram1D_y m peak_finding_hist
                  in Inr (peak_finding_hist, peak_finding_hist_array))"

text \<open>
  \<^verbatim>\<open>pachyderm.utils.moving_average(arr, n)\<close>, also outside the repository: the mean of
  every window of \<open>n\<close> consecutive entries, \<open>length arr - n + 1\<close> of them, none when the
  array is shorter than the window.
\<close>

definition moving_average :: "real list \<Rightarrow> nat \<Rightarrow> real list" where
  "moving_average arr n =
     map (\<lambda>i. sum_list (take n (drop i arr)) / real n) [0 ..< length arr + 1 - n]"

text \<open>Python's \<^verbatim>\<open>max\<close> of a sequence: \<^verbatim>\<open>ValueError\<close> on an empty one.\<close>

definition py_max :: "real list \<Rightarrow> py_error + real" where
  "py_max xs = (case xs of [] \<Rightarrow> Inl ValueError | y # ys \<Rightarrow> Inr (fold max ys y))"

text \<open>
  \<^verbatim>\<open>
  def measure_mixed_event_normalization(mixed_event, eta_limits):
      peak_finding_hist, peak_finding_hist_array = _peak_finding_objects_from_mixed_event(
          mixed_event = mixed_event, eta_limits = eta_limits)
      moving_avg = utils.moving_average(peak_finding_hist_array, n = 36)
      max_moving_avg = max(moving_avg)
      mixed_event_normalization = max_moving_avg
      if not mixed_event_normalization != 0:
          logger.warning(...)
          mixed_event_normalization = 1
      return mixed_event_normalization
  \<close>
  The result is the normalization together with whether the warning was logged.
\<close>

definition measure_mixed_event_normalization ::
  "('h2, 'h1) hist_methods \<Rightarrow> real \<Rightarrow> 'h2 \<Rightarrow> real \<times> real \<Rightarrow> py_error + (real \<times> bool)" where
  "measure_mixed_event_normalization m epsilon mixed_event eta_limits =
     (case peak_finding_objects_from_mixed_event m epsilon mixed_event eta_limits of
        Inl e \<Rightarrow> Inl e
      | Inr (peak_finding_hist, peak_finding_hist_array) \<Rightarrow>
          let moving_avg = moving_average peak_finding_hist_array 36
          in case py_max moving_avg of
               Inl e \<Rightarrow> Inl e
             | Inr max_moving_avg \<Rightarrow>
                 let mixed_event_normalization = max_moving_avg
                 in if \<not> mixed_event_normalization \<noteq> 0 then Inr (1, True)
                    else Inr (mixed_event_normalization, False))"

text \<open>
  An instance of the interface for the witness: a 2D histogram with the same content in
  every bin (the content is the histogram), 72 bins in delta phi, and delta eta bins of
  width \<open>1/10\<close> starting at \<open>-1\<close>.
\<close>

definition uniform_hist_methods :: "(real, real list) hist_methods" where
  "uniform_hist_methods =
     \<lparr>YFindBin = (\<lambda>h v. \<lfloor>(v + 1) * 10\<rfloor> + 1),
      YGetBinUpEdge = (\<lambda>h b. - 1 + real_of_int b / 10),
      YGetBinLowEdge = (\<lambda>h b. - 1 + (real_of_int b - 1) / 10),
      YGetBinWidth = (\<lambda>h b. 1 / 10),
      ProjectionX = (\<lambda>h b0 b1. replicate 72 (h * real_of_int (b1 - b0 + 1))),
      Scale = (\<lambda>h1 f. map (\<lambda>v. v * f) h1),
      Histogram1D_y = (\<lambda>h1. h1)\<rparr>"

section \<open>correlations.py: the analysis object of one bin\<close>

text \<open>\<^verbatim>\<open>params.SelectedRange(min, max)\<close>; an \<^verbatim>\<open>AnalysisBin\<close> is read through its range.\<close>

record SelectedRange =
  range_min :: real
  range_max :: real

text \<open>
  \<^verbatim>\<open>histogram.Histogram1D(bin_edges, y, errors_squared)\<close> of the histogram library. The
  1D histograms of the analysis are kept in this form (the source converts a ROOT
  histogram with \<^verbatim>\<open>Histogram1D.from_existing_hist\<close> where it needs the arrays).
\<close>

record Histogram1D =
  bin_edges :: "real list"
  y_values :: "real list"
  errors_squared :: "real list"

text \<open>The dataclasses with one entry for the near side and one for the away side
  (\<^verbatim>\<open>CorrelationHistogramsDeltaEta\<close>, \<^verbatim>\<open>DeltaEtaFitObjects\<close>, \<^verbatim>\<open>CorrelationYields\<close>,
  \<^verbatim>\<open>CorrelationWidths\<close>) and with one entry for the signal and one for the background
  dominated region (\<^verbatim>\<open>CorrelationHistogramsDeltaPhi\<close>).\<close>

record 'a NearAway =
  near :: 'a
  away :: 'a

record 'a SignalBackground =
  signal_dom :: 'a
  background_dom :: 'a

record 'h CorrelationHistograms2D =
  raw :: "'h option"
  mixed_event :: "'h option"
  signal :: "'h option"

text \<open>\<^verbatim>\<open>PedestalFitResult(value, error)\<close> and
  \<^verbatim>\<open>analysis_objects.ExtractedObservable(value, error)\<close>.\<close>

record PedestalFitResult =
  fit_value :: real
  fit_error :: real

record ExtractedObservable =
  obs_value :: real
  obs_error :: real

text \<open>
  The result of a fit as the analysis reads it (\<^verbatim>\<open>values_at_minimum\<close>,
  \<^verbatim>\<open>errors_on_parameters\<close>), the component of the reaction plane fit that an analysis
  keeps as \<^verbatim>\<open>fit_object\<close> (its methods \<^verbatim>\<open>evaluate_background\<close> and
  \<^verbatim>\<open>calculate_background_function_errors\<close> are functions of the array of \<open>x\<close> values),
  and the width objects: \<^verbatim>\<open>extracted.ExtractedWidth(properties, fit_obj, fit_args)\<close> with
  \<^verbatim>\<open>fitting.FitPedestalWithExtendedGaussian(fit_range, user_arguments)\<close>.
\<close>

record FitResult =
  values_at_minimum :: "(string \<times> real) list"
  errors_on_parameters :: "(string \<times> real) list"

record FitComponent =
  evaluate_background :: "real list \<Rightarrow> real list"
  calculate_background_function_errors :: "real list \<Rightarrow> real list"
  component_fit_result :: FitResult

record UserArguments =
  mean :: real
  fix_mean :: bool
  width :: real
  limit_width :: "real \<times> real"
  error_width :: "real option"

record FitPedestalWithExtendedGaussian =
  fit_range :: SelectedRange
  user_arguments :: UserArguments

record ExtractedWidth =
  properties_name :: string
  properties_fit_range :: SelectedRange
  fit_obj :: FitPedestalWithExtendedGaussian
  fit_result :: "FitResult option"

text \<open>\<^verbatim>\<open>task_config["processingOptions"]\<close> of an analysis: the entries that select
  between computing and loading (the plotting switches change no state).\<close>

record ProcessingOptions =
  generate2DCorrelations :: bool
  generate1DCorrelations :: bool
  fit1DCorrelations :: bool

text \<open>
  The two output files of an analysis. \<open>None\<close> is a file that does not exist. The ROOT
  file maps the name of an observable to a 2D or a 1D histogram, the YAML file maps keys
  to subtracted histograms, the delta eta fit results, the yields or the widths. A YAML
  file that exists holds a mapping, which is what every write of the analysis leaves: the
  empty mapping \<^verbatim>\<open>{}\<close> when a write found nothing to store.
\<close>

datatype 'h root_object = TH2 'h | TH1 Histogram1D

datatype yaml_object =
    YamlHist Histogram1D
  | YamlDeltaEtaFit "PedestalFitResult NearAway"
  | YamlYields "ExtractedObservable NearAway"
  | YamlWidths "ExtractedWidth NearAway"

text \<open>
  The attributes of \<^verbatim>\<open>Correlations\<close>. \<open>bin_identifier\<close> (\<^verbatim>\<open>self.identifier\<close>) is the string built from the jet
  and track pt bins; \<open>delta_phi_yield_limit\<close> and \<open>delta_eta_yield_limit\<close> are the entries
  of \<^verbatim>\<open>task_config\<close> that \<^verbatim>\<open>extract_yields\<close> reads, \<open>mixed_event_compare_options\<close> and
  \<open>mixed_event_eta_limits\<close> the entries
  \<^verbatim>\<open>task_config["mixedEventNormalizationOptions"].get("compareOptions", False)\<close> and
  \<^verbatim>\<open>.get("etaLimits", [-0.3, 0.3])\<close> that the 2D stage reads. \<open>fit_object\<close> is \<open>None\<close> as
  long as the attribute is not set.
\<close>

record 'h Correlations =
  bin_identifier :: string
  reaction_plane_orientation :: ReactionPlaneOrientation
  track_pt :: SelectedRange
  delta_phi_yield_limit :: real
  delta_eta_yield_limit :: real
  mixed_event_compare_options :: bool
  mixed_event_eta_limits :: "real \<times> real"
  processing_options :: ProcessingOptions
  ran_projections :: bool
  ran_fitting :: bool
  ran_post_fit_processing :: bool
  signal_dominated_eta_region :: SelectedRange
  background_dominated_eta_region :: SelectedRange
  near_side_phi_region :: SelectedRange
  away_side_phi_region :: SelectedRange
  number_of_triggers_observable :: "'h option"
  number_of_triggers :: real
  correlation_hists_2d :: "'h CorrelationHistograms2D"
  correlation_hists_delta_phi :: "Histogram1D option SignalBackground"
  correlation_hists_delta_eta :: "Histogram1D option NearAway"
  correlation_hists_delta_phi_subtracted :: "Histogram1D option SignalBackground"
  correlation_hists_delta_eta_subtracted :: "Histogram1D option NearAway"
  yields_delta_phi :: "ExtractedObservable NearAway"
  yields_delta_eta :: "ExtractedObservable NearAway"
  widths_delta_phi :: "ExtractedWidth NearAway"
  widths_delta_eta :: "ExtractedWidth NearAway"
  fit_object :: "FitComponent option"
  fit_objects_delta_eta :: "PedestalFitResult NearAway"
  root_file :: "(string \<times> 'h root_object) list option"
  yaml_file :: "(string \<times> yaml_object) list option"

text \<open>
  The entries of \<^verbatim>\<open>task_config\<close> that \<^verbatim>\<open>Correlations.__init__\<close> reads. A range is a
  list of two numbers, unpacked into \<^verbatim>\<open>params.SelectedRange(*values)\<close>.
\<close>

record TaskConfig =
  deltaEtaRanges_signalDominated :: "real \<times> real"
  deltaEtaRanges_backgroundDominated :: "real \<times> real"
  deltaPhiRanges_nearSide :: "real \<times> real"
  deltaPhiRanges_awaySide :: "real \<times> real"
  config_delta_phi_yield_limit :: real
  config_delta_eta_yield_limit :: real
  mixedEventNormalizationOptions_compareOptions :: "bool option"
  mixedEventNormalizationOptions_etaLimits :: "(real \<times> real) option"
  processingOptions :: ProcessingOptions

definition make_range :: "real \<times> real \<Rightarrow> SelectedRange" where
  "make_range values = \<lparr>range_min = fst values, range_max = snd values\<rparr>"

text \<open>
  The width objects of \<^verbatim>\<open>Correlations.__init__\<close>: an \<^verbatim>\<open>extracted.ExtractedWidth\<close> with the
  range recorded in its \<^verbatim>\<open>properties\<close>, the \<^verbatim>\<open>fit_range\<close> of its fit object and the
  \<^verbatim>\<open>mean\<close>, \<^verbatim>\<open>width\<close> and upper \<^verbatim>\<open>limit_width\<close> of the \<^verbatim>\<open>user_arguments\<close>
  (\<^verbatim>\<open>fix_mean\<close> is \<^verbatim>\<open>True\<close> and the lower limit 0.05 in all four).
\<close>

definition make_width ::
  "SelectedRange \<Rightarrow> SelectedRange \<Rightarrow> real \<Rightarrow> real \<Rightarrow> real \<Rightarrow> ExtractedWidth" where
  "make_width properties_range fit_obj_range mean_arg width_arg upper_limit =
     \<lparr>properties_name = [],
      properties_fit_range = properties_range,
      fit_obj = \<lparr>fit_range = fit_obj_range,
                 user_arguments = \<lparr>mean = mean_arg, fix_mean = True, width = width_arg,
                                    limit_width = (5 / 100, upper_limit), error_width = None\<rparr>\<rparr>,
      fit_result = None\<rparr>"

text \<open>
  \<^verbatim>\<open>Correlations.__init__\<close>. The identifier, the orientation and the track pt bin come
  from the arguments; the two files are whatever is on disk when the object is made.
  \<^verbatim>\<open>
  near_side_values = [np.pi * val for val in near_side_values]
  away_side_values = [np.pi + np.pi * val for val in away_side_values]
  ...
  self.widths_delta_phi = CorrelationWidths(
      near_side = extracted.ExtractedWidth(
          properties = {"name": "", "fit_range": self.near_side_phi_region.range},
          fit_obj = fitting.FitPedestalWithExtendedGaussian(
              fit_range = self.near_side_phi_region.range,
              user_arguments = {"mean": 0, "fix_mean": True,
                                "width": 0.15, "limit_width": (0.05, 1.0)}),
          fit_args = {}),
      away_side = extracted.ExtractedWidth(
          properties = {"name": "", "fit_range": self.away_side_phi_region.range},
          fit_obj = fitting.FitPedestalWithExtendedGaussian(
              fit_range = self.near_side_phi_region.range,
              user_arguments = {"mean": np.pi, "fix_mean": True,
                                "width": 0.3, "limit_width": (0.05, 1.5)}),
          fit_args = {}))
  self.widths_delta_eta = CorrelationWidths(
      near_side = extracted.ExtractedWidth(
          properties = {"name": "", "fit_range": self.signal_dominated_eta_region.range},
          fit_obj = fitting.FitPedestalWithExtendedGaussian(
              fit_range = self.signal_dominated_eta_region.range,
              user_arguments = {"mean": 0, ... "width": 0.15, "limit_width": (0.05, 1.0)}), ...),
      away_side = extracted.ExtractedWidth(
          properties = {"name": "", "fit_range": self.signal_dominated_eta_region.range},
          fit_obj = fitting.FitPedestalWithExtendedGaussian(
              fit_range = self.near_side_phi_region.range,
              user_arguments = {"mean": 0, ... "width": 0.3, "limit_width": (0.05, 1.5)}), ...))
  \<close>
\<close>

definition Correlations_init ::
  "string \<Rightarrow> ReactionPlaneOrientation \<Rightarrow> SelectedRange \<Rightarrow> TaskConfig
    \<Rightarrow> (string \<times> 'h root_object) list option \<Rightarrow> (string \<times> yaml_object) list option
    \<Rightarrow> 'h Correlations" where
  "Correlations_init ident orientation track_pt_bin task_config root_on_disk yaml_on_disk =
     (let signal_dominated_eta = make_range (deltaEtaRanges_signalDominated task_config);
          background_dominated_eta = make_range (deltaEtaRanges_backgroundDominated task_config);
          near_side_values = (pi * fst (deltaPhiRanges_nearSide task_config),
                              pi * snd (deltaPhiRanges_nearSide task_config));
          near_side_phi = make_range near_side_values;
          away_side_values = (pi + pi * fst (deltaPhiRanges_awaySide task_config),
                              pi + pi * snd (deltaPhiRanges_awaySide task_config));
          away_side_phi = make_range away_side_values
      in \<lparr>bin_identifier = ident,
          reaction_plane_orientation = orientation,
          track_pt = track_pt_bin,
          delta_phi_yield_limit = config_delta_phi_yield_limit task_config,
          delta_eta_yield_limit = config_delta_eta_yield_limit task_config,
          mixed_event_compare_options =
            (case mixedEventNormalizationOptions_compareOptions task_config of
               None \<Rightarrow> False | Some compare_options \<Rightarrow> compare_options),
          mixed_event_eta_limits =
            (case mixedEventNormalizationOptions_etaLimits task_config of
               None \<Rightarrow> (- (3 / 10), 3 / 10) | Some eta_limits \<Rightarrow> eta_limits),
          processing_options = processingOptions task_config,
          ran_projections = False,
          ran_fitting = False,
          ran_post_fit_processing = False,
          signal_dominated_eta_region = signal_dominated_eta,
          background_dominated_eta_region = background_dominated_eta,
          near_side_phi_region = near_side_phi,
          away_side_phi_region = away_side_phi,
          number_of_triggers_observable = None,
          number_of_triggers = 0,
          correlation_hists_2d = \<lparr>raw = None, mixed_event = None, signal = None\<rparr>,
          correlation_hists_delta_phi = \<lparr>signal_dom = None, background_dom = None\<rparr>,
          correlation_hists_delta_eta = \<lparr>near = None, away = None\<rparr>,
          correlation_hists_delta_phi_subtracted = \<lparr>signal_dom = None, background_dom = None\<rparr>,
          correlation_hists_delta_eta_subtracted = \<lparr>near = None, away = None\<rparr>,
          yields_delta_phi = \<lparr>near = \<lparr>obs_value = - 1, obs_error = - 1\<rparr>,
                              away = \<lparr>obs_value = - 1, obs_error = - 1\<rparr>\<rparr>,
          yields_delta_eta = \<lparr>near = \<lparr>obs_value = - 1, obs_error = - 1\<rparr>,
                              away = \<lparr>obs_value = - 1, obs_error = - 1\<rparr>\<rparr>,
          widths_delta_phi =
            \<lparr>near = make_width near_side_phi near_side_phi 0 (15 / 100) 1,
             away = make_width away_side_phi near_side_phi pi (3 / 10) (15 / 10)\<rparr>,
          widths_delta_eta =
            \<lparr>near = make_width signal_dominated_eta signal_dominated_eta 0 (15 / 100) 1,
             away = make_width signal_dominated_eta near_side_phi 0 (3 / 10) (15 / 10)\<rparr>,
          fit_object = None,
          fit_objects_delta_eta = \<lparr>near = \<lparr>fit_value = - 1, fit_error = - 1\<rparr>,
                                   away = \<lparr>fit_value = - 1, fit_error = - 1\<rparr>\<rparr>,
          root_file = root_on_disk,
          yaml_file = yaml_on_disk\<rparr>)"

subsection \<open>Histogram arithmetic\<close>

text \<open>\<^verbatim>\<open>Histogram1D.x\<close>: the bin centers, one fewer than the bin edges.\<close>

definition Histogram1D_x :: "Histogram1D \<Rightarrow> real list" where
  "Histogram1D_x h =
     map (\<lambda>(lo, hi). lo + (hi - lo) / 2) (zip (butlast (bin_edges h)) (tl (bin_edges h)))"

text \<open>
  Modelled from the spec: the subtraction of two \<^verbatim>\<open>Histogram1D\<close> (the histogram library
  is not part of the sources). The values are subtracted bin by bin and the error of a bin
  is the quadrature sum of the two errors, that is, the squared errors add. Histograms
  with different bin edges cannot be subtracted (\<^verbatim>\<open>TypeError\<close>), nor arrays of different
  lengths (\<^verbatim>\<open>ValueError\<close>).
\<close>

definition Histogram1D_sub :: "Histogram1D \<Rightarrow> Histogram1D \<Rightarrow> py_error + Histogram1D" where
  "Histogram1D_sub h other =
     (if bin_edges h \<noteq> bin_edges other then Inl TypeError
      else if length (y_values h) \<noteq> length (y_values other)
              \<or> length (errors_squared h) \<noteq> length (errors_squared other) then Inl ValueError
      else Inr \<lparr>bin_edges = bin_edges h,
                y_values = map (\<lambda>(a, b). a - b) (zip (y_values h) (y_values other)),
                errors_squared =
                  map (\<lambda>(a, b). a + b) (zip (errors_squared h) (errors_squared other))\<rparr>)"

text \<open>\<^verbatim>\<open>Histogram1D.errors\<close>: the square roots of the squared errors.\<close>

definition Histogram1D_errors :: "Histogram1D \<Rightarrow> real list" where
  "Histogram1D_errors h = map sqrt (errors_squared h)"

subsection \<open>Subtraction of the delta eta pedestal\<close>

text \<open>
  The constant background histogram of \<^verbatim>\<open>subtract_delta_eta_correlations\<close>:
  \<^verbatim>\<open>
  background_hist = histogram.Histogram1D(
      bin_edges = correlation_hist.bin_edges,
      y = fit_object.value * np.ones(len(correlation_hist.x)),
      errors_squared = (fit_object.error * np.ones(len(correlation_hist.x))) ** 2)
  \<close>
\<close>

definition pedestal_background_hist :: "PedestalFitResult \<Rightarrow> Histogram1D \<Rightarrow> Histogram1D" where
  "pedestal_background_hist pedestal correlation_hist =
     \<lparr>bin_edges = bin_edges correlation_hist,
      y_values = replicate (length (Histogram1D_x correlation_hist)) (fit_value pedestal * 1),
      errors_squared =
        replicate (length (Histogram1D_x correlation_hist)) ((fit_error pedestal * 1)\<^sup>2)\<rparr>"

text \<open>
  \<^verbatim>\<open>
  def subtract_delta_eta_correlations(self):
      attribute_names = ["near_side", "away_side"]
      # We will use the near-side pedestal for _both_ the near-side and away-side
      fit_object = self.fit_objects_delta_eta.near_side
      for attribute_name in attribute_names:
          correlation = getattr(self.correlation_hists_delta_eta, attribute_name)
          correlation_hist = histogram.Histogram1D.from_existing_hist(correlation.hist)
          background_hist = ...
          subtracted_hist = correlation_hist - background_hist
          utils.recursive_setattr(self.correlation_hists_delta_eta_subtracted,
                                  f"{attribute_name}.hist", subtracted_hist)
  \<close>
  A histogram that is still \<^verbatim>\<open>None\<close> cannot be converted. The near side is stored before
  the away side is read.
\<close>

definition subtract_pedestal :: "PedestalFitResult \<Rightarrow> Histogram1D option \<Rightarrow> py_error + Histogram1D" where
  "subtract_pedestal pedestal correlation =
     (case correlation of
        None \<Rightarrow> Inl AttributeError
      | Some correlation_hist \<Rightarrow>
          Histogram1D_sub correlation_hist (pedestal_background_hist pedestal correlation_hist))"

definition subtract_delta_eta_correlations ::
  "'h Correlations \<Rightarrow> py_error option \<times> 'h Correlations" where
  "subtract_delta_eta_correlations self =
     (let pedestal = near (fit_objects_delta_eta self)
      in case subtract_pedestal pedestal (near (correlation_hists_delta_eta self)) of
           Inl e \<Rightarrow> (Some e, self)
         | Inr subtracted_hist \<Rightarrow>
             let self = self\<lparr>correlation_hists_delta_eta_subtracted :=
                           (correlation_hists_delta_eta_subtracted self)
                             \<lparr>near := Some subtracted_hist\<rparr>\<rparr>
             in case subtract_pedestal pedestal (away (correlation_hists_delta_eta self)) of
                  Inl e \<Rightarrow> (Some e, self)
                | Inr subtracted_hist \<Rightarrow>
                    (None, self\<lparr>correlation_hists_delta_eta_subtracted :=
                                  (correlation_hists_delta_eta_subtracted self)
                                    \<lparr>away := Some subtracted_hist\<rparr>\<rparr>))"

subsection \<open>Yields\<close>

text \<open>
  \<^verbatim>\<open>
  def _extract_yield_from_hist(self, hist, central_value, yield_limit):
      yield_value, yield_error = hist.integral(
          min_value = central_value - yield_limit + epsilon,
          max_value = central_value + yield_limit - epsilon)
      track_pt_bin_width = self.track_pt.max - self.track_pt.min
      yield_value /= track_pt_bin_width
      yield_error /= track_pt_bin_width
      observable = analysis_objects.ExtractedObservable(value = yield_value, error = yield_error)
      return observable
  \<close>
  \<^verbatim>\<open>Histogram1D.integral(min_value, max_value)\<close> of the histogram library and \<^verbatim>\<open>epsilon\<close>
  are parameters. A histogram that is still \<^verbatim>\<open>None\<close> has no \<^verbatim>\<open>integral\<close>. A track pt
  bin of zero width gives no yield (the division raises or, on numpy floats, is infinite).
\<close>

definition extract_yield_from_hist ::
  "(Histogram1D \<Rightarrow> real \<Rightarrow> real \<Rightarrow> real \<times> real) \<Rightarrow> real \<Rightarrow> 'h Correlations
    \<Rightarrow> Histogram1D option \<Rightarrow> real \<Rightarrow> real \<Rightarrow> py_error + ExtractedObservable" where
  "extract_yield_from_hist integral epsilon self hist_opt central_value yield_limit =
     (case hist_opt of
        None \<Rightarrow> Inl AttributeError
      | Some h \<Rightarrow>
          let integrated = integral h (central_value - yield_limit + epsilon)
                                      (central_value + yield_limit - epsilon);
              yield_value = fst integrated;
              yield_error = snd integrated;
              track_pt_bin_width = range_max (track_pt self) - range_min (track_pt self)
          in if track_pt_bin_width = 0 then Inl ZeroDivisionError
             else Inr \<lparr>obs_value = yield_value / track_pt_bin_width,
                       obs_error = yield_error / track_pt_bin_width\<rparr>)"

text \<open>
  \<^verbatim>\<open>
  def extract_yields(self):
      delta_phi_regions = [("near_side", 0), ("away_side", np.pi)]
      for attribute_name, central_value in delta_phi_regions:
          observable = self._extract_yield_from_hist(
              hist = self.correlation_hists_delta_phi_subtracted.signal_dominated.hist,
              central_value = central_value,
              yield_limit = self.task_config["delta_phi_yield_limit"])
          setattr(self.yields_delta_phi, attribute_name, observable)
      delta_eta_regions = [("near_side", 0), ("away_side", 0)]
      for attribute_name, central_value in delta_eta_regions:
          observable = self._extract_yield_from_hist(
              hist = utils.recursive_getattr(self.correlation_hists_delta_eta_subtracted,
                                             f"{attribute_name}.hist"),
              central_value = central_value,
              yield_limit = self.task_config["delta_eta_yield_limit"])
          setattr(self.yields_delta_eta, attribute_name, observable)
  \<close>
\<close>

definition extract_yields ::
  "(Histogram1D \<Rightarrow> real \<Rightarrow> real \<Rightarrow> real \<times> real) \<Rightarrow> real \<Rightarrow> 'h Correlations
    \<Rightarrow> py_error option \<times> 'h Correlations" where
  "extract_yields integral epsilon self =
     (case extract_yield_from_hist integral epsilon self
             (signal_dom (correlation_hists_delta_phi_subtracted self)) 0
             (delta_phi_yield_limit self) of
        Inl e \<Rightarrow> (Some e, self)
      | Inr observable \<Rightarrow>
     let self = self\<lparr>yields_delta_phi := (yields_delta_phi self)\<lparr>near := observable\<rparr>\<rparr> in
      case extract_yield_from_hist integral epsilon self
             (signal_dom (correlation_hists_delta_phi_subtracted self)) pi
             (delta_phi_yield_limit self) of
        Inl e \<Rightarrow> (Some e, self)
      | Inr observable \<Rightarrow>
     let self = self\<lparr>yields_delta_phi := (yields_delta_phi self)\<lparr>away := observable\<rparr>\<rparr> in
      case extract_yield_from_hist integral epsilon self
             (near (correlation_hists_delta_eta_subtracted self)) 0
             (delta_eta_yield_limit self) of
        Inl e \<Rightarrow> (Some e, self)
      | Inr observable \<Rightarrow>
     let self = self\<lparr>yields_delta_eta := (yields_delta_eta self)\<lparr>near := observable\<rparr>\<rparr> in
      case extract_yield_from_hist integral epsilon self
             (away (correlation_hists_delta_eta_subtracted self)) 0
             (delta_eta_yield_limit self) of
        Inl e \<Rightarrow> (Some e, self)
      | Inr observable \<Rightarrow>
          (None, self\<lparr>yields_delta_eta := (yields_delta_eta self)\<lparr>away := observable\<rparr>\<rparr>))"

subsection \<open>An example bin\<close>

text \<open>A configuration and analysis objects at three moments of a run, for the witnesses:
  freshly constructed, after the projections, and after the subtraction.\<close>

definition example_task_config :: TaskConfig where
  "example_task_config =
     \<lparr>deltaEtaRanges_signalDominated = (0, 6 / 10),
      deltaEtaRanges_backgroundDominated = (8 / 10, 12 / 10),
      deltaPhiRanges_nearSide = (- (1 / 2), 1 / 2),
      deltaPhiRanges_awaySide = (- (1 / 2), 1 / 2),
      config_delta_phi_yield_limit = 1,
      config_delta_eta_yield_limit = 6 / 10,
      mixedEventNormalizationOptions_compareOptions = None,
      mixedEventNormalizationOptions_etaLimits = None,
      processingOptions = \<lparr>generate2DCorrelations = True, generate1DCorrelations = False,
                            fit1DCorrelations = False\<rparr>\<rparr>"

definition example_bin :: "ReactionPlaneOrientation \<Rightarrow> unit Correlations" where
  "example_bin orientation =
     Correlations_init ''jetPt_20_40_trackPt_1_2'' orientation \<lparr>range_min = 1, range_max = 2\<rparr>
       example_task_config None None"

definition example_hist :: Histogram1D where
  "example_hist = \<lparr>bin_edges = [- 1, 0, 1], y_values = [5, 7], errors_squared = [9, 16]\<rparr>"

definition projected_bin :: "unit Correlations" where
  "projected_bin =
     (example_bin inclusive)
       \<lparr>ran_projections := True,
        correlation_hists_delta_phi := \<lparr>signal_dom = Some example_hist, background_dom = Some example_hist\<rparr>,
        correlation_hists_delta_eta := \<lparr>near = Some example_hist, away = Some example_hist\<rparr>,
        fit_objects_delta_eta := \<lparr>near = \<lparr>fit_value = 2, fit_error = 4\<rparr>,
                                  away = \<lparr>fit_value = 3, fit_error = 1\<rparr>\<rparr>\<rparr>"

definition subtracted_bin :: "unit Correlations" where
  "subtracted_bin =
     projected_bin
       \<lparr>ran_fitting := True, ran_post_fit_processing := True,
        correlation_hists_delta_phi_subtracted := \<lparr>signal_dom = Some example_hist, background_dom = None\<rparr>,
        correlation_hists_delta_eta_subtracted := \<lparr>near = Some example_hist, away = Some example_hist\<rparr>\<rparr>"

section \<open>correlations.py: the stages of the analysis\<close>

subsection \<open>Names and files\<close>

text \<open>
  The name of an observable, under which its histogram is written:
  \<^verbatim>\<open>f"jetH_{self.axis}_{analysis_identifier}_{self.type}"\<close>, followed by \<^verbatim>\<open>_subtracted\<close> for
  the subtracted observables. The axis and the type are written by their member names.
\<close>

definition observable_name :: "string \<Rightarrow> string \<Rightarrow> string \<Rightarrow> string" where
  "observable_name axis ident type_name = ''jetH_'' @ axis @ ''_'' @ ident @ ''_'' @ type_name"

definition subtracted_name :: "string \<Rightarrow> string \<Rightarrow> string \<Rightarrow> string" where
  "subtracted_name axis ident type_name = observable_name axis ident type_name @ ''_subtracted''"

text \<open>
  \<^verbatim>\<open>_write_hists_to_root_file(hists, mode = "UPDATE")\<close>: the file is opened (and made if it
  is not there) and every histogram that is not \<^verbatim>\<open>None\<close> is written under its name.
\<close>

definition write_hists_to_root_file ::
  "(string \<times> 'h root_object option) list \<Rightarrow> 'h Correlations \<Rightarrow> 'h Correlations" where
  "write_hists_to_root_file hists self =
     self\<lparr>root_file :=
       Some (fold (\<lambda>(name, h) out. case h of None \<Rightarrow> out | Some obj \<Rightarrow> AList.update name obj out)
               hists (case root_file self of None \<Rightarrow> [] | Some out \<Rightarrow> out))\<rparr>"

text \<open>\<^verbatim>\<open>f.Get(observable.name)\<close> for a 2D and for a 1D observable: \<^verbatim>\<open>None\<close> when the file has
  no such histogram.\<close>

definition get_2d :: "(string \<times> 'h root_object) list \<Rightarrow> string \<Rightarrow> 'h option" where
  "get_2d f name = (case map_of f name of Some (TH2 h) \<Rightarrow> Some h | _ \<Rightarrow> None)"

definition get_1d :: "(string \<times> 'h root_object) list \<Rightarrow> string \<Rightarrow> Histogram1D option" where
  "get_1d f name = (case map_of f name of Some (TH1 h) \<Rightarrow> Some h | _ \<Rightarrow> None)"

text \<open>
  The YAML file is opened with \<^verbatim>\<open>"a+"\<close> (made if it is not there), its content loaded
  (\<^verbatim>\<open>{}\<close> for an empty file), the entries stored and the whole written back.
\<close>

definition yaml_dump :: "(string \<times> yaml_object) list \<Rightarrow> 'h Correlations \<Rightarrow> 'h Correlations" where
  "yaml_dump entries self =
     self\<lparr>yaml_file :=
       Some (fold (\<lambda>(k, v) output. AList.update k v output) entries
               (case yaml_file self of None \<Rightarrow> [] | Some output \<Rightarrow> output))\<rparr>"

text \<open>\<^verbatim>\<open>_write_hists_to_yaml(hists)\<close>: only the histograms that are not \<^verbatim>\<open>None\<close>.\<close>

definition write_hists_to_yaml ::
  "(string \<times> Histogram1D option) list \<Rightarrow> 'h Correlations \<Rightarrow> 'h Correlations" where
  "write_hists_to_yaml hists self =
     yaml_dump (concat (map (\<lambda>(name, h). case h of None \<Rightarrow> [] | Some hh \<Rightarrow> [(name, YamlHist hh)])
                          hists)) self"

text \<open>\<^verbatim>\<open>hists_in_file.get(observable.name, None)\<close>.\<close>

definition yaml_get_hist :: "(string \<times> yaml_object) list \<Rightarrow> string \<Rightarrow> Histogram1D option" where
  "yaml_get_hist f name = (case map_of f name of Some (YamlHist h) \<Rightarrow> Some h | _ \<Rightarrow> None)"

subsection \<open>The computations outside the analysis object\<close>

text \<open>
  What the stages compute with the projectors, the minimizer and the histogram library
  enters as the fields of an environment; each is a function of what the source passes
  and may raise:
  \<^item> the sparse projectors of the 2D stage (\<^verbatim>\<open>projector.project()\<close> for each of
    \<^verbatim>\<open>self.sparse_projectors\<close>): the trigger spectrum and the raw and mixed event
    histograms;
  \<^item> \<^verbatim>\<open>correlations_helpers.determine_number_of_triggers\<close>, which integrates the trigger
    spectrum over the jet pt bin with \<^verbatim>\<open>FindBin\<close> and \<^verbatim>\<open>Integral\<close> of the histogram;
  \<^item> the body of \<^verbatim>\<open>correlations_helpers.post_projection_processing_for_2d_correlation\<close>,
    which scales the histogram by \<^verbatim>\<open>1.0 / normalization_factor\<close> and sets its titles;
  \<^item> the methods of the ROOT histograms that the mixed event normalization calls;
  \<^item> what \<^verbatim>\<open>compare_mixed_event_normalization_options\<close> and the plot of the comparison do
    after the peak finding objects are made (\<^verbatim>\<open>scipy\<close>, fits and plotting);
  \<^item> \<^verbatim>\<open>Clone\<close> and \<^verbatim>\<open>Divide\<close> of a 2D histogram;
  \<^item> the 1D stage (\<^verbatim>\<open>_setup_1d_projectors\<close>, \<^verbatim>\<open>_create_1d_correlations\<close>,
    \<^verbatim>\<open>_post_1d_projection_scaling\<close>): the delta phi and delta eta histograms;
  \<^item> \<^verbatim>\<open>fitting.fit_pedestal_to_delta_eta_background_dominated_region(h, fit_range)\<close>;
  \<^item> the reaction plane fit of one group of analyses, set up with the user arguments of
    \<^verbatim>\<open>inclusive_analysis\<close>, the eta regions of \<^verbatim>\<open>analysis\<close> and the histograms of the group:
    \<^verbatim>\<open>fit_success\<close> and the fit object;
  \<^item> the fit of one width, \<^verbatim>\<open>fit_obj.fit(h)\<close>;
  \<^item> \<^verbatim>\<open>Histogram1D.integral\<close> and \<^verbatim>\<open>epsilon\<close>.
\<close>

record ReactionPlaneFit =
  components :: "(ReactionPlaneOrientation \<times> FitComponent) list"

record 'h Environment =
  env_project_sparse :: "'h Correlations \<Rightarrow> py_error + ('h option \<times> 'h option \<times> 'h option)"
  env_determine_number_of_triggers :: "'h option \<Rightarrow> py_error + real"
  env_post_projection_processing :: "'h option \<Rightarrow> real \<Rightarrow> py_error + 'h option"
  env_hist_methods :: "('h, 'h) hist_methods"
  env_compare_mixed_event_normalization_options :: "'h \<Rightarrow> py_error option"
  env_Clone :: "'h \<Rightarrow> 'h"
  env_Divide :: "'h \<Rightarrow> 'h option \<Rightarrow> py_error + 'h"
  env_create_1d_correlations ::
    "'h Correlations
      \<Rightarrow> py_error + (Histogram1D option SignalBackground \<times> Histogram1D option NearAway)"
  env_fit_pedestal :: "Histogram1D \<Rightarrow> SelectedRange \<Rightarrow> py_error + (real \<times> real)"
  env_reaction_plane_fit ::
    "'h Correlations \<Rightarrow> 'h Correlations \<Rightarrow> 'h Correlations list
      \<Rightarrow> py_error + (bool \<times> ReactionPlaneFit)"
  env_width_fit :: "FitPedestalWithExtendedGaussian \<Rightarrow> Histogram1D option \<Rightarrow> py_error + FitResult"
  env_integral :: "Histogram1D \<Rightarrow> real \<Rightarrow> real \<Rightarrow> real \<times> real"
  env_epsilon :: real

subsection \<open>Projections\<close>

definition write_2d_correlations :: "'h Correlations \<Rightarrow> 'h Correlations" where
  "write_2d_correlations self =
     write_hists_to_root_file
       [(observable_name ''delta_eta_delta_phi'' (bin_identifier self) ''raw'',
           map_option TH2 (raw (correlation_hists_2d self))),
        (observable_name ''delta_eta_delta_phi'' (bin_identifier self) ''mixed_event'',
           map_option TH2 (mixed_event (correlation_hists_2d self))),
        (observable_name ''delta_eta_delta_phi'' (bin_identifier self) ''signal'',
           map_option TH2 (signal (correlation_hists_2d self)))] self"

definition write_number_of_triggers_hist :: "'h Correlations \<Rightarrow> 'h Correlations" where
  "write_number_of_triggers_hist self =
     write_hists_to_root_file
       [(''jetH_number_of_triggers'', map_option TH2 (number_of_triggers_observable self))] self"

definition write_1d_correlations :: "'h Correlations \<Rightarrow> 'h Correlations" where
  "write_1d_correlations self =
     write_hists_to_root_file
       [(observable_name ''delta_eta'' (bin_identifier self) ''near_side'',
           map_option TH1 (near (correlation_hists_delta_eta self))),
        (observable_name ''delta_eta'' (bin_identifier self) ''away_side'',
           map_option TH1 (away (correlation_hists_delta_eta self)))]
       (write_hists_to_root_file
          [(observable_name ''delta_phi'' (bin_identifier self) ''signal_dominated'',
              map_option TH1 (signal_dom (correlation_hists_delta_phi self))),
           (observable_name ''delta_phi'' (bin_identifier self) ''background_dominated'',
              map_option TH1 (background_dom (correlation_hists_delta_phi self)))] self)"

text \<open>
  \<^verbatim>\<open>
  def _post_creation_processing_for_2d_correlation(self, hist, normalization_factor,
                                                   title_label, rebin_factors = None):
      correlations_helpers.post_projection_processing_for_2d_correlation(
          hist = hist, normalization_factor = normalization_factor, title_label = title_label,
          jet_pt = self.jet_pt, track_pt = self.track_pt, rebin_factors = rebin_factors)
  \<close>
  The function called is
  \<^verbatim>\<open>post_projection_processing_for_2d_correlation(hist, normalization_factor, title, jet_pt, track_pt)\<close>
  of \<^verbatim>\<open>correlations_helpers.py\<close>, whose parameters have no default.
\<close>

definition post_projection_processing_for_2d_correlation_parameters :: "string list" where
  "post_projection_processing_for_2d_correlation_parameters =
     [''hist'', ''normalization_factor'', ''title'', ''jet_pt'', ''track_pt'']"

definition post_creation_processing_for_2d_correlation ::
  "'h Environment \<Rightarrow> 'h option \<Rightarrow> real \<Rightarrow> py_error + 'h option" where
  "post_creation_processing_for_2d_correlation env h normalization_factor =
     (case bind_arguments post_projection_processing_for_2d_correlation_parameters [] 0
             [''hist'', ''normalization_factor'', ''title_label'', ''jet_pt'', ''track_pt'',
              ''rebin_factors''] of
        Some e \<Rightarrow> Inl e
      | None \<Rightarrow> env_post_projection_processing env h normalization_factor)"

text \<open>
  \<^verbatim>\<open>
  def _compare_mixed_event_normalization_options(self, mixed_event):
      eta_limits = self.task_config["mixedEventNormalizationOptions"].get("etaLimits", [-0.3, 0.3])
      (...) = correlations_helpers.compare_mixed_event_normalization_options(
          mixed_event = mixed_event, eta_limits = eta_limits)
      plot_correlations.mixed_event_normalization(...)
  \<close>
  \<^verbatim>\<open>compare_mixed_event_normalization_options(mixed_event, eta_limits)\<close> starts with
  \<^verbatim>\<open>_peak_finding_objects_from_mixed_event(mixed_event = mixed_event, eta_limits = eta_limits)\<close>,
  which calls the methods of \<^verbatim>\<open>mixed_event\<close>: of \<^verbatim>\<open>None\<close> when the histogram is not there.
\<close>

definition Correlations_compare_mixed_event_normalization_options ::
  "'h Environment \<Rightarrow> 'h Correlations \<Rightarrow> 'h option \<Rightarrow> py_error option" where
  "Correlations_compare_mixed_event_normalization_options env self mixed_event_hist =
     (case mixed_event_hist of
        None \<Rightarrow> Some AttributeError
      | Some h \<Rightarrow>
          (case peak_finding_objects_from_mixed_event (env_hist_methods env) (env_epsilon env) h
                  (mixed_event_eta_limits self) of
             Inl e \<Rightarrow> Some e
           | Inr peak_finding_objects \<Rightarrow> env_compare_mixed_event_normalization_options env h))"

text \<open>
  \<^verbatim>\<open>
  def _measure_mixed_event_normalization(self, mixed_event, delta_phi_rebin_factor = 1):
      eta_limits = self.task_config["mixedEventNormalizationOptions"].get("etaLimits", [-0.3, 0.3])
      return correlations_helpers.measure_mixed_event_normalization(
          mixed_event = mixed_event, eta_limits = eta_limits,
          delta_phi_rebin_factor = delta_phi_rebin_factor)
  \<close>
  The function called is \<^verbatim>\<open>measure_mixed_event_normalization(mixed_event, eta_limits)\<close>.
\<close>

definition Correlations_measure_mixed_event_normalization ::
  "'h Environment \<Rightarrow> 'h Correlations \<Rightarrow> 'h option \<Rightarrow> py_error + real" where
  "Correlations_measure_mixed_event_normalization env self mixed_event_hist =
     (case bind_arguments [''mixed_event'', ''eta_limits''] [] 0
             [''mixed_event'', ''eta_limits'', ''delta_phi_rebin_factor''] of
        Some e \<Rightarrow> Inl e
      | None \<Rightarrow>
          (case mixed_event_hist of
             None \<Rightarrow> Inl AttributeError
           | Some h \<Rightarrow>
               (case measure_mixed_event_normalization (env_hist_methods env) (env_epsilon env) h
                       (mixed_event_eta_limits self) of
                  Inl e \<Rightarrow> Inl e
                | Inr (mixed_event_normalization, logged) \<Rightarrow> Inr mixed_event_normalization)))"

text \<open>
  \<^verbatim>\<open>
  def _create_2d_raw_and_mixed_correlations(self):
      for projector in self.sparse_projectors:
          projector.project()
      self.number_of_triggers = self._determine_number_of_triggers()
      rebin_factors = self.task_config.get("2d_rebin_factors", None)
      self._post_creation_processing_for_2d_correlation(
          hist = self.correlation_hists_2d.raw.hist,
          normalization_factor = self.number_of_triggers,
          title_label = "Raw signal", rebin_factors = rebin_factors)
      if self.task_config["mixedEventNormalizationOptions"].get("compareOptions", False):
          self._compare_mixed_event_normalization_options(
              mixed_event = self.correlation_hists_2d.mixed_event.hist)
      mixed_event_normalization_factor = self._measure_mixed_event_normalization(
          mixed_event = self.correlation_hists_2d.mixed_event.hist,
          delta_phi_rebin_factor = rebin_factors[0] if rebin_factors else 1)
      self._post_creation_processing_for_2d_correlation(
          hist = self.correlation_hists_2d.mixed_event.hist,
          normalization_factor = mixed_event_normalization_factor,
          title_label = "Mixed event", rebin_factors = rebin_factors)
  \<close>
  The projectors store the trigger spectrum and the raw and the mixed event histogram in
  the analysis object. The post processing changes the histogram in place.
\<close>

definition create_2d_raw_and_mixed_correlations ::
  "'h Environment \<Rightarrow> 'h Correlations \<Rightarrow> py_error option \<times> 'h Correlations" where
  "create_2d_raw_and_mixed_correlations env self =
     (case env_project_sparse env self of
        Inl e \<Rightarrow> (Some e, self)
      | Inr (triggers, raw_hist, mixed_event_hist) \<Rightarrow>
          let self = self\<lparr>number_of_triggers_observable := triggers,
                         correlation_hists_2d :=
                           (correlation_hists_2d self)
                             \<lparr>raw := raw_hist, mixed_event := mixed_event_hist\<rparr>\<rparr>
          in case env_determine_number_of_triggers env (number_of_triggers_observable self) of
               Inl e \<Rightarrow> (Some e, self)
             | Inr triggers_in_bin \<Rightarrow>
                 let self = self\<lparr>number_of_triggers := triggers_in_bin\<rparr>
                 in case post_creation_processing_for_2d_correlation env
                           (raw (correlation_hists_2d self)) (number_of_triggers self) of
                      Inl e \<Rightarrow> (Some e, self)
                    | Inr raw_hist \<Rightarrow>
                        let self = self\<lparr>correlation_hists_2d :=
                                         (correlation_hists_2d self)\<lparr>raw := raw_hist\<rparr>\<rparr>
                        in case (if mixed_event_compare_options self
                                 then Correlations_compare_mixed_event_normalization_options env self
                                        (mixed_event (correlation_hists_2d self))
                                 else None) of
                             Some e \<Rightarrow> (Some e, self)
                           | None \<Rightarrow>
                               (case Correlations_measure_mixed_event_normalization env self
                                       (mixed_event (correlation_hists_2d self)) of
                                  Inl e \<Rightarrow> (Some e, self)
                                | Inr mixed_event_normalization_factor \<Rightarrow>
                                    (case post_creation_processing_for_2d_correlation env
                                            (mixed_event (correlation_hists_2d self))
                                            mixed_event_normalization_factor of
                                       Inl e \<Rightarrow> (Some e, self)
                                     | Inr mixed_event_hist \<Rightarrow>
                                         (None,
                                          self\<lparr>correlation_hists_2d :=
                                                 (correlation_hists_2d self)
                                                   \<lparr>mixed_event := mixed_event_hist\<rparr>\<rparr>))))"

text \<open>
  \<^verbatim>\<open>
  def _create_2d_signal_correlation(self):
      self.correlation_hists_2d.signal.hist = self.correlation_hists_2d.raw.hist.Clone(
          self.correlation_hists_2d.signal.name)
      self.correlation_hists_2d.signal.hist.Divide(self.correlation_hists_2d.mixed_event.hist)
      self._post_creation_processing_for_2d_correlation(
          hist = self.correlation_hists_2d.signal.hist,
          normalization_factor = 1.0, title_label = "Correlation")
  \<close>
\<close>

definition create_2d_signal_correlation ::
  "'h Environment \<Rightarrow> 'h Correlations \<Rightarrow> py_error option \<times> 'h Correlations" where
  "create_2d_signal_correlation env self =
     (case raw (correlation_hists_2d self) of
        None \<Rightarrow> (Some AttributeError, self)
      | Some raw_hist \<Rightarrow>
          let self = self\<lparr>correlation_hists_2d :=
                           (correlation_hists_2d self)\<lparr>signal := Some (env_Clone env raw_hist)\<rparr>\<rparr>
          in case env_Divide env (env_Clone env raw_hist) (mixed_event (correlation_hists_2d self)) of
               Inl e \<Rightarrow> (Some e, self)
             | Inr signal_hist \<Rightarrow>
                 let self = self\<lparr>correlation_hists_2d :=
                                  (correlation_hists_2d self)\<lparr>signal := Some signal_hist\<rparr>\<rparr>
                 in case post_creation_processing_for_2d_correlation env
                           (signal (correlation_hists_2d self)) 1 of
                      Inl e \<Rightarrow> (Some e, self)
                    | Inr signal_hist \<Rightarrow>
                        (None,
                         self\<lparr>correlation_hists_2d :=
                                (correlation_hists_2d self)\<lparr>signal := signal_hist\<rparr>\<rparr>))"

text \<open>
  The two branches of \<^verbatim>\<open>_run_2d_projections\<close>:
  \<^verbatim>\<open>
  file_exists = os.path.isfile(os.path.join(self.output_prefix, self.output_filename))
  if self.processing_options["generate2DCorrelations"] or not file_exists:
      self._create_2d_raw_and_mixed_correlations()
      self._create_2d_signal_correlation()
      self._write_2d_correlations()
      self._write_number_of_triggers_hist()
      # Ensure we execute the next step
      self.processing_options["generate1DCorrelations"] = True
  else:
      self._init_2d_correlations_hists_from_root_file()
      self._init_number_of_triggers_hist_from_root_file()
  \<close>
\<close>

definition compute_2d_correlations ::
  "'h Environment \<Rightarrow> 'h Correlations \<Rightarrow> py_error option \<times> 'h Correlations" where
  "compute_2d_correlations env self =
     (case create_2d_raw_and_mixed_correlations env self of
        (Some e, self) \<Rightarrow> (Some e, self)
      | (None, self) \<Rightarrow>
          (case create_2d_signal_correlation env self of
             (Some e, self) \<Rightarrow> (Some e, self)
           | (None, self) \<Rightarrow>
               let self = write_2d_correlations self;
                   self = write_number_of_triggers_hist self;
                   self = self\<lparr>processing_options :=
                                 (processing_options self)\<lparr>generate1DCorrelations := True\<rparr>\<rparr>
               in (None, self)))"

definition load_2d_correlations :: "'h Correlations \<Rightarrow> py_error option \<times> 'h Correlations" where
  "load_2d_correlations self =
     (case root_file self of
        None \<Rightarrow> (Some FileNotFoundError, self)
      | Some f \<Rightarrow>
          (None,
           self\<lparr>correlation_hists_2d :=
                   \<lparr>raw = get_2d f (observable_name ''delta_eta_delta_phi'' (bin_identifier self) ''raw''),
                    mixed_event = get_2d f (observable_name ''delta_eta_delta_phi''
                                               (bin_identifier self) ''mixed_event''),
                    signal = get_2d f (observable_name ''delta_eta_delta_phi''
                                          (bin_identifier self) ''signal'')\<rparr>,
                 number_of_triggers_observable := get_2d f ''jetH_number_of_triggers''\<rparr>))"

definition run_2d_projections ::
  "'h Environment \<Rightarrow> 'h Correlations \<Rightarrow> py_error option \<times> 'h Correlations" where
  "run_2d_projections env self =
     (let file_exists = (root_file self \<noteq> None)
      in if generate2DCorrelations (processing_options self) \<or> \<not> file_exists
         then compute_2d_correlations env self
         else load_2d_correlations self)"

text \<open>
  The two branches of \<^verbatim>\<open>_run_1d_projections\<close>:
  \<^verbatim>\<open>
  if self.processing_options["generate1DCorrelations"]:
      self._setup_1d_projectors()
      self._create_1d_correlations()
      self._post_1d_projection_scaling()
      self._write_1d_correlations()
      # Ensure that the next step in the chain is run
      self.processing_options["fit1DCorrelations"] = True
  else:
      self._init_1d_correlations_hists_from_root_file()
  \<close>
\<close>

definition compute_1d_correlations ::
  "'h Environment \<Rightarrow> 'h Correlations \<Rightarrow> py_error option \<times> 'h Correlations" where
  "compute_1d_correlations env self =
     (case env_create_1d_correlations env self of
        Inl e \<Rightarrow> (Some e, self)
      | Inr (delta_phi, delta_eta) \<Rightarrow>
          let self = self\<lparr>correlation_hists_delta_phi := delta_phi,
                         correlation_hists_delta_eta := delta_eta\<rparr>;
              self = write_1d_correlations self;
              self = self\<lparr>processing_options :=
                            (processing_options self)\<lparr>fit1DCorrelations := True\<rparr>\<rparr>
          in (None, self))"

definition load_1d_correlations :: "'h Correlations \<Rightarrow> py_error option \<times> 'h Correlations" where
  "load_1d_correlations self =
     (case root_file self of
        None \<Rightarrow> (Some FileNotFoundError, self)
      | Some f \<Rightarrow>
          (None,
           self\<lparr>correlation_hists_delta_phi :=
                   \<lparr>signal_dom = get_1d f (observable_name ''delta_phi'' (bin_identifier self)
                                              ''signal_dominated''),
                    background_dom = get_1d f (observable_name ''delta_phi'' (bin_identifier self)
                                                  ''background_dominated'')\<rparr>,
                 correlation_hists_delta_eta :=
                   \<lparr>near = get_1d f (observable_name ''delta_eta'' (bin_identifier self)
                                        ''near_side''),
                    away = get_1d f (observable_name ''delta_eta'' (bin_identifier self)
                                        ''away_side'')\<rparr>\<rparr>))"

definition run_1d_projections ::
  "'h Environment \<Rightarrow> 'h Correlations \<Rightarrow> py_error option \<times> 'h Correlations" where
  "run_1d_projections env self =
     (if generate1DCorrelations (processing_options self)
      then compute_1d_correlations env self
      else load_1d_correlations self)"

text \<open>
  \<^verbatim>\<open>
  def run_projections(self):
      self._run_2d_projections()
      self._run_1d_projections()
      # Store that we've completed this step.
      self.ran_projections = True
  \<close>
\<close>

definition run_projections ::
  "'h Environment \<Rightarrow> 'h Correlations \<Rightarrow> py_error option \<times> 'h Correlations" where
  "run_projections env self =
     (case run_2d_projections env self of
        (Some e, self) \<Rightarrow> (Some e, self)
      | (None, self) \<Rightarrow>
          (case run_1d_projections env self of
             (Some e, self) \<Rightarrow> (Some e, self)
           | (None, self) \<Rightarrow> (None, self\<lparr>ran_projections := True\<rparr>)))"

subsection \<open>Fitting and subtraction in one analysis object\<close>

text \<open>
  \<^verbatim>\<open>
  def fit_delta_eta_correlations(self):
      attribute_names = ["near_side", "away_side"]
      for attribute_name in attribute_names:
          correlation = getattr(self.correlation_hists_delta_eta, attribute_name)
          constant, error = fitting.fit_pedestal_to_delta_eta_background_dominated_region(
              h = histogram.Histogram1D.from_existing_hist(correlation.hist),
              fit_range = self.background_dominated_eta_region.range)
          fit_result = PedestalFitResult(value = constant, error = error)
          setattr(self.fit_objects_delta_eta, attribute_name, fit_result)
  \<close>
\<close>

definition fit_pedestal_of ::
  "'h Environment \<Rightarrow> 'h Correlations \<Rightarrow> Histogram1D option \<Rightarrow> py_error + PedestalFitResult" where
  "fit_pedestal_of env self correlation =
     (case correlation of
        None \<Rightarrow> Inl AttributeError
      | Some h \<Rightarrow>
          (case env_fit_pedestal env h (background_dominated_eta_region self) of
             Inl e \<Rightarrow> Inl e
           | Inr (constant, error) \<Rightarrow> Inr \<lparr>fit_value = constant, fit_error = error\<rparr>))"

definition fit_delta_eta_correlations ::
  "'h Environment \<Rightarrow> 'h Correlations \<Rightarrow> py_error option \<times> 'h Correlations" where
  "fit_delta_eta_correlations env self =
     (case fit_pedestal_of env self (near (correlation_hists_delta_eta self)) of
        Inl e \<Rightarrow> (Some e, self)
      | Inr fitted \<Rightarrow>
          let self = self\<lparr>fit_objects_delta_eta := (fit_objects_delta_eta self)\<lparr>near := fitted\<rparr>\<rparr>
          in case fit_pedestal_of env self (away (correlation_hists_delta_eta self)) of
               Inl e \<Rightarrow> (Some e, self)
             | Inr fitted \<Rightarrow>
                 (None, self\<lparr>fit_objects_delta_eta :=
                               (fit_objects_delta_eta self)\<lparr>away := fitted\<rparr>\<rparr>))"

text \<open>\<^verbatim>\<open>write_delta_eta_fit_results\<close> stores the fit under
  \<^verbatim>\<open>f"{self.identifier}_fit_objects_delta_eta"\<close>; \<^verbatim>\<open>init_delta_eta_fit_information\<close> opens the
  file for reading and takes the entry of that key.\<close>

definition write_delta_eta_fit_results :: "'h Correlations \<Rightarrow> 'h Correlations" where
  "write_delta_eta_fit_results self =
     yaml_dump [(bin_identifier self @ ''_fit_objects_delta_eta'',
                 YamlDeltaEtaFit (fit_objects_delta_eta self))] self"

definition init_delta_eta_fit_information ::
  "'h Correlations \<Rightarrow> py_error option \<times> 'h Correlations" where
  "init_delta_eta_fit_information self =
     (case yaml_file self of
        None \<Rightarrow> (Some FileNotFoundError, self)
      | Some fit_information \<Rightarrow>
          (case map_of fit_information (bin_identifier self @ ''_fit_objects_delta_eta'') of
             None \<Rightarrow> (Some KeyError, self)
           | Some (YamlDeltaEtaFit stored) \<Rightarrow> (None, self\<lparr>fit_objects_delta_eta := stored\<rparr>)
           | Some _ \<Rightarrow> (Some TypeError, self)))"

text \<open>
  \<^verbatim>\<open>
  def subtract_background_fit_function_from_signal_dominated(self):
      signal_dominated = self.correlation_hists_delta_phi.signal_dominated
      signal_dominated_hist = histogram.Histogram1D.from_existing_hist(signal_dominated.hist)
      x = signal_dominated_hist.x
      fit_hist = histogram.Histogram1D(
          bin_edges = signal_dominated_hist.bin_edges,
          y = self.fit_object.evaluate_background(x),
          errors_squared = self.fit_object.calculate_background_function_errors(x) ** 2)
      self.correlation_hists_delta_phi_subtracted.signal_dominated.hist
          = signal_dominated_hist - fit_hist
  \<close>
\<close>

definition subtract_background_fit_function_from_signal_dominated ::
  "'h Correlations \<Rightarrow> py_error option \<times> 'h Correlations" where
  "subtract_background_fit_function_from_signal_dominated self =
     (case signal_dom (correlation_hists_delta_phi self) of
        None \<Rightarrow> (Some AttributeError, self)
      | Some signal_dominated_hist \<Rightarrow>
          (case fit_object self of
             None \<Rightarrow> (Some AttributeError, self)
           | Some component \<Rightarrow>
               let xs = Histogram1D_x signal_dominated_hist;
                   fit_hist = \<lparr>bin_edges = bin_edges signal_dominated_hist,
                               y_values = evaluate_background component xs,
                               errors_squared =
                                 map (\<lambda>e. e\<^sup>2) (calculate_background_function_errors component xs)\<rparr>
               in case Histogram1D_sub signal_dominated_hist fit_hist of
                    Inl e \<Rightarrow> (Some e, self)
                  | Inr subtracted \<Rightarrow>
                      (None, self\<lparr>correlation_hists_delta_phi_subtracted :=
                                    (correlation_hists_delta_phi_subtracted self)
                                      \<lparr>signal_dom := Some subtracted\<rparr>\<rparr>)))"

text \<open>Writing and reading the subtracted histograms (\<^verbatim>\<open>_write_hists_to_yaml\<close>,
  \<^verbatim>\<open>_init_hists_from_yaml_file\<close>, which needs the file to exist and to hold a mapping).\<close>

definition write_1d_subtracted_delta_phi_correlations :: "'h Correlations \<Rightarrow> 'h Correlations" where
  "write_1d_subtracted_delta_phi_correlations self =
     write_hists_to_yaml
       [(subtracted_name ''delta_phi'' (bin_identifier self) ''signal_dominated'',
           signal_dom (correlation_hists_delta_phi_subtracted self)),
        (subtracted_name ''delta_phi'' (bin_identifier self) ''background_dominated'',
           background_dom (correlation_hists_delta_phi_subtracted self))] self"

definition write_1d_subtracted_delta_eta_correlations :: "'h Correlations \<Rightarrow> 'h Correlations" where
  "write_1d_subtracted_delta_eta_correlations self =
     write_hists_to_yaml
       [(subtracted_name ''delta_eta'' (bin_identifier self) ''near_side'',
           near (correlation_hists_delta_eta_subtracted self)),
        (subtracted_name ''delta_eta'' (bin_identifier self) ''away_side'',
           away (correlation_hists_delta_eta_subtracted self))] self"

definition init_1d_subtracted_delta_phi_correlations_from_file ::
  "'h Correlations \<Rightarrow> py_error option \<times> 'h Correlations" where
  "init_1d_subtracted_delta_phi_correlations_from_file self =
     (case yaml_file self of
        None \<Rightarrow> (Some FileNotFoundError, self)
      | Some hists_in_file \<Rightarrow>
          (None,
           self\<lparr>correlation_hists_delta_phi_subtracted :=
                   \<lparr>signal_dom = yaml_get_hist hists_in_file
                      (subtracted_name ''delta_phi'' (bin_identifier self) ''signal_dominated''),
                    background_dom = yaml_get_hist hists_in_file
                      (subtracted_name ''delta_phi'' (bin_identifier self)
                         ''background_dominated'')\<rparr>\<rparr>))"

definition init_1d_subtracted_delta_eta_correlations_from_file ::
  "'h Correlations \<Rightarrow> py_error option \<times> 'h Correlations" where
  "init_1d_subtracted_delta_eta_correlations_from_file self =
     (case yaml_file self of
        None \<Rightarrow> (Some FileNotFoundError, self)
      | Some hists_in_file \<Rightarrow>
          (None,
           self\<lparr>correlation_hists_delta_eta_subtracted :=
                   \<lparr>near = yaml_get_hist hists_in_file
                      (subtracted_name ''delta_eta'' (bin_identifier self) ''near_side''),
                    away = yaml_get_hist hists_in_file
                      (subtracted_name ''delta_eta'' (bin_identifier self) ''away_side'')\<rparr>\<rparr>))"

subsection \<open>The manager\<close>

text \<open>\<^verbatim>\<open>task_config["processing_options"]\<close> of the manager: compute or load, for each stage
  after the projections.\<close>

record ManagerProcessingOptions =
  fit_correlations :: bool
  subtract_correlations :: bool
  extract_yields_option :: bool
  extract_widths_option :: bool

text \<open>
  Modelled from the spec: the iteration over the analysis objects
  (\<^verbatim>\<open>analysis_config.iterate_with_selected_objects\<close> and
  \<^verbatim>\<open>iterate_with_selected_objects_in_order\<close> are not part of the sources). The manager
  holds one analysis object per bin and groups the bins that differ in the reaction plane
  orientation only: \<open>analyses\<close> is the list of these groups, the iteration in order yields
  the groups and the plain iteration yields every analysis, group after group.
  \<open>fit_objects\<close> is the dictionary of the reaction plane fits by the key of the group, and
  \<open>rp_fit_files\<close> the files \<^verbatim>\<open>RPFitResult_{identifier}.yaml\<close> on disk.
\<close>

record 'h CorrelationsManager =
  analyses :: "'h Correlations list list"
  fit_objects :: "(string \<times> ReactionPlaneFit) list"
  manager_processing_options :: ManagerProcessingOptions
  rp_fit_files :: "(string \<times> ReactionPlaneFit) list"

text \<open>A loop over objects whose body mutates the object and may raise: the loop stops
  at the first body that raises, with the objects as they stand.\<close>

fun for_each :: "('a \<Rightarrow> py_error option \<times> 'a) \<Rightarrow> 'a list \<Rightarrow> py_error option \<times> 'a list" where
  "for_each body [] = (None, [])"
| "for_each body (a # rest) =
     (case body a of
        (Some e, a') \<Rightarrow> (Some e, a' # rest)
      | (None, a') \<Rightarrow> (case for_each body rest of (r, rest') \<Rightarrow> (r, a' # rest')))"

text \<open>The first analysis step of \<^verbatim>\<open>run\<close>: \<^verbatim>\<open>analysis.run_projections()\<close> for every
  analysis.\<close>

definition project_all ::
  "'h Environment \<Rightarrow> 'h CorrelationsManager \<Rightarrow> py_error option \<times> 'h CorrelationsManager" where
  "project_all env manager =
     (case for_each (for_each (run_projections env)) (analyses manager) of
        (r, groups) \<Rightarrow> (r, manager\<lparr>analyses := groups\<rparr>))"

text \<open>
  \<^verbatim>\<open>
  def _fit_delta_eta_correlations(self):
      for key_index, analysis in analysis_config.iterate_with_selected_objects(self.analyses):
          if self.processing_options["fit_correlations"]:
              analysis.fit_delta_eta_correlations()
              analysis.write_delta_eta_fit_results()
          else:
              analysis.init_delta_eta_fit_information()
  \<close>
\<close>

definition fit_delta_eta_one ::
  "'h Environment \<Rightarrow> ManagerProcessingOptions \<Rightarrow> 'h Correlations
    \<Rightarrow> py_error option \<times> 'h Correlations" where
  "fit_delta_eta_one env options analysis =
     (if fit_correlations options
      then (case fit_delta_eta_correlations env analysis of
              (Some e, analysis) \<Rightarrow> (Some e, analysis)
            | (None, analysis) \<Rightarrow> (None, write_delta_eta_fit_results analysis))
      else init_delta_eta_fit_information analysis)"

definition manager_fit_delta_eta_correlations ::
  "'h Environment \<Rightarrow> 'h CorrelationsManager \<Rightarrow> py_error option \<times> 'h CorrelationsManager" where
  "manager_fit_delta_eta_correlations env manager =
     (case for_each (for_each (fit_delta_eta_one env (manager_processing_options manager)))
             (analyses manager) of
        (r, groups) \<Rightarrow> (r, manager\<lparr>analyses := groups\<rparr>))"

text \<open>
  \<^verbatim>\<open>_reaction_plane_fit\<close> for one group \<^verbatim>\<open>ep_analyses\<close>:
  \<^verbatim>\<open>
  for key_index, analysis in ep_analyses:
      if analysis.ran_projections is False:
          raise ValueError("Hists must be projected before running the fit.")
      if analysis.reaction_plane_orientation == params.ReactionPlaneOrientation.inclusive:
          inclusive_analysis = analysis
      ...
  fit_key_index = self.fit_key_index(**{k: v for k, v in key_index if k != "reaction_plane_orientation"})
  ...
  rpf_filename = os.path.join(..., f"RPFitResult_{inclusive_analysis.identifier}.yaml")
  if self.processing_options["fit_correlations"]:
      fit_success, fit_data, _ = fit_obj.fit(data = input_hists, user_arguments = user_arguments)
      if not fit_success:
          raise RuntimeError(f"Fit failed for {inclusive_analysis.identifier}")
      fit_obj.write_fit_results(filename = rpf_filename)
  else:
      fit_obj.read_fit_results(filename = rpf_filename)
  self.fit_objects[fit_key_index] = fit_obj
  for index, fit_component in fit_obj.components.items():
      for key_index, analysis in ep_analyses:
          if str(key_index.reaction_plane_orientation) in index.orientation:
              analysis.fit_object = fit_component
  ...
  for key_index, analysis in ep_analyses:
      analysis.ran_fitting = True
  \<close>
  The key of the group is the key of its last analysis without the orientation, here the
  identifier of that analysis (the identifier is built from the jet and track pt bins). A
  component belongs to the analyses of its orientation.

  \<^verbatim>\<open>inclusive_analysis\<close>, \<^verbatim>\<open>key_index\<close> and \<^verbatim>\<open>analysis\<close> are local variables of
  \<^verbatim>\<open>_reaction_plane_fit\<close>, so they keep their binding from one group to the next: a group
  without an inclusive analysis uses the inclusive analysis of an earlier group, an empty
  group the last analysis of an earlier group, and they are unbound only when no earlier
  group has bound them. The function takes the two bindings on entry to the group (the
  second stands for both \<^verbatim>\<open>key_index\<close> and \<^verbatim>\<open>analysis\<close>, which the inner loop binds together)
  and returns them after it. Only the identifier of the bound object is read, which no
  operation changes.
\<close>

definition assign_components ::
  "(ReactionPlaneOrientation \<times> FitComponent) list \<Rightarrow> 'h Correlations \<Rightarrow> 'h Correlations" where
  "assign_components comps analysis =
     fold (\<lambda>(orientation, fit_component) analysis.
             if reaction_plane_orientation analysis = orientation
             then analysis\<lparr>fit_object := Some fit_component\<rparr> else analysis)
          comps analysis"

definition reaction_plane_fit_group ::
  "'h Environment \<Rightarrow> 'h Correlations option \<times> 'h Correlations option \<Rightarrow> 'h Correlations list
    \<Rightarrow> 'h CorrelationsManager
    \<Rightarrow> py_error option \<times> 'h Correlations list \<times> 'h CorrelationsManager
        \<times> 'h Correlations option \<times> 'h Correlations option" where
  "reaction_plane_fit_group env bound ep_analyses manager =
     (if list_ex (\<lambda>analysis. \<not> ran_projections analysis) ep_analyses
      then (Some ValueError, ep_analyses, manager, bound)
      else
        let bound =
              (case find (\<lambda>analysis. reaction_plane_orientation analysis = inclusive)
                      (rev ep_analyses) of
                 None \<Rightarrow> fst bound
               | Some inclusive_analysis \<Rightarrow> Some inclusive_analysis,
               if ep_analyses = [] then snd bound else Some (last ep_analyses))
        in
        case bound of
          (inclusive_bound, None) \<Rightarrow> (Some UnboundLocalError, ep_analyses, manager, bound)
        | (None, Some analysis) \<Rightarrow> (Some UnboundLocalError, ep_analyses, manager, bound)
        | (Some inclusive_analysis, Some analysis) \<Rightarrow>
            let fit_key_index = bin_identifier analysis;
                rpf_filename = ''RPFitResult_'' @ bin_identifier inclusive_analysis @ ''.yaml'';
                fitted =
                  (if fit_correlations (manager_processing_options manager)
                   then (case env_reaction_plane_fit env inclusive_analysis analysis ep_analyses of
                           Inl e \<Rightarrow> Inl e
                         | Inr (fit_success, rp_fit_obj) \<Rightarrow>
                             if \<not> fit_success then Inl RuntimeError
                             else Inr (rp_fit_obj,
                                       AList.update rpf_filename rp_fit_obj (rp_fit_files manager)))
                   else (case map_of (rp_fit_files manager) rpf_filename of
                           None \<Rightarrow> Inl FileNotFoundError
                         | Some rp_fit_obj \<Rightarrow> Inr (rp_fit_obj, rp_fit_files manager)))
            in case fitted of
                 Inl e \<Rightarrow> (Some e, ep_analyses, manager, bound)
               | Inr (rp_fit_obj, files) \<Rightarrow>
                   (None,
                    map (\<lambda>analysis. (assign_components (components rp_fit_obj) analysis)
                                       \<lparr>ran_fitting := True\<rparr>) ep_analyses,
                    manager\<lparr>fit_objects := AList.update fit_key_index rp_fit_obj (fit_objects manager),
                            rp_fit_files := files\<rparr>,
                    bound))"

text \<open>The loop of \<^verbatim>\<open>_reaction_plane_fit\<close> over the groups; the second argument holds the
  bindings of the local variables and the third the groups already fitted. Nothing is
  bound before the first group.\<close>

fun reaction_plane_fit_groups ::
  "'h Environment \<Rightarrow> 'h Correlations option \<times> 'h Correlations option
    \<Rightarrow> 'h Correlations list list \<Rightarrow> 'h Correlations list list
    \<Rightarrow> 'h CorrelationsManager \<Rightarrow> py_error option \<times> 'h CorrelationsManager" where
  "reaction_plane_fit_groups env bound fitted_groups [] manager =
     (None, manager\<lparr>analyses := fitted_groups\<rparr>)"
| "reaction_plane_fit_groups env bound fitted_groups (ep_analyses # rest) manager =
     (case reaction_plane_fit_group env bound ep_analyses manager of
        (Some e, ep_analyses', manager', bound') \<Rightarrow>
          (Some e, manager'\<lparr>analyses := fitted_groups @ ep_analyses' # rest\<rparr>)
      | (None, ep_analyses', manager', bound') \<Rightarrow>
          reaction_plane_fit_groups env bound' (fitted_groups @ [ep_analyses']) rest manager')"

definition reaction_plane_fit ::
  "'h Environment \<Rightarrow> 'h CorrelationsManager \<Rightarrow> py_error option \<times> 'h CorrelationsManager" where
  "reaction_plane_fit env manager =
     reaction_plane_fit_groups env (None, None) [] (analyses manager) manager"

text \<open>
  \<^verbatim>\<open>
  def fit(self):
      self._fit_delta_eta_correlations()
      self._reaction_plane_fit()
      return True
  \<close>
\<close>

definition manager_fit ::
  "'h Environment \<Rightarrow> 'h CorrelationsManager \<Rightarrow> py_error option \<times> 'h CorrelationsManager" where
  "manager_fit env manager =
     (case manager_fit_delta_eta_correlations env manager of
        (Some e, manager) \<Rightarrow> (Some e, manager)
      | (None, manager) \<Rightarrow> reaction_plane_fit env manager)"

text \<open>
  \<^verbatim>\<open>_subtract_reaction_plane_fits\<close>:
  \<^verbatim>\<open>
  for ep_analyses, rp_fit in zip(
          analysis_config.iterate_with_selected_objects_in_order(
              analysis_objects = self.analyses, analysis_iterables = self.selected_iterables,
              selection = "reaction_plane_orientation"),
          self.fit_objects):
      for key_index, analysis in ep_analyses:
          # Sanity check
          if not analysis.ran_fitting:
              raise RuntimeError("Must run the fitting before subtracting!")
          if self.processing_options["subtract_correlations"]:
              analysis.subtract_background_fit_function_from_signal_dominated()
              analysis.write_1d_subtracted_delta_phi_correlations()
          else:
              analysis.init_1d_subtracted_delta_phi_corerlations_from_file()
          ...
      for key_index, analysis in ep_analyses:
          analysis.ran_post_fit_processing = True
  \<close>
  The loop runs over the pairs of a group and a key of \<^verbatim>\<open>self.fit_objects\<close>: \<^verbatim>\<open>zip\<close> stops
  at the end of the shorter of the two.
\<close>

definition subtract_reaction_plane_fit_one ::
  "ManagerProcessingOptions \<Rightarrow> 'h Correlations \<Rightarrow> py_error option \<times> 'h Correlations" where
  "subtract_reaction_plane_fit_one options analysis =
     (if \<not> ran_fitting analysis then (Some RuntimeError, analysis)
      else if subtract_correlations options
      then (case subtract_background_fit_function_from_signal_dominated analysis of
              (Some e, analysis) \<Rightarrow> (Some e, analysis)
            | (None, analysis) \<Rightarrow> (None, write_1d_subtracted_delta_phi_correlations analysis))
      else init_1d_subtracted_delta_phi_correlations_from_file analysis)"

definition subtract_reaction_plane_fit_group ::
  "ManagerProcessingOptions \<Rightarrow> 'h Correlations list \<Rightarrow> py_error option \<times> 'h Correlations list" where
  "subtract_reaction_plane_fit_group options ep_analyses =
     (case for_each (subtract_reaction_plane_fit_one options) ep_analyses of
        (Some e, ep_analyses) \<Rightarrow> (Some e, ep_analyses)
      | (None, ep_analyses) \<Rightarrow>
          (None, map (\<lambda>analysis. analysis\<lparr>ran_post_fit_processing := True\<rparr>) ep_analyses))"

fun subtract_reaction_plane_fit_groups ::
  "ManagerProcessingOptions \<Rightarrow> 'h Correlations list list \<Rightarrow> 'k list
    \<Rightarrow> py_error option \<times> 'h Correlations list list" where
  "subtract_reaction_plane_fit_groups options [] rp_fits = (None, [])"
| "subtract_reaction_plane_fit_groups options (ep_analyses # rest) [] = (None, ep_analyses # rest)"
| "subtract_reaction_plane_fit_groups options (ep_analyses # rest) (rp_fit # rp_fits) =
     (case subtract_reaction_plane_fit_group options ep_analyses of
        (Some e, ep_analyses') \<Rightarrow> (Some e, ep_analyses' # rest)
      | (None, ep_analyses') \<Rightarrow>
          (case subtract_reaction_plane_fit_groups options rest rp_fits of
             (r, rest') \<Rightarrow> (r, ep_analyses' # rest')))"

definition subtract_reaction_plane_fits ::
  "'h CorrelationsManager \<Rightarrow> py_error option \<times> 'h CorrelationsManager" where
  "subtract_reaction_plane_fits manager =
     (case subtract_reaction_plane_fit_groups (manager_processing_options manager)
             (analyses manager) (map fst (fit_objects manager)) of
        (r, groups) \<Rightarrow> (r, manager\<lparr>analyses := groups\<rparr>))"

text \<open>
  \<^verbatim>\<open>
  def _subtract_delta_eta_fits(self):
      for key_index, analysis in analysis_config.iterate_with_selected_objects(self.analyses):
          if self.processing_options["subtract_correlations"]:
              analysis.subtract_delta_eta_correlations()
              analysis.write_1d_subtracted_delta_eta_correlations()
          else:
              analysis.init_1d_subtracted_delta_eta_corerlations_from_file()
  \<close>
\<close>

definition subtract_delta_eta_fit_one ::
  "ManagerProcessingOptions \<Rightarrow> 'h Correlations \<Rightarrow> py_error option \<times> 'h Correlations" where
  "subtract_delta_eta_fit_one options analysis =
     (if subtract_correlations options
      then (case subtract_delta_eta_correlations analysis of
              (Some e, analysis) \<Rightarrow> (Some e, analysis)
            | (None, analysis) \<Rightarrow> (None, write_1d_subtracted_delta_eta_correlations analysis))
      else init_1d_subtracted_delta_eta_correlations_from_file analysis)"

definition subtract_delta_eta_fits ::
  "'h CorrelationsManager \<Rightarrow> py_error option \<times> 'h CorrelationsManager" where
  "subtract_delta_eta_fits manager =
     (case for_each (for_each (subtract_delta_eta_fit_one (manager_processing_options manager)))
             (analyses manager) of
        (r, groups) \<Rightarrow> (r, manager\<lparr>analyses := groups\<rparr>))"

text \<open>
  \<^verbatim>\<open>
  def subtract_fits(self):
      self._subtract_reaction_plane_fits()
      self._subtract_delta_eta_fits()
      return True
  \<close>
\<close>

definition subtract_fits ::
  "'h CorrelationsManager \<Rightarrow> py_error option \<times> 'h CorrelationsManager" where
  "subtract_fits manager =
     (case subtract_reaction_plane_fits manager of
        (Some e, manager) \<Rightarrow> (Some e, manager)
      | (None, manager) \<Rightarrow> subtract_delta_eta_fits manager)"

subsection \<open>Yields and widths\<close>

text \<open>\<^verbatim>\<open>write_yields_to_YAML\<close> and \<^verbatim>\<open>init_yields_from_file\<close>, with the keys
  \<^verbatim>\<open>f"{self.identifier}_yields_delta_phi"\<close> and \<^verbatim>\<open>f"{self.identifier}_yields_delta_eta"\<close>.\<close>

definition write_yields_to_YAML :: "'h Correlations \<Rightarrow> 'h Correlations" where
  "write_yields_to_YAML self =
     yaml_dump [(bin_identifier self @ ''_yields_delta_phi'', YamlYields (yields_delta_phi self)),
                (bin_identifier self @ ''_yields_delta_eta'', YamlYields (yields_delta_eta self))]
       self"

definition init_yields_from_file :: "'h Correlations \<Rightarrow> py_error option \<times> 'h Correlations" where
  "init_yields_from_file self =
     (case yaml_file self of
        None \<Rightarrow> (Some FileNotFoundError, self)
      | Some stored_data \<Rightarrow>
          (case map_of stored_data (bin_identifier self @ ''_yields_delta_phi'') of
             Some (YamlYields delta_phi) \<Rightarrow>
               let self = self\<lparr>yields_delta_phi := delta_phi\<rparr>
               in (case map_of stored_data (bin_identifier self @ ''_yields_delta_eta'') of
                     Some (YamlYields delta_eta) \<Rightarrow> (None, self\<lparr>yields_delta_eta := delta_eta\<rparr>)
                   | Some _ \<Rightarrow> (Some TypeError, self)
                   | None \<Rightarrow> (Some KeyError, self))
           | Some _ \<Rightarrow> (Some TypeError, self)
           | None \<Rightarrow> (Some KeyError, self)))"

text \<open>
  \<^verbatim>\<open>
  def _retrieve_widths_from_RPF(self):
      for attribute_name, width_obj in self.widths_delta_phi:
          short_name = "".join([s[0] for s in attribute_name.split("_")])
          width_value = self.fit_object.fit_result.values_at_minimum.get(f"{short_name}_sigma", None)
          width_error = self.fit_object.fit_result.errors_on_parameters.get(f"{short_name}_sigma", None)
          if width_value is None or width_error is None:
              return False
          width_obj.fit_obj.user_arguments["width"] = width_value
          width_obj.fit_obj.user_arguments["error_width"] = width_error
      return True
  \<close>
  The result is the error, if any, and the object; the returned flag is not read.
\<close>

definition seed_width :: "FitResult \<Rightarrow> string \<Rightarrow> ExtractedWidth \<Rightarrow> ExtractedWidth option" where
  "seed_width rp_result short_name width_obj =
     (case (map_of (values_at_minimum rp_result) (short_name @ ''_sigma''),
            map_of (errors_on_parameters rp_result) (short_name @ ''_sigma'')) of
        (Some width_value, Some width_error) \<Rightarrow>
          Some (width_obj\<lparr>fit_obj := (fit_obj width_obj)
                  \<lparr>user_arguments := (user_arguments (fit_obj width_obj))
                     \<lparr>width := width_value, error_width := Some width_error\<rparr>\<rparr>\<rparr>)
      | _ \<Rightarrow> None)"

definition retrieve_widths_from_RPF :: "'h Correlations \<Rightarrow> py_error option \<times> 'h Correlations" where
  "retrieve_widths_from_RPF self =
     (case fit_object self of
        None \<Rightarrow> (Some AttributeError, self)
      | Some component \<Rightarrow>
          (case seed_width (component_fit_result component) ''ns'' (near (widths_delta_phi self)) of
             None \<Rightarrow> (None, self)
           | Some seeded \<Rightarrow>
               let self = self\<lparr>widths_delta_phi := (widths_delta_phi self)\<lparr>near := seeded\<rparr>\<rparr>
               in (case seed_width (component_fit_result component) ''as''
                          (away (widths_delta_phi self)) of
                     None \<Rightarrow> (None, self)
                   | Some seeded \<Rightarrow>
                       (None, self\<lparr>widths_delta_phi :=
                                     (widths_delta_phi self)\<lparr>away := seeded\<rparr>\<rparr>))))"

text \<open>
  \<^verbatim>\<open>_fit_and_extract_delta_phi_widths\<close> fits both width objects to the subtracted signal
  dominated delta phi histogram, \<^verbatim>\<open>_fit_and_extract_delta_eta_widths\<close> each width object to
  the subtracted delta eta histogram of its side:
  \<^verbatim>\<open>
  fit_result = width_obj.fit_obj.fit(h = subtracted.hist)
  width_obj.fit_result = fit_result
  \<close>
\<close>

definition fit_width ::
  "'h Environment \<Rightarrow> Histogram1D option \<Rightarrow> ExtractedWidth \<Rightarrow> py_error + ExtractedWidth" where
  "fit_width env h width_obj =
     (case env_width_fit env (fit_obj width_obj) h of
        Inl e \<Rightarrow> Inl e
      | Inr fitted \<Rightarrow> Inr (width_obj\<lparr>fit_result := Some fitted\<rparr>))"

definition fit_and_extract_delta_phi_widths ::
  "'h Environment \<Rightarrow> 'h Correlations \<Rightarrow> py_error option \<times> 'h Correlations" where
  "fit_and_extract_delta_phi_widths env self =
     (let subtracted = signal_dom (correlation_hists_delta_phi_subtracted self)
      in case fit_width env subtracted (near (widths_delta_phi self)) of
           Inl e \<Rightarrow> (Some e, self)
         | Inr fitted \<Rightarrow>
             let self = self\<lparr>widths_delta_phi := (widths_delta_phi self)\<lparr>near := fitted\<rparr>\<rparr>
             in (case fit_width env subtracted (away (widths_delta_phi self)) of
                   Inl e \<Rightarrow> (Some e, self)
                 | Inr fitted \<Rightarrow>
                     (None, self\<lparr>widths_delta_phi :=
                                   (widths_delta_phi self)\<lparr>away := fitted\<rparr>\<rparr>)))"

definition fit_and_extract_delta_eta_widths ::
  "'h Environment \<Rightarrow> 'h Correlations \<Rightarrow> py_error option \<times> 'h Correlations" where
  "fit_and_extract_delta_eta_widths env self =
     (case fit_width env (near (correlation_hists_delta_eta_subtracted self))
             (near (widths_delta_eta self)) of
        Inl e \<Rightarrow> (Some e, self)
      | Inr fitted \<Rightarrow>
          let self = self\<lparr>widths_delta_eta := (widths_delta_eta self)\<lparr>near := fitted\<rparr>\<rparr>
          in (case fit_width env (away (correlation_hists_delta_eta_subtracted self))
                     (away (widths_delta_eta self)) of
                Inl e \<Rightarrow> (Some e, self)
              | Inr fitted \<Rightarrow>
                  (None, self\<lparr>widths_delta_eta :=
                                (widths_delta_eta self)\<lparr>away := fitted\<rparr>\<rparr>)))"

text \<open>
  \<^verbatim>\<open>
  def extract_widths(self):
      self._retrieve_widths_from_RPF()
      self._fit_and_extract_delta_phi_widths()
      self._fit_and_extract_delta_eta_widths()
  \<close>
\<close>

definition extract_widths ::
  "'h Environment \<Rightarrow> 'h Correlations \<Rightarrow> py_error option \<times> 'h Correlations" where
  "extract_widths env self =
     (case retrieve_widths_from_RPF self of
        (Some e, self) \<Rightarrow> (Some e, self)
      | (None, self) \<Rightarrow>
          (case fit_and_extract_delta_phi_widths env self of
             (Some e, self) \<Rightarrow> (Some e, self)
           | (None, self) \<Rightarrow> fit_and_extract_delta_eta_widths env self))"

definition write_widths_to_YAML :: "'h Correlations \<Rightarrow> 'h Correlations" where
  "write_widths_to_YAML self =
     yaml_dump [(bin_identifier self @ ''_widths_delta_phi'', YamlWidths (widths_delta_phi self)),
                (bin_identifier self @ ''_widths_delta_eta'', YamlWidths (widths_delta_eta self))]
       self"

definition init_widths_from_file :: "'h Correlations \<Rightarrow> py_error option \<times> 'h Correlations" where
  "init_widths_from_file self =
     (case yaml_file self of
        None \<Rightarrow> (Some FileNotFoundError, self)
      | Some stored_data \<Rightarrow>
          (case map_of stored_data (bin_identifier self @ ''_widths_delta_phi'') of
             Some (YamlWidths delta_phi) \<Rightarrow>
               let self = self\<lparr>widths_delta_phi := delta_phi\<rparr>
               in (case map_of stored_data (bin_identifier self @ ''_widths_delta_eta'') of
                     Some (YamlWidths delta_eta) \<Rightarrow> (None, self\<lparr>widths_delta_eta := delta_eta\<rparr>)
                   | Some _ \<Rightarrow> (Some TypeError, self)
                   | None \<Rightarrow> (Some KeyError, self))
           | Some _ \<Rightarrow> (Some TypeError, self)
           | None \<Rightarrow> (Some KeyError, self)))"

text \<open>
  \<^verbatim>\<open>CorrelationsManager.extract_yields\<close> and \<^verbatim>\<open>CorrelationsManager.extract_widths\<close>:
  \<^verbatim>\<open>
  for key_index, analysis in analysis_config.iterate_with_selected_objects(self.analyses):
      # Ensure that the previous step was run
      if not analysis.ran_post_fit_processing:
          raise RuntimeError("Must run the post fit processing step before extracting yields!")
      if self.processing_options["extract_yields"]:
          analysis.extract_yields()
          analysis.write_yields_to_YAML()
      else:
          analysis.init_yields_from_file()
  \<close>
  and the same with the widths.
\<close>

definition extract_yields_one ::
  "'h Environment \<Rightarrow> ManagerProcessingOptions \<Rightarrow> 'h Correlations
    \<Rightarrow> py_error option \<times> 'h Correlations" where
  "extract_yields_one env options analysis =
     (if \<not> ran_post_fit_processing analysis then (Some RuntimeError, analysis)
      else if extract_yields_option options
      then (case extract_yields (env_integral env) (env_epsilon env) analysis of
              (Some e, analysis) \<Rightarrow> (Some e, analysis)
            | (None, analysis) \<Rightarrow> (None, write_yields_to_YAML analysis))
      else init_yields_from_file analysis)"

definition manager_extract_yields ::
  "'h Environment \<Rightarrow> 'h CorrelationsManager \<Rightarrow> py_error option \<times> 'h CorrelationsManager" where
  "manager_extract_yields env manager =
     (case for_each (for_each (extract_yields_one env (manager_processing_options manager)))
             (analyses manager) of
        (r, groups) \<Rightarrow> (r, manager\<lparr>analyses := groups\<rparr>))"

definition extract_widths_one ::
  "'h Environment \<Rightarrow> ManagerProcessingOptions \<Rightarrow> 'h Correlations
    \<Rightarrow> py_error option \<times> 'h Correlations" where
  "extract_widths_one env options analysis =
     (if \<not> ran_post_fit_processing analysis then (Some RuntimeError, analysis)
      else if extract_widths_option options
      then (case extract_widths env analysis of
              (Some e, analysis) \<Rightarrow> (Some e, analysis)
            | (None, analysis) \<Rightarrow> (None, write_widths_to_YAML analysis))
      else init_widths_from_file analysis)"

definition manager_extract_widths ::
  "'h Environment \<Rightarrow> 'h CorrelationsManager \<Rightarrow> py_error option \<times> 'h CorrelationsManager" where
  "manager_extract_widths env manager =
     (case for_each (for_each (extract_widths_one env (manager_processing_options manager)))
             (analyses manager) of
        (r, groups) \<Rightarrow> (r, manager\<lparr>analyses := groups\<rparr>))"

subsection \<open>The pipeline\<close>

text \<open>
  The operations of the pipeline on the analysis objects, in the order in which
  \<^verbatim>\<open>CorrelationsManager.run\<close> calls them (the set up of the input histograms and the general
  histograms come before and touch no attribute modelled here), and \<^verbatim>\<open>run\<close> itself.
\<close>

datatype stage = Projections | Fit | SubtractFits | ExtractYields | ExtractWidths

fun run_stage ::
  "'h Environment \<Rightarrow> stage \<Rightarrow> 'h CorrelationsManager
    \<Rightarrow> py_error option \<times> 'h CorrelationsManager" where
  "run_stage env Projections manager = project_all env manager"
| "run_stage env Fit manager = manager_fit env manager"
| "run_stage env SubtractFits manager = subtract_fits manager"
| "run_stage env ExtractYields manager = manager_extract_yields env manager"
| "run_stage env ExtractWidths manager = manager_extract_widths env manager"

fun run_stages ::
  "'h Environment \<Rightarrow> stage list \<Rightarrow> 'h CorrelationsManager
    \<Rightarrow> py_error option \<times> 'h CorrelationsManager" where
  "run_stages env [] manager = (None, manager)"
| "run_stages env (s # rest) manager =
     (case run_stage env s manager of
        (Some e, manager) \<Rightarrow> (Some e, manager)
      | (None, manager) \<Rightarrow> run_stages env rest manager)"

definition run ::
  "'h Environment \<Rightarrow> 'h CorrelationsManager \<Rightarrow> py_error option \<times> 'h CorrelationsManager" where
  "run env manager =
     run_stages env [Projections, Fit, SubtractFits, ExtractYields, ExtractWidths] manager"

text \<open>The stage flags of an analysis after an operation, against the flags before: each
  flag is as it was or is \<^verbatim>\<open>True\<close>.\<close>

definition flags_kept_or_set :: "'h Correlations \<Rightarrow> 'h Correlations \<Rightarrow> bool" where
  "flags_kept_or_set before after =
     ((ran_projections after = ran_projections before \<or> ran_projections after)
      \<and> (ran_fitting after = ran_fitting before \<or> ran_fitting after)
      \<and> (ran_post_fit_processing after = ran_post_fit_processing before
          \<or> ran_post_fit_processing after))"

text \<open>The three stage flags of an analysis, in the order projections, fitting, post fit
  processing.\<close>

definition stage_flags :: "'h Correlations \<Rightarrow> bool \<times> bool \<times> bool" where
  "stage_flags self = (ran_projections self, ran_fitting self, ran_post_fit_processing self)"

subsection \<open>An example run\<close>

text \<open>The computations outside the analysis object for the example bin: the sparse
  projectors give the three histograms and the trigger spectrum holds 10 triggers, the 1D
  projectors give the example histogram for every correlation, the pedestal fit gives \<open>2 \<plusminus> 4\<close>, the
  reaction plane fit converges with one component for the inclusive orientation, and the
  integral of a histogram is the sum of its entries.\<close>

definition example_fit_component :: FitComponent where
  "example_fit_component =
     \<lparr>evaluate_background = map (\<lambda>x. 1),
      calculate_background_function_errors = map (\<lambda>x. 2),
      component_fit_result = \<lparr>values_at_minimum = [], errors_on_parameters = []\<rparr>\<rparr>"

definition example_env :: "unit Environment" where
  "example_env =
     \<lparr>env_project_sparse = (\<lambda>self. Inr (Some (), Some (), Some ())),
      env_determine_number_of_triggers = (\<lambda>h. Inr 10),
      env_post_projection_processing = (\<lambda>h normalization_factor. Inr h),
      env_hist_methods =
        \<lparr>YFindBin = (\<lambda>h v. \<lfloor>(v + 1) * 10\<rfloor> + 1),
         YGetBinUpEdge = (\<lambda>h b. - 1 + real_of_int b / 10),
         YGetBinLowEdge = (\<lambda>h b. - 1 + (real_of_int b - 1) / 10),
         YGetBinWidth = (\<lambda>h b. 1 / 10),
         ProjectionX = (\<lambda>h b0 b1. ()),
         Scale = (\<lambda>h1 f. ()),
         Histogram1D_y = (\<lambda>h1. replicate 72 1)\<rparr>,
      env_compare_mixed_event_normalization_options = (\<lambda>h. None),
      env_Clone = (\<lambda>h. h),
      env_Divide = (\<lambda>h other. Inr h),
      env_create_1d_correlations =
        (\<lambda>self. Inr (\<lparr>signal_dom = Some example_hist, background_dom = Some example_hist\<rparr>,
                      \<lparr>near = Some example_hist, away = Some example_hist\<rparr>)),
      env_fit_pedestal = (\<lambda>h r. Inr (2, 4)),
      env_reaction_plane_fit =
        (\<lambda>inclusive_analysis analysis ep_analyses.
           Inr (True, \<lparr>components = [(inclusive, example_fit_component)]\<rparr>)),
      env_width_fit = (\<lambda>f h. Inl RuntimeError),
      env_integral = (\<lambda>h lo hi. (sum_list (y_values h), sum_list (errors_squared h))),
      env_epsilon = 1 / 1000\<rparr>"

text \<open>The example bin after the projections and before any fit: the pedestals of the delta
  eta fits are as \<^verbatim>\<open>__init__\<close> leaves them, \<^verbatim>\<open>PedestalFitResult(value = -1, error = -1)\<close>.
  The manager holds this bin alone and has not run \<^verbatim>\<open>fit\<close>: \<^verbatim>\<open>self.fit_objects\<close> is the empty
  dictionary of \<^verbatim>\<open>CorrelationsManager.__init__\<close>.\<close>

definition unfitted_bin :: "unit Correlations" where
  "unfitted_bin =
     (example_bin inclusive)
       \<lparr>ran_projections := True,
        correlation_hists_delta_phi := \<lparr>signal_dom = Some example_hist, background_dom = Some example_hist\<rparr>,
        correlation_hists_delta_eta := \<lparr>near = Some example_hist, away = Some example_hist\<rparr>\<rparr>"

definition unfitted_manager :: "unit CorrelationsManager" where
  "unfitted_manager =
     \<lparr>analyses = [[unfitted_bin]],
      fit_objects = [],
      manager_processing_options =
        \<lparr>fit_correlations = True, subtract_correlations = True,
         extract_yields_option = True, extract_widths_option = True\<rparr>,
      rp_fit_files = []\<rparr>"

section \<open>Theorems\<close>

text \<open>
  C5. For the inclusive (all angles) orientation the background fit function is the plain
  Fourier series \<open>BG (1 + 2 v1 cos x + 2 v2_t v2_a cos 2x + 2 v3 cos 3x + 2 v4_t v4_a cos 4x)\<close>,
  it never raises, and for \<open>v1 = 0\<close> and \<open>v3 = 0\<close> it is
  \<open>BG (1 + 2 v2_t v2_a cos 2x + 2 v4_t v4_a cos 4x)\<close>, for every \<open>x\<close> and every value of
  the other parameters.
\<close>

theorem inclusive_background_is_Fourier:
  "GetBackgroundDominatedFitFunction inclusive fitConfig x BG v2_t v2_a v4_t v4_a v1 v3 =
     Inr (BG * (1 + 2 * v1 * cos x + 2 * v2_t * v2_a * cos (2 * x) + 2 * v3 * cos (3 * x)
                  + 2 * v4_t * v4_a * cos (4 * x)))
   \<and> (v1 = 0 \<and> v3 = 0 \<longrightarrow>
        GetBackgroundDominatedFitFunction inclusive fitConfig x BG v2_t v2_a v4_t v4_a v1 v3 =
          Inr (BG * (1 + 2 * v2_t * v2_a * cos (2 * x) + 2 * v4_t * v4_a * cos (4 * x))))"
  by (simp add: GetBackgroundDominatedFitFunction_def Fourier_def)

theorem inclusive_background_is_Fourier_witness:
  "GetBackgroundDominatedFitFunction inclusive
      \<lparr>includeSignalInFit = False, allAnglesSignal = False, allAnglesBackground = False,
       logLikelihoodTrackPtBins = [],
       epResolutionParameters = \<lparr>R22 = 1, R42 = 1, R62 = 1, R82 = 1\<rparr>\<rparr>
      0 5 (1 / 10) (1 / 10) (1 / 50) (1 / 50) 0 0 = Inr (638 / 125)"
  using inclusive_background_is_Fourier
    [of "\<lparr>includeSignalInFit = False, allAnglesSignal = False, allAnglesBackground = False,
          logLikelihoodTrackPtBins = [],
          epResolutionParameters = \<lparr>R22 = 1, R42 = 1, R62 = 1, R82 = 1\<rparr>\<rparr>"
        0 5 "1 / 10" "1 / 10" "1 / 50" "1 / 50" 0 0]
  by simp

text \<open>
  C6. The cost function of a background dominated observable is built from the first
  \<open>length x div 2\<close> entries of \<open>x\<close>, \<open>y\<close> and the errors (the entries at the indices
  below \<open>length x div 2\<close>, unchanged), and the cost function of a signal dominated
  observable from the full arrays. The unbinned likelihood is given \<open>x\<close> only.
\<close>

theorem background_dominated_fit_uses_first_half:
  fixes observable :: Observable and fitConfig :: fit_config
  defines "x \<equiv> hist_x (hist observable)"
      and "y \<equiv> hist_array (hist observable)"
      and "errors \<equiv> hist_errors (hist observable)"
      and "loglik \<equiv> trackPtBin observable
                       \<in> set (logLikelihood_bins fitConfig (jetPtBin observable))"
  shows "(correlationType observable = background_dominated \<longrightarrow>
           DefineFits_cost_function fitConfig epAngle observable =
             Inr (if loglik
                  then UnbinnedLH (FitFunction background_dominated epAngle)
                         (take (length x div 2) x)
                  else Chi2Regression (FitFunction background_dominated epAngle)
                         (take (length x div 2) x) (take (length x div 2) y)
                         (take (length x div 2) errors))
           \<and> length (take (length x div 2) x) = length x div 2
           \<and> (\<forall>i < length x div 2. take (length x div 2) x ! i = x ! i))
       \<and> (correlationType observable = signal_dominated \<longrightarrow>
           DefineFits_cost_function fitConfig epAngle observable =
             Inr (if loglik
                  then UnbinnedLH (FitFunction signal_dominated epAngle) x
                  else Chi2Regression (FitFunction signal_dominated epAngle) x y errors))"
  unfolding x_def y_def errors_def loglik_def
  by (simp add: DefineFits_cost_function_def GetFitFunction_def Let_def)

theorem background_dominated_fit_uses_first_half_witness:
  "DefineFits_cost_function
     \<lparr>includeSignalInFit = False, allAnglesSignal = False, allAnglesBackground = False,
      logLikelihoodTrackPtBins = [],
      epResolutionParameters = \<lparr>R22 = 1, R42 = 1, R62 = 1, R82 = 1\<rparr>\<rparr>
     in_plane
     \<lparr>correlationType = background_dominated, jetPtBin = 1, trackPtBin = 2,
      hist = \<lparr>hist_x = [1, 2, 3, 4, 5], hist_array = [10, 20, 30, 40, 50],
              hist_errors = [6, 7, 8, 9, 10], binCenters = [1, 2, 3, 4, 5]\<rparr>\<rparr>
   = Inr (Chi2Regression (FitFunction background_dominated in_plane) [1, 2] [10, 20] [6, 7])
   \<and> DefineFits_cost_function
     \<lparr>includeSignalInFit = False, allAnglesSignal = False, allAnglesBackground = False,
      logLikelihoodTrackPtBins = [],
      epResolutionParameters = \<lparr>R22 = 1, R42 = 1, R62 = 1, R82 = 1\<rparr>\<rparr>
     inclusive
     \<lparr>correlationType = signal_dominated, jetPtBin = 1, trackPtBin = 2,
      hist = \<lparr>hist_x = [1, 2, 3, 4, 5], hist_array = [10, 20, 30, 40, 50],
              hist_errors = [6, 7, 8, 9, 10], binCenters = [1, 2, 3, 4, 5]\<rparr>\<rparr>
   = Inr (Chi2Regression (FitFunction signal_dominated inclusive)
            [1, 2, 3, 4, 5] [10, 20, 30, 40, 50] [6, 7, 8, 9, 10])"
  using background_dominated_fit_uses_first_half
    [where observable = "\<lparr>correlationType = background_dominated, jetPtBin = 1, trackPtBin = 2,
          hist = \<lparr>hist_x = [1, 2, 3, 4, 5], hist_array = [10, 20, 30, 40, 50],
                  hist_errors = [6, 7, 8, 9, 10], binCenters = [1, 2, 3, 4, 5]\<rparr>\<rparr>"
        and fitConfig = "\<lparr>includeSignalInFit = False, allAnglesSignal = False, allAnglesBackground = False,
          logLikelihoodTrackPtBins = [],
          epResolutionParameters = \<lparr>R22 = 1, R42 = 1, R62 = 1, R82 = 1\<rparr>\<rparr>"
        and epAngle = in_plane]
    background_dominated_fit_uses_first_half
    [where observable = "\<lparr>correlationType = signal_dominated, jetPtBin = 1, trackPtBin = 2,
          hist = \<lparr>hist_x = [1, 2, 3, 4, 5], hist_array = [10, 20, 30, 40, 50],
                  hist_errors = [6, 7, 8, 9, 10], binCenters = [1, 2, 3, 4, 5]\<rparr>\<rparr>"
        and fitConfig = "\<lparr>includeSignalInFit = False, allAnglesSignal = False, allAnglesBackground = False,
          logLikelihoodTrackPtBins = [],
          epResolutionParameters = \<lparr>R22 = 1, R42 = 1, R62 = 1, R82 = 1\<rparr>\<rparr>"
        and epAngle = inclusive]
  by (simp add: logLikelihood_bins_def)

text \<open>
  C4. \<^verbatim>\<open>CalculateRPFError\<close> evaluated for \<^verbatim>\<open>Fourier\<close> at the single bin center \<open>0\<close> with
  the fit \<open>equal_values_fit\<close>, whose free parameters \<open>v2_t\<close> and \<open>v4_t\<close> have the same
  value: the index of \<open>v4_t\<close> in the gradient is looked up by value and is that of
  \<open>v2_t\<close>, so the result is \<open>sqrt (2 / 625)\<close>, while the double sum over the free
  parameters with the derivative of each gives \<open>sqrt (13 / 2500)\<close>.
\<close>

lemma free_funcArgs_equal_values_fit:
  "free_funcArgs describe_Fourier (fit_params equal_values_fit) = [''v2_t'', ''v4_t'']"
  by (simp add: free_funcArgs_def describe_Fourier_def equal_values_fit_def drop_fixed_def
      str_remove_def)

theorem CalculateRPFError_equal_values:
  "CalculateRPFError describe_Fourier (\<lambda>args. equal_values_gradient)
     \<lparr>hist_x = [0], hist_array = [1], hist_errors = [1], binCenters = [0]\<rparr> equal_values_fit
     = Inr [Some (sqrt (2 / 625))]
   \<and> rpf_error_spec describe_Fourier equal_values_gradient
       (free_funcArgs describe_Fourier (fit_params equal_values_fit))
       (\<lambda>names. the (map_of (covarianceMatrix equal_values_fit) names))
     = sqrt (13 / 2500)
   \<and> sqrt (2 / 625) \<noteq> sqrt (13 / 2500 :: real)"
proof (intro conjI)
  show "CalculateRPFError describe_Fourier (\<lambda>args. equal_values_gradient)
     \<lparr>hist_x = [0], hist_array = [1], hist_errors = [1], binCenters = [0]\<rparr> equal_values_fit
     = Inr [Some (sqrt (2 / 625))]"
    unfolding CalculateRPFError_def free_funcArgs_equal_values_fit
    by (simp add: GetArgsForFunc_def describe_Fourier_def equal_values_fit_def
        equal_values_gradient_def error_at_point_def error_term_def np_sqrt_def)
  show "rpf_error_spec describe_Fourier equal_values_gradient
       (free_funcArgs describe_Fourier (fit_params equal_values_fit))
       (\<lambda>names. the (map_of (covarianceMatrix equal_values_fit) names))
     = sqrt (13 / 2500)"
    unfolding free_funcArgs_equal_values_fit
    by (simp add: rpf_error_spec_def derivative_of_def describe_Fourier_def
        equal_values_fit_def equal_values_gradient_def)
  show "sqrt (2 / 625) \<noteq> sqrt (13 / 2500 :: real)"
    by simp
qed

lemma Histogram1D_of_one_argument:
  "bind_arguments Histogram1D_parameters [] 1 [] = Some TypeError"
  "bind_arguments Histogram1D_parameters [] (Suc 0) [] = Some TypeError"
  by (simp_all add: bind_arguments_def Histogram1D_parameters_def)

lemma eta_limit_bins_of_uniform_hist:
  "\<lfloor>(- (3 / 10) + 1 / 10 ^ 16 + 1) * 10 :: real\<rfloor> = 7"
  "\<lfloor>(3 / 10 - 1 / 10 ^ 16 + 1) * 10 :: real\<rfloor> = 12"
  by (simp_all add: floor_unique)

text \<open>
  C1. \<^verbatim>\<open>measure_mixed_event_normalization\<close> returns no normalization, for any mixed event
  histogram and any eta limits: when the projected eta window has zero width the division
  raises \<^verbatim>\<open>ZeroDivisionError\<close>, and otherwise \<^verbatim>\<open>histogram.Histogram1D(peak_finding_hist)\<close>, the
  three-field constructor called with one argument, raises \<^verbatim>\<open>TypeError\<close> before the moving
  average is taken.
\<close>

theorem measure_mixed_event_normalization_raises:
  fixes m :: "('h2, 'h1) hist_methods" and mixed_event_hist :: 'h2
    and eta_limits :: "real \<times> real" and epsilon :: real
  shows "measure_mixed_event_normalization m epsilon mixed_event_hist eta_limits =
           Inl (if YGetBinUpEdge m mixed_event_hist
                     (YFindBin m mixed_event_hist (snd eta_limits - epsilon))
                   - YGetBinLowEdge m mixed_event_hist
                       (YFindBin m mixed_event_hist (fst eta_limits + epsilon)) = 0
                then ZeroDivisionError else TypeError)"
  by (simp add: measure_mixed_event_normalization_def peak_finding_objects_from_mixed_event_def
      Let_def Histogram1D_of_one_argument)

theorem measure_mixed_event_normalization_raises_witness:
  "measure_mixed_event_normalization uniform_hist_methods (1 / 10 ^ 16) 10 (- (3 / 10), 3 / 10)
     = Inl TypeError"
  using measure_mixed_event_normalization_raises
    [where m = uniform_hist_methods and mixed_event_hist = 10
       and eta_limits = "(- (3 / 10), 3 / 10)" and epsilon = "1 / 10 ^ 16"]
  by (simp add: uniform_hist_methods_def eta_limit_bins_of_uniform_hist)

text \<open>
  C10. In a freshly constructed analysis object the fit object of the away side delta phi
  width has the near side phi region as its fit range, while its properties record the away
  side phi region; the fit object of the away side delta eta width has the near side phi
  region as its fit range as well, while its properties record the signal dominated eta
  region. The regions are the configured ranges, the phi ranges multiplied by \<open>\<pi>\<close> (and
  shifted by \<open>\<pi>\<close> for the away side).
\<close>

theorem away_side_width_fits_use_near_side_range:
  fixes task_config :: TaskConfig and ident :: string and orientation :: ReactionPlaneOrientation
    and track_pt_bin :: SelectedRange and root_on_disk :: "(string \<times> 'h root_object) list option"
    and yaml_on_disk :: "(string \<times> yaml_object) list option"
  defines "self \<equiv> (Correlations_init ident orientation track_pt_bin task_config root_on_disk
                       yaml_on_disk :: 'h Correlations)"
  shows "fit_range (fit_obj (away (widths_delta_phi self))) = near_side_phi_region self
       \<and> properties_fit_range (away (widths_delta_phi self)) = away_side_phi_region self
       \<and> fit_range (fit_obj (away (widths_delta_eta self))) = near_side_phi_region self
       \<and> properties_fit_range (away (widths_delta_eta self)) = signal_dominated_eta_region self
       \<and> near_side_phi_region self =
           \<lparr>range_min = pi * fst (deltaPhiRanges_nearSide task_config),
            range_max = pi * snd (deltaPhiRanges_nearSide task_config)\<rparr>
       \<and> away_side_phi_region self =
           \<lparr>range_min = pi + pi * fst (deltaPhiRanges_awaySide task_config),
            range_max = pi + pi * snd (deltaPhiRanges_awaySide task_config)\<rparr>
       \<and> signal_dominated_eta_region self =
           \<lparr>range_min = fst (deltaEtaRanges_signalDominated task_config),
            range_max = snd (deltaEtaRanges_signalDominated task_config)\<rparr>"
  unfolding self_def
  by (simp add: Correlations_init_def make_width_def make_range_def Let_def)

lemma sub_constant:
  assumes "length ys = length (bin_edges h) - 1" and "length es = length (bin_edges h) - 1"
    and "y_values h = ys" and "errors_squared h = es"
  shows "Histogram1D_sub h (pedestal_background_hist pedestal h) =
     Inr \<lparr>bin_edges = bin_edges h,
          y_values = map (\<lambda>v. v - fit_value pedestal) ys,
          errors_squared = map (\<lambda>e. e + (fit_error pedestal)\<^sup>2) es\<rparr>"
  using assms
  by (simp add: Histogram1D_sub_def pedestal_background_hist_def Histogram1D_x_def
      zip_replicate2)

text \<open>
  C3. With both delta eta correlations projected (their arrays as long as the number of
  bins), \<^verbatim>\<open>subtract_delta_eta_correlations\<close> raises nothing; the background histogram has
  the value and the squared error of the near side pedestal in every bin, for the near side
  and for the away side; the subtracted histograms are the data minus the near side
  pedestal value, with the squared near side pedestal error added to the squared error of
  each bin. The error of each subtracted bin is therefore the quadrature sum of the error of
  the data (the square root of its non-negative squared error) and the error of the near
  side pedestal.
\<close>

theorem subtract_delta_eta_uses_near_side_pedestal:
  fixes self :: "'h Correlations"
  defines "pedestal \<equiv> near (fit_objects_delta_eta self)"
  defines "result \<equiv> subtract_delta_eta_correlations self"
  assumes "near (correlation_hists_delta_eta self) = Some h_near"
      and "away (correlation_hists_delta_eta self) = Some h_away"
      and "length (y_values h_near) = length (bin_edges h_near) - 1"
      and "length (errors_squared h_near) = length (bin_edges h_near) - 1"
      and "length (y_values h_away) = length (bin_edges h_away) - 1"
      and "length (errors_squared h_away) = length (bin_edges h_away) - 1"
  shows "fst result = None
       \<and> pedestal_background_hist pedestal h_near =
           \<lparr>bin_edges = bin_edges h_near,
            y_values = replicate (length (bin_edges h_near) - 1) (fit_value pedestal),
            errors_squared = replicate (length (bin_edges h_near) - 1) ((fit_error pedestal)\<^sup>2)\<rparr>
       \<and> pedestal_background_hist pedestal h_away =
           \<lparr>bin_edges = bin_edges h_away,
            y_values = replicate (length (bin_edges h_away) - 1) (fit_value pedestal),
            errors_squared = replicate (length (bin_edges h_away) - 1) ((fit_error pedestal)\<^sup>2)\<rparr>
       \<and> near (correlation_hists_delta_eta_subtracted (snd result)) =
           Some \<lparr>bin_edges = bin_edges h_near,
                 y_values = map (\<lambda>v. v - fit_value pedestal) (y_values h_near),
                 errors_squared = map (\<lambda>e. e + (fit_error pedestal)\<^sup>2) (errors_squared h_near)\<rparr>
       \<and> away (correlation_hists_delta_eta_subtracted (snd result)) =
           Some \<lparr>bin_edges = bin_edges h_away,
                 y_values = map (\<lambda>v. v - fit_value pedestal) (y_values h_away),
                 errors_squared = map (\<lambda>e. e + (fit_error pedestal)\<^sup>2) (errors_squared h_away)\<rparr>
       \<and> Histogram1D_errors (the (near (correlation_hists_delta_eta_subtracted (snd result)))) =
           map (\<lambda>e2. sqrt (e2 + (fit_error pedestal)\<^sup>2)) (errors_squared h_near)
       \<and> Histogram1D_errors (the (away (correlation_hists_delta_eta_subtracted (snd result)))) =
           map (\<lambda>e2. sqrt (e2 + (fit_error pedestal)\<^sup>2)) (errors_squared h_away)
       \<and> (list_all (\<lambda>e2. 0 \<le> e2) (errors_squared h_near) \<longrightarrow>
            Histogram1D_errors (the (near (correlation_hists_delta_eta_subtracted (snd result)))) =
              map (\<lambda>d. sqrt (d\<^sup>2 + (fit_error pedestal)\<^sup>2)) (Histogram1D_errors h_near))
       \<and> (list_all (\<lambda>e2. 0 \<le> e2) (errors_squared h_away) \<longrightarrow>
            Histogram1D_errors (the (away (correlation_hists_delta_eta_subtracted (snd result)))) =
              map (\<lambda>d. sqrt (d\<^sup>2 + (fit_error pedestal)\<^sup>2)) (Histogram1D_errors h_away))"
proof -
  have n: "Histogram1D_sub h_near (pedestal_background_hist pedestal h_near) =
     Inr \<lparr>bin_edges = bin_edges h_near,
          y_values = map (\<lambda>v. v - fit_value pedestal) (y_values h_near),
          errors_squared = map (\<lambda>e. e + (fit_error pedestal)\<^sup>2) (errors_squared h_near)\<rparr>"
    using assms(5,6) by (intro sub_constant) simp_all
  have a: "Histogram1D_sub h_away (pedestal_background_hist pedestal h_away) =
     Inr \<lparr>bin_edges = bin_edges h_away,
          y_values = map (\<lambda>v. v - fit_value pedestal) (y_values h_away),
          errors_squared = map (\<lambda>e. e + (fit_error pedestal)\<^sup>2) (errors_squared h_away)\<rparr>"
    using assms(7,8) by (intro sub_constant) simp_all
  have bg: "pedestal_background_hist pedestal h =
           \<lparr>bin_edges = bin_edges h,
            y_values = replicate (length (bin_edges h) - 1) (fit_value pedestal),
            errors_squared = replicate (length (bin_edges h) - 1) ((fit_error pedestal)\<^sup>2)\<rparr>" for h
    by (simp add: pedestal_background_hist_def Histogram1D_x_def)
  have r: "result = (None, self\<lparr>correlation_hists_delta_eta_subtracted :=
             (correlation_hists_delta_eta_subtracted self)
               \<lparr>near := Some \<lparr>bin_edges = bin_edges h_near,
                 y_values = map (\<lambda>v. v - fit_value pedestal) (y_values h_near),
                 errors_squared = map (\<lambda>e. e + (fit_error pedestal)\<^sup>2) (errors_squared h_near)\<rparr>,
                away := Some \<lparr>bin_edges = bin_edges h_away,
                 y_values = map (\<lambda>v. v - fit_value pedestal) (y_values h_away),
                 errors_squared = map (\<lambda>e. e + (fit_error pedestal)\<^sup>2) (errors_squared h_away)\<rparr>\<rparr>\<rparr>)"
    unfolding result_def subtract_delta_eta_correlations_def
    using n a assms(3,4) by (simp add: subtract_pedestal_def pedestal_def Let_def)
  have q: "list_all (\<lambda>e2. 0 \<le> e2) es \<Longrightarrow>
           map (\<lambda>e2. sqrt (e2 + c)) es = map (\<lambda>d. sqrt (d\<^sup>2 + c)) (map sqrt es)" for es c
    by (induction es) simp_all
  show ?thesis
    unfolding r using bg q by (simp add: Histogram1D_errors_def o_def)
qed

theorem subtract_delta_eta_uses_near_side_pedestal_witness:
  "fst (subtract_delta_eta_correlations projected_bin) = None
   \<and> near (correlation_hists_delta_eta_subtracted (snd (subtract_delta_eta_correlations projected_bin)))
       = Some \<lparr>bin_edges = [- 1, 0, 1], y_values = [3, 5], errors_squared = [25, 32]\<rparr>
   \<and> away (correlation_hists_delta_eta_subtracted (snd (subtract_delta_eta_correlations projected_bin)))
       = Some \<lparr>bin_edges = [- 1, 0, 1], y_values = [3, 5], errors_squared = [25, 32]\<rparr>
   \<and> Histogram1D_errors (the (away (correlation_hists_delta_eta_subtracted
         (snd (subtract_delta_eta_correlations projected_bin)))))
       = [sqrt ((sqrt 9)\<^sup>2 + 4\<^sup>2), sqrt ((sqrt 16)\<^sup>2 + 4\<^sup>2)]"
proof -
  have p1: "near (correlation_hists_delta_eta projected_bin) = Some example_hist"
    and p2: "away (correlation_hists_delta_eta projected_bin) = Some example_hist"
    and p: "near (fit_objects_delta_eta projected_bin) = \<lparr>fit_value = 2, fit_error = 4\<rparr>"
    by (simp_all add: projected_bin_def)
  have p3: "length (y_values example_hist) = length (bin_edges example_hist) - 1"
    and p4: "length (errors_squared example_hist) = length (bin_edges example_hist) - 1"
    and e: "list_all (\<lambda>e2. 0 \<le> e2) (errors_squared example_hist)"
    by (simp_all add: example_hist_def)
  from subtract_delta_eta_uses_near_side_pedestal [OF p1 p2 p3 p4 p3 p4] e
  show ?thesis
    unfolding p by (simp add: example_hist_def Histogram1D_errors_def)
qed

text \<open>
  C9. With the subtracted histograms present and a track pt bin of non-zero width,
  \<^verbatim>\<open>extract_yields\<close> raises nothing, and each yield is the integral of the subtracted
  histogram from \<open>center - limit + epsilon\<close> to \<open>center + limit - epsilon\<close>, its value and
  its error both divided by \<open>track_pt.max - track_pt.min\<close>: for delta phi, of the subtracted
  signal dominated histogram with the centers \<open>0\<close> (near side) and \<open>\<pi>\<close> (away side) and the
  delta phi limit; for delta eta, of the subtracted near side and away side histograms, both
  with the center \<open>0\<close> and the delta eta limit.
\<close>

theorem extract_yields_integrates_and_scales:
  fixes self :: "'h Correlations" and integral :: "Histogram1D \<Rightarrow> real \<Rightarrow> real \<Rightarrow> real \<times> real"
    and epsilon :: real
  defines "bin_width \<equiv> range_max (track_pt self) - range_min (track_pt self)"
  defines "result \<equiv> extract_yields integral epsilon self"
  defines "scaled \<equiv> (\<lambda>h center limit.
             \<lparr>obs_value = fst (integral h (center - limit + epsilon) (center + limit - epsilon)) / bin_width,
              obs_error = snd (integral h (center - limit + epsilon) (center + limit - epsilon)) / bin_width\<rparr>)"
  assumes "signal_dom (correlation_hists_delta_phi_subtracted self) = Some h_phi"
      and "near (correlation_hists_delta_eta_subtracted self) = Some h_near"
      and "away (correlation_hists_delta_eta_subtracted self) = Some h_away"
      and "bin_width \<noteq> 0"
  shows "fst result = None
       \<and> near (yields_delta_phi (snd result)) = scaled h_phi 0 (delta_phi_yield_limit self)
       \<and> away (yields_delta_phi (snd result)) = scaled h_phi pi (delta_phi_yield_limit self)
       \<and> near (yields_delta_eta (snd result)) = scaled h_near 0 (delta_eta_yield_limit self)
       \<and> away (yields_delta_eta (snd result)) = scaled h_away 0 (delta_eta_yield_limit self)"
  using assms(4-7) unfolding result_def scaled_def bin_width_def
  by (simp add: extract_yields_def extract_yield_from_hist_def Let_def)

theorem extract_yields_integrates_and_scales_witness:
  "fst (extract_yields (\<lambda>h lo hi. (hi - lo, 3)) (1 / 10 ^ 16) (subtracted_bin\<lparr>track_pt := \<lparr>range_min = 1, range_max = 3\<rparr>\<rparr>)) = None
   \<and> away (yields_delta_phi (snd (extract_yields (\<lambda>h lo hi. (hi - lo, 3)) (1 / 10 ^ 16)
        (subtracted_bin\<lparr>track_pt := \<lparr>range_min = 1, range_max = 3\<rparr>\<rparr>))))
       = \<lparr>obs_value = (pi + 1 - 1 / 10 ^ 16 - (pi - 1 + 1 / 10 ^ 16)) / 2, obs_error = 3 / 2\<rparr>"
  using extract_yields_integrates_and_scales
    [where self = "subtracted_bin\<lparr>track_pt := \<lparr>range_min = 1, range_max = 3\<rparr>\<rparr>"
       and h_phi = example_hist and h_near = example_hist and h_away = example_hist
       and integral = "\<lambda>h lo hi. (hi - lo, 3)" and epsilon = "1 / 10 ^ 16"]
  by (simp add: subtracted_bin_def projected_bin_def example_bin_def Correlations_init_def
      example_task_config_def Let_def)

theorem away_side_width_fits_use_near_side_range_witness:
  "fit_range (fit_obj (away (widths_delta_phi (example_bin inclusive)))) = \<lparr>range_min = - (pi / 2), range_max = pi / 2\<rparr>
   \<and> properties_fit_range (away (widths_delta_phi (example_bin inclusive))) = \<lparr>range_min = pi / 2, range_max = 3 * pi / 2\<rparr>
   \<and> fit_range (fit_obj (away (widths_delta_eta (example_bin inclusive)))) = \<lparr>range_min = - (pi / 2), range_max = pi / 2\<rparr>
   \<and> properties_fit_range (away (widths_delta_eta (example_bin inclusive))) = \<lparr>range_min = 0, range_max = 6 / 10\<rparr>"
  using away_side_width_fits_use_near_side_range
    [where ident = "''jetPt_20_40_trackPt_1_2''" and orientation = inclusive
       and track_pt_bin = "\<lparr>range_min = 1, range_max = 2\<rparr>" and task_config = example_task_config
       and root_on_disk = None and yaml_on_disk = None]
  by (simp add: example_bin_def example_task_config_def Correlations_init_def make_range_def Let_def)

text \<open>The stage flags through the pipeline. No operation inside an analysis object but
  \<^verbatim>\<open>run_projections\<close> touches a flag; the manager sets \<^verbatim>\<open>ran_fitting\<close> in the reaction plane fit
  and \<^verbatim>\<open>ran_post_fit_processing\<close> in the subtraction of the reaction plane fit.\<close>

lemma stage_flags_updates [simp]:
  "stage_flags (self\<lparr>processing_options := po\<rparr>) = stage_flags self"
  "stage_flags (self\<lparr>number_of_triggers_observable := nt\<rparr>) = stage_flags self"
  "stage_flags (self\<lparr>number_of_triggers := n\<rparr>) = stage_flags self"
  "stage_flags (self\<lparr>correlation_hists_2d := h2\<rparr>) = stage_flags self"
  "stage_flags (self\<lparr>correlation_hists_delta_phi := dp\<rparr>) = stage_flags self"
  "stage_flags (self\<lparr>correlation_hists_delta_eta := de\<rparr>) = stage_flags self"
  "stage_flags (self\<lparr>correlation_hists_delta_phi_subtracted := dps\<rparr>) = stage_flags self"
  "stage_flags (self\<lparr>correlation_hists_delta_eta_subtracted := des\<rparr>) = stage_flags self"
  "stage_flags (self\<lparr>yields_delta_phi := yp\<rparr>) = stage_flags self"
  "stage_flags (self\<lparr>yields_delta_eta := ye\<rparr>) = stage_flags self"
  "stage_flags (self\<lparr>widths_delta_phi := wp\<rparr>) = stage_flags self"
  "stage_flags (self\<lparr>widths_delta_eta := we\<rparr>) = stage_flags self"
  "stage_flags (self\<lparr>fit_object := fo\<rparr>) = stage_flags self"
  "stage_flags (self\<lparr>fit_objects_delta_eta := fe\<rparr>) = stage_flags self"
  "stage_flags (self\<lparr>root_file := rf\<rparr>) = stage_flags self"
  "stage_flags (self\<lparr>yaml_file := yf\<rparr>) = stage_flags self"
  by (simp_all add: stage_flags_def)

lemma stage_flags_writes [simp]:
  "stage_flags (yaml_dump entries self) = stage_flags self"
  "stage_flags (write_hists_to_yaml hists1 self) = stage_flags self"
  "stage_flags (write_hists_to_root_file hists self) = stage_flags self"
  by (simp_all add: yaml_dump_def write_hists_to_yaml_def write_hists_to_root_file_def)

lemma stage_flags_write_stage [simp]:
  "stage_flags (write_2d_correlations self) = stage_flags self"
  "stage_flags (write_number_of_triggers_hist self) = stage_flags self"
  "stage_flags (write_1d_correlations self) = stage_flags self"
  "stage_flags (write_delta_eta_fit_results self) = stage_flags self"
  "stage_flags (write_1d_subtracted_delta_phi_correlations self) = stage_flags self"
  "stage_flags (write_1d_subtracted_delta_eta_correlations self) = stage_flags self"
  "stage_flags (write_yields_to_YAML self) = stage_flags self"
  "stage_flags (write_widths_to_YAML self) = stage_flags self"
  by (simp_all add: write_2d_correlations_def write_number_of_triggers_hist_def
      write_1d_correlations_def write_delta_eta_fit_results_def
      write_1d_subtracted_delta_phi_correlations_def
      write_1d_subtracted_delta_eta_correlations_def write_yields_to_YAML_def
      write_widths_to_YAML_def)

lemma stage_flags_create_2d_raw_and_mixed [simp]:
  "stage_flags (snd (create_2d_raw_and_mixed_correlations env self)) = stage_flags self"
  by (simp add: create_2d_raw_and_mixed_correlations_def Let_def
      split: sum.splits prod.splits option.splits)

lemma stage_flags_create_2d_signal [simp]:
  "stage_flags (snd (create_2d_signal_correlation env self)) = stage_flags self"
  by (simp add: create_2d_signal_correlation_def Let_def
      split: sum.splits prod.splits option.splits)

lemma stage_flags_compute_2d [simp]:
  "stage_flags (snd (compute_2d_correlations env self)) = stage_flags self"
proof (cases "create_2d_raw_and_mixed_correlations env self")
  case (Pair r s)
  with stage_flags_create_2d_raw_and_mixed [of env self]
  have a: "stage_flags s = stage_flags self" by simp
  show ?thesis
  proof (cases "create_2d_signal_correlation env s")
    case inner: (Pair r2 s2)
    with stage_flags_create_2d_signal [of env s]
    have "stage_flags s2 = stage_flags s" by simp
    with a Pair inner show ?thesis
      by (simp add: compute_2d_correlations_def Let_def split: option.splits)
  qed
qed

lemma stage_flags_load_2d [simp]:
  "stage_flags (snd (load_2d_correlations self)) = stage_flags self"
  by (simp add: load_2d_correlations_def split: option.splits)

lemma stage_flags_run_2d [simp]:
  "stage_flags (snd (run_2d_projections env self)) = stage_flags self"
  by (simp add: run_2d_projections_def Let_def)

lemma stage_flags_compute_1d [simp]:
  "stage_flags (snd (compute_1d_correlations env self)) = stage_flags self"
  by (simp add: compute_1d_correlations_def Let_def split: sum.splits prod.splits)

lemma stage_flags_load_1d [simp]:
  "stage_flags (snd (load_1d_correlations self)) = stage_flags self"
  by (simp add: load_1d_correlations_def split: option.splits)

lemma stage_flags_run_1d [simp]:
  "stage_flags (snd (run_1d_projections env self)) = stage_flags self"
  by (simp add: run_1d_projections_def)

lemma flags_kept_or_set_refl: "flags_kept_or_set a a"
  by (simp add: flags_kept_or_set_def)

lemma flags_kept_or_set_trans:
  "flags_kept_or_set a b \<Longrightarrow> flags_kept_or_set b c \<Longrightarrow> flags_kept_or_set a c"
  by (auto simp: flags_kept_or_set_def)

lemma same_flags_kept: "stage_flags b = stage_flags a \<Longrightarrow> flags_kept_or_set a b"
  by (simp add: stage_flags_def flags_kept_or_set_def)

lemma run_projections_flags: "flags_kept_or_set self (snd (run_projections env self))"
proof -
  obtain r1 s1 where 1: "run_2d_projections env self = (r1, s1)" by (cases "run_2d_projections env self")
  obtain r2 s2 where 2: "run_1d_projections env s1 = (r2, s2)" by (cases "run_1d_projections env s1")
  have "stage_flags s1 = stage_flags self" using stage_flags_run_2d [of env self] 1 by simp
  moreover have "stage_flags s2 = stage_flags s1" using stage_flags_run_1d [of env s1] 2 by simp
  ultimately have "stage_flags s2 = stage_flags self" "stage_flags s1 = stage_flags self" by simp_all
  then show ?thesis
    using 1 2
    by (auto simp: run_projections_def stage_flags_def flags_kept_or_set_def split: option.splits)
qed

lemma stage_flags_fit_delta_eta [simp]:
  "stage_flags (snd (fit_delta_eta_correlations env self)) = stage_flags self"
  by (simp add: fit_delta_eta_correlations_def Let_def split: sum.splits)

lemma stage_flags_init_delta_eta_fit [simp]:
  "stage_flags (snd (init_delta_eta_fit_information self)) = stage_flags self"
  by (simp add: init_delta_eta_fit_information_def split: option.splits yaml_object.splits)

lemma stage_flags_fit_delta_eta_one [simp]:
  "stage_flags (snd (fit_delta_eta_one env options self)) = stage_flags self"
proof (cases "fit_delta_eta_correlations env self")
  case (Pair r s)
  with stage_flags_fit_delta_eta [of env self] have "stage_flags s = stage_flags self" by simp
  with Pair show ?thesis by (simp add: fit_delta_eta_one_def split: option.splits)
qed

lemma stage_flags_subtract_background [simp]:
  "stage_flags (snd (subtract_background_fit_function_from_signal_dominated self)) = stage_flags self"
  by (simp add: subtract_background_fit_function_from_signal_dominated_def Let_def
      split: option.splits sum.splits)

lemma stage_flags_init_subtracted_delta_phi [simp]:
  "stage_flags (snd (init_1d_subtracted_delta_phi_correlations_from_file self)) = stage_flags self"
  by (simp add: init_1d_subtracted_delta_phi_correlations_from_file_def
      split: option.splits list.splits)

lemma stage_flags_subtract_reaction_plane_fit_one [simp]:
  "stage_flags (snd (subtract_reaction_plane_fit_one options self)) = stage_flags self"
proof (cases "subtract_background_fit_function_from_signal_dominated self")
  case (Pair r s)
  with stage_flags_subtract_background [of self] have "stage_flags s = stage_flags self" by simp
  with Pair show ?thesis by (simp add: subtract_reaction_plane_fit_one_def split: option.splits)
qed

lemma stage_flags_subtract_delta_eta_correlations [simp]:
  "stage_flags (snd (subtract_delta_eta_correlations self)) = stage_flags self"
  by (simp add: subtract_delta_eta_correlations_def Let_def split: sum.splits)

lemma stage_flags_init_subtracted_delta_eta [simp]:
  "stage_flags (snd (init_1d_subtracted_delta_eta_correlations_from_file self)) = stage_flags self"
  by (simp add: init_1d_subtracted_delta_eta_correlations_from_file_def
      split: option.splits list.splits)

lemma stage_flags_subtract_delta_eta_fit_one [simp]:
  "stage_flags (snd (subtract_delta_eta_fit_one options self)) = stage_flags self"
proof (cases "subtract_delta_eta_correlations self")
  case (Pair r s)
  with stage_flags_subtract_delta_eta_correlations [of self]
  have "stage_flags s = stage_flags self" by simp
  with Pair show ?thesis by (simp add: subtract_delta_eta_fit_one_def split: option.splits)
qed

lemma stage_flags_extract_yields [simp]:
  "stage_flags (snd (extract_yields integral epsilon self)) = stage_flags self"
  by (simp add: extract_yields_def Let_def split: sum.splits)

lemma stage_flags_init_yields [simp]:
  "stage_flags (snd (init_yields_from_file self)) = stage_flags self"
  by (simp add: init_yields_from_file_def Let_def split: option.splits yaml_object.splits)

lemma stage_flags_extract_yields_one [simp]:
  "stage_flags (snd (extract_yields_one env options self)) = stage_flags self"
proof (cases "extract_yields (env_integral env) (env_epsilon env) self")
  case (Pair r s)
  with stage_flags_extract_yields [of "env_integral env" "env_epsilon env" self]
  have "stage_flags s = stage_flags self" by simp
  with Pair show ?thesis by (simp add: extract_yields_one_def split: option.splits)
qed

lemma stage_flags_retrieve_widths [simp]:
  "stage_flags (snd (retrieve_widths_from_RPF self)) = stage_flags self"
  by (simp add: retrieve_widths_from_RPF_def Let_def split: option.splits)

lemma stage_flags_fit_delta_phi_widths [simp]:
  "stage_flags (snd (fit_and_extract_delta_phi_widths env self)) = stage_flags self"
  by (simp add: fit_and_extract_delta_phi_widths_def Let_def split: sum.splits)

lemma stage_flags_fit_delta_eta_widths [simp]:
  "stage_flags (snd (fit_and_extract_delta_eta_widths env self)) = stage_flags self"
  by (simp add: fit_and_extract_delta_eta_widths_def Let_def split: sum.splits)

lemma stage_flags_extract_widths [simp]:
  "stage_flags (snd (extract_widths env self)) = stage_flags self"
proof -
  obtain r1 s1 where 1: "retrieve_widths_from_RPF self = (r1, s1)"
    by (cases "retrieve_widths_from_RPF self")
  obtain r2 s2 where 2: "fit_and_extract_delta_phi_widths env s1 = (r2, s2)"
    by (cases "fit_and_extract_delta_phi_widths env s1")
  have "stage_flags s1 = stage_flags self" using stage_flags_retrieve_widths [of self] 1 by simp
  moreover have "stage_flags s2 = stage_flags s1"
    using stage_flags_fit_delta_phi_widths [of env s1] 2 by simp
  ultimately show ?thesis
    using 1 2 by (simp add: extract_widths_def split: option.splits)
qed

lemma stage_flags_init_widths [simp]:
  "stage_flags (snd (init_widths_from_file self)) = stage_flags self"
  by (simp add: init_widths_from_file_def Let_def split: option.splits yaml_object.splits)

lemma stage_flags_extract_widths_one [simp]:
  "stage_flags (snd (extract_widths_one env options self)) = stage_flags self"
proof (cases "extract_widths env self")
  case (Pair r s)
  with stage_flags_extract_widths [of env self] have "stage_flags s = stage_flags self" by simp
  with Pair show ?thesis by (simp add: extract_widths_one_def split: option.splits)
qed

lemma for_each_related:
  assumes step: "\<And>a. R a (snd (body a))" and refl: "\<And>a. R a a"
  shows "list_all2 R as (snd (for_each body as))"
proof (induction as)
  case Nil
  show ?case by simp
next
  case (Cons a rest)
  show ?case
    using step [of a] Cons
    by (auto split: prod.splits option.splits simp: list_all2_refl refl)
qed

lemma for_each_flags:
  assumes "\<And>a. stage_flags (snd (body a)) = stage_flags a"
  shows "list_all2 (list_all2 flags_kept_or_set) groups (snd (for_each (for_each body) groups))"
proof (rule for_each_related)
  fix g :: "'a Correlations list"
  show "list_all2 flags_kept_or_set g (snd (for_each body g))"
    by (rule for_each_related) (simp_all add: same_flags_kept assms flags_kept_or_set_refl)
  show "list_all2 flags_kept_or_set g g"
    by (simp add: list_all2_refl flags_kept_or_set_refl)
qed

lemma groups_trans:
  assumes "list_all2 (list_all2 flags_kept_or_set) a b"
    and "list_all2 (list_all2 flags_kept_or_set) b c"
  shows "list_all2 (list_all2 flags_kept_or_set) a c"
  using assms
  by (rule list_all2_trans [rotated]) (erule (1) list_all2_trans [rotated], erule (1) flags_kept_or_set_trans)

lemma project_all_flags:
  "list_all2 (list_all2 flags_kept_or_set) (analyses manager)
     (analyses (snd (project_all env manager)))"
proof -
  have "list_all2 (list_all2 flags_kept_or_set) (analyses manager)
          (snd (for_each (for_each (run_projections env)) (analyses manager)))"
    by (intro for_each_related run_projections_flags)
       (simp_all add: list_all2_refl flags_kept_or_set_refl)
  then show ?thesis by (auto simp add: project_all_def split: prod.splits)
qed

lemma manager_fit_delta_eta_flags:
  "list_all2 (list_all2 flags_kept_or_set) (analyses manager)
     (analyses (snd (manager_fit_delta_eta_correlations env manager)))"
  using for_each_flags [of "fit_delta_eta_one env (manager_processing_options manager)"
      "analyses manager"]
  by (auto simp add: manager_fit_delta_eta_correlations_def split: prod.splits)

lemma subtract_delta_eta_fits_flags:
  "list_all2 (list_all2 flags_kept_or_set) (analyses manager)
     (analyses (snd (subtract_delta_eta_fits manager)))"
  using for_each_flags [of "subtract_delta_eta_fit_one (manager_processing_options manager)"
      "analyses manager"]
  by (auto simp add: subtract_delta_eta_fits_def split: prod.splits)

lemma manager_extract_yields_flags:
  "list_all2 (list_all2 flags_kept_or_set) (analyses manager)
     (analyses (snd (manager_extract_yields env manager)))"
  using for_each_flags [of "extract_yields_one env (manager_processing_options manager)"
      "analyses manager"]
  by (auto simp add: manager_extract_yields_def split: prod.splits)

lemma manager_extract_widths_flags:
  "list_all2 (list_all2 flags_kept_or_set) (analyses manager)
     (analyses (snd (manager_extract_widths env manager)))"
  using for_each_flags [of "extract_widths_one env (manager_processing_options manager)"
      "analyses manager"]
  by (auto simp add: manager_extract_widths_def split: prod.splits)

lemma set_flag_kept:
  "list_all2 flags_kept_or_set g (map (\<lambda>analysis. analysis\<lparr>ran_post_fit_processing := True\<rparr>) g)"
  by (simp add: list_all2_map2 list_all2_refl flags_kept_or_set_def)

lemma subtract_reaction_plane_fit_group_flags:
  "list_all2 flags_kept_or_set g (snd (subtract_reaction_plane_fit_group options g))"
proof -
  obtain r g1 where 1: "for_each (subtract_reaction_plane_fit_one options) g = (r, g1)"
    by (cases "for_each (subtract_reaction_plane_fit_one options) g")
  have a: "list_all2 flags_kept_or_set g g1"
    using for_each_related [of flags_kept_or_set "subtract_reaction_plane_fit_one options" g] 1
    by (simp add: same_flags_kept flags_kept_or_set_refl)
  have b: "list_all2 flags_kept_or_set g1
             (map (\<lambda>analysis. analysis\<lparr>ran_post_fit_processing := True\<rparr>) g1)"
    by (rule set_flag_kept)
  from a b have "list_all2 flags_kept_or_set g
             (map (\<lambda>analysis. analysis\<lparr>ran_post_fit_processing := True\<rparr>) g1)"
    by (rule list_all2_trans [rotated]) (erule (1) flags_kept_or_set_trans)
  with a 1 show ?thesis
    by (simp add: subtract_reaction_plane_fit_group_def split: option.splits)
qed

lemma subtract_reaction_plane_fit_groups_flags:
  "list_all2 (list_all2 flags_kept_or_set) groups
     (snd (subtract_reaction_plane_fit_groups options groups rp_fits))"
proof (induction options groups rp_fits rule: subtract_reaction_plane_fit_groups.induct)
  case (1 options rp_fits)
  show ?case by simp
next
  case (2 options ep_analyses rest)
  show ?case by (simp add: list_all2_refl flags_kept_or_set_refl)
next
  case (3 options ep_analyses rest rp_fit rp_fits)
  show ?case
    using 3 subtract_reaction_plane_fit_group_flags [of ep_analyses options]
    by (auto split: prod.splits option.splits simp: list_all2_refl flags_kept_or_set_refl)
qed

lemma subtract_reaction_plane_fits_flags:
  "list_all2 (list_all2 flags_kept_or_set) (analyses manager)
     (analyses (snd (subtract_reaction_plane_fits manager)))"
  using subtract_reaction_plane_fit_groups_flags
    [of "analyses manager" "manager_processing_options manager" "map fst (fit_objects manager)"]
  by (auto simp add: subtract_reaction_plane_fits_def split: prod.splits)

lemma subtract_fits_flags:
  "list_all2 (list_all2 flags_kept_or_set) (analyses manager)
     (analyses (snd (subtract_fits manager)))"
proof (cases "subtract_reaction_plane_fits manager")
  case (Pair r m1)
  have a: "list_all2 (list_all2 flags_kept_or_set) (analyses manager) (analyses m1)"
    using subtract_reaction_plane_fits_flags [of manager] Pair by simp
  have b: "list_all2 (list_all2 flags_kept_or_set) (analyses m1)
             (analyses (snd (subtract_delta_eta_fits m1)))"
    by (rule subtract_delta_eta_fits_flags)
  from groups_trans [OF a b] a Pair show ?thesis
    by (simp add: subtract_fits_def split: option.splits)
qed

lemma stage_flags_assign_components [simp]:
  "stage_flags (assign_components comps analysis) = stage_flags analysis"
  unfolding assign_components_def
  by (induction comps arbitrary: analysis) (simp_all split: prod.splits)

lemma reaction_plane_fit_group_flags:
  fixes g :: "'h Correlations list"
  shows "list_all2 flags_kept_or_set g (fst (snd (reaction_plane_fit_group env bound g manager)))"
proof -
  have "list_all2 flags_kept_or_set g
          (map (\<lambda>analysis. (assign_components comps analysis)\<lparr>ran_fitting := True\<rparr>) g)" for comps
  proof -
    have "flags_kept_or_set x ((assign_components comps x)\<lparr>ran_fitting := True\<rparr>)"
      for x :: "'h Correlations"
      using stage_flags_assign_components [of comps x]
      by (simp add: flags_kept_or_set_def stage_flags_def)
    then show ?thesis by (simp add: list_all2_map2 list_all2_same)
  qed
  then show ?thesis
    by (simp add: reaction_plane_fit_group_def Let_def list_all2_refl flags_kept_or_set_refl
        split: option.splits sum.splits prod.splits)
qed

lemma reaction_plane_fit_groups_flags:
  assumes "list_all2 (list_all2 flags_kept_or_set) before fitted_groups"
  shows "list_all2 (list_all2 flags_kept_or_set) (before @ todo)
           (analyses (snd (reaction_plane_fit_groups env bound fitted_groups todo manager)))"
  using assms
proof (induction todo arbitrary: before fitted_groups manager bound)
  case Nil
  then show ?case by simp
next
  case (Cons g todo)
  obtain r g1 m1 bound1 where 1: "reaction_plane_fit_group env bound g manager = (r, g1, m1, bound1)"
    by (cases "reaction_plane_fit_group env bound g manager")
  have g: "list_all2 flags_kept_or_set g g1"
    using reaction_plane_fit_group_flags [of g env bound manager] 1 by simp
  show ?case
  proof (cases r)
    case None
    have "list_all2 (list_all2 flags_kept_or_set) (before @ [g]) (fitted_groups @ [g1])"
      using Cons.prems g by (simp add: list_all2_appendI)
    from Cons.IH [OF this, of bound1 m1] None 1 show ?thesis by simp
  next
    case (Some e)
    have "list_all2 (list_all2 flags_kept_or_set) (before @ g # todo) (fitted_groups @ g1 # todo)"
      using Cons.prems g
      by (intro list_all2_appendI) (simp_all add: list_all2_refl flags_kept_or_set_refl)
    with Some 1 show ?thesis by simp
  qed
qed

lemma reaction_plane_fit_flags:
  "list_all2 (list_all2 flags_kept_or_set) (analyses manager)
     (analyses (snd (reaction_plane_fit env manager)))"
  using reaction_plane_fit_groups_flags [of "[]" "[]" "analyses manager" env "(None, None)" manager]
  by (simp add: reaction_plane_fit_def)

lemma manager_fit_flags:
  "list_all2 (list_all2 flags_kept_or_set) (analyses manager)
     (analyses (snd (manager_fit env manager)))"
proof (cases "manager_fit_delta_eta_correlations env manager")
  case (Pair r m1)
  have a: "list_all2 (list_all2 flags_kept_or_set) (analyses manager) (analyses m1)"
    using manager_fit_delta_eta_flags [of manager env] Pair by simp
  have b: "list_all2 (list_all2 flags_kept_or_set) (analyses m1)
             (analyses (snd (reaction_plane_fit env m1)))"
    by (rule reaction_plane_fit_flags)
  from groups_trans [OF a b] a Pair show ?thesis
    by (simp add: manager_fit_def split: option.splits)
qed

lemma run_stage_flags:
  "list_all2 (list_all2 flags_kept_or_set) (analyses manager)
     (analyses (snd (run_stage env s manager)))"
  by (cases s)
     (simp_all add: project_all_flags manager_fit_flags subtract_fits_flags
        manager_extract_yields_flags manager_extract_widths_flags)

lemma run_stages_flags:
  "list_all2 (list_all2 flags_kept_or_set) (analyses manager)
     (analyses (snd (run_stages env stages manager)))"
proof (induction stages arbitrary: manager)
  case Nil
  show ?case by (simp add: list_all2_refl flags_kept_or_set_refl)
next
  case (Cons s stages)
  obtain r m1 where 1: "run_stage env s manager = (r, m1)" by (cases "run_stage env s manager")
  have a: "list_all2 (list_all2 flags_kept_or_set) (analyses manager) (analyses m1)"
    using run_stage_flags [of manager env s] 1 by simp
  from groups_trans [OF a Cons.IH [of m1]] a 1 show ?case
    by (simp split: option.splits)
qed

lemma unfitted_fit_flags:
  "map (map stage_flags) (analyses (snd (run_stage example_env Fit unfitted_manager)))
     = [[(True, True, False)]]"
  by (simp add: manager_fit_def manager_fit_delta_eta_correlations_def fit_delta_eta_one_def
      unfitted_manager_def unfitted_bin_def example_bin_def Correlations_init_def Let_def
      reaction_plane_fit_def reaction_plane_fit_group_def example_env_def
      fit_delta_eta_correlations_def fit_pedestal_of_def write_delta_eta_fit_results_def
      yaml_dump_def stage_flags_def assign_components_def
      split: prod.splits)

text \<open>
  C7. A freshly constructed analysis object has the three stage flags \<^verbatim>\<open>ran_projections\<close>,
  \<^verbatim>\<open>ran_fitting\<close> and \<^verbatim>\<open>ran_post_fit_processing\<close> at \<^verbatim>\<open>False\<close>. Every stage of the pipeline
  (projections, fit, subtraction of the fits, extraction of the yields, extraction of the
  widths), every sequence of stages and \<^verbatim>\<open>run\<close> itself, whether they return or raise, leave
  the analysis objects of the manager in place and each flag of each object either as it was
  or \<^verbatim>\<open>True\<close>: a flag that is \<^verbatim>\<open>True\<close> stays \<^verbatim>\<open>True\<close>.
\<close>

theorem stage_flags_initialised_and_monotonic:
  fixes manager :: "'h CorrelationsManager"
  shows "stage_flags (Correlations_init ident orientation track_pt_bin task_config root_on_disk
            yaml_on_disk :: 'h Correlations) = (False, False, False)
       \<and> list_all2 (list_all2 flags_kept_or_set) (analyses manager)
           (analyses (snd (run_stage env s manager)))
       \<and> list_all2 (list_all2 flags_kept_or_set) (analyses manager)
           (analyses (snd (run_stages env stages manager)))
       \<and> list_all2 (list_all2 flags_kept_or_set) (analyses manager)
           (analyses (snd (run env manager)))"
proof -
  have "stage_flags (Correlations_init ident orientation track_pt_bin task_config root_on_disk
            yaml_on_disk :: 'h Correlations) = (False, False, False)"
    by (simp add: stage_flags_def Correlations_init_def Let_def)
  then show ?thesis
    by (simp only: run_stage_flags run_stages_flags run_def simp_thms)
qed

theorem stage_flags_initialised_and_monotonic_witness:
  "stage_flags (example_bin inclusive) = (False, False, False)
   \<and> map (map stage_flags) (analyses unfitted_manager) = [[(True, False, False)]]
   \<and> map (map stage_flags) (analyses (snd (run_stage example_env Fit unfitted_manager)))
       = [[(True, True, False)]]
   \<and> list_all2 (list_all2 flags_kept_or_set) (analyses unfitted_manager)
       (analyses (snd (run_stage example_env Fit unfitted_manager)))"
proof -
  have p1: "map (map stage_flags) (analyses unfitted_manager) = [[(True, False, False)]]"
    by (simp add: unfitted_manager_def unfitted_bin_def example_bin_def Correlations_init_def
        Let_def stage_flags_def)
  from stage_flags_initialised_and_monotonic
    [where manager = unfitted_manager and env = example_env and s = Fit
       and ident = "''jetPt_20_40_trackPt_1_2''" and orientation = inclusive
       and track_pt_bin = "\<lparr>range_min = 1, range_max = 2\<rparr>"
       and task_config = example_task_config and root_on_disk = None and yaml_on_disk = None]
    p1 unfitted_fit_flags
  show ?thesis by (simp add: example_bin_def)
qed

lemma post_creation_processing_for_2d_correlation_raises:
  "post_creation_processing_for_2d_correlation env h normalization_factor = Inl TypeError"
  by (simp add: post_creation_processing_for_2d_correlation_def bind_arguments_def
      post_projection_processing_for_2d_correlation_parameters_def)

lemma create_2d_raw_and_mixed_correlations_raises:
  "create_2d_raw_and_mixed_correlations env self =
     (case env_project_sparse env self of
        Inl e \<Rightarrow> (Some e, self)
      | Inr (triggers, raw_hist, mixed_event_hist) \<Rightarrow>
          (case env_determine_number_of_triggers env triggers of
             Inl e \<Rightarrow>
               (Some e,
                self\<lparr>number_of_triggers_observable := triggers,
                     correlation_hists_2d :=
                       (correlation_hists_2d self)
                         \<lparr>raw := raw_hist, mixed_event := mixed_event_hist\<rparr>\<rparr>)
           | Inr triggers_in_bin \<Rightarrow>
               (Some TypeError,
                self\<lparr>number_of_triggers_observable := triggers,
                     correlation_hists_2d :=
                       (correlation_hists_2d self)
                         \<lparr>raw := raw_hist, mixed_event := mixed_event_hist\<rparr>,
                     number_of_triggers := triggers_in_bin\<rparr>)))"
  by (simp add: create_2d_raw_and_mixed_correlations_def Let_def
      post_creation_processing_for_2d_correlation_raises split: sum.splits prod.splits)

lemma compute_2d_correlations_raises:
  "compute_2d_correlations env self = create_2d_raw_and_mixed_correlations env self"
  "fst (compute_2d_correlations env self) =
     (case env_project_sparse env self of
        Inl e \<Rightarrow> Some e
      | Inr (triggers, raw_hist, mixed_event_hist) \<Rightarrow>
          (case env_determine_number_of_triggers env triggers of
             Inl e \<Rightarrow> Some e
           | Inr triggers_in_bin \<Rightarrow> Some TypeError))"
  "processing_options (snd (compute_2d_correlations env self)) = processing_options self"
  "ran_projections (snd (compute_2d_correlations env self)) = ran_projections self"
  "correlation_hists_delta_phi (snd (compute_2d_correlations env self))
     = correlation_hists_delta_phi self"
  "correlation_hists_delta_eta (snd (compute_2d_correlations env self))
     = correlation_hists_delta_eta self"
  "root_file (snd (compute_2d_correlations env self)) = root_file self"
  by (simp_all add: compute_2d_correlations_def create_2d_raw_and_mixed_correlations_raises
      split: sum.splits prod.splits)

text \<open>
  C8. When \<^verbatim>\<open>_run_2d_projections\<close> takes its compute branch (\<^verbatim>\<open>generate2DCorrelations\<close> is set
  or the output file does not exist) it raises: the error of the projectors or of the
  number of triggers if one of them raises, and otherwise \<^verbatim>\<open>TypeError\<close> from the first call
  of \<^verbatim>\<open>_post_creation_processing_for_2d_correlation\<close>, which passes the keywords
  \<^verbatim>\<open>title_label\<close> and \<^verbatim>\<open>rebin_factors\<close> to a function that has no such parameter.
  \<^verbatim>\<open>run_projections\<close> ends there: \<^verbatim>\<open>generate1DCorrelations\<close> stays as configured, the 1D stage
  does not run in either mode, the 1D correlations are as before, nothing is written to the
  ROOT file and \<^verbatim>\<open>ran_projections\<close> is not set.
\<close>

theorem compute_mode_2d_projections_raise:
  assumes compute_mode: "generate2DCorrelations (processing_options self) \<or> root_file self = None"
  shows "fst (run_2d_projections env self) =
           (case env_project_sparse env self of
              Inl e \<Rightarrow> Some e
            | Inr (triggers, raw_hist, mixed_event_hist) \<Rightarrow>
                (case env_determine_number_of_triggers env triggers of
                   Inl e \<Rightarrow> Some e
                 | Inr triggers_in_bin \<Rightarrow> Some TypeError))
       \<and> fst (run_2d_projections env self) \<noteq> None
       \<and> run_projections env self = run_2d_projections env self
       \<and> processing_options (snd (run_projections env self)) = processing_options self
       \<and> ran_projections (snd (run_projections env self)) = ran_projections self
       \<and> correlation_hists_delta_phi (snd (run_projections env self))
           = correlation_hists_delta_phi self
       \<and> correlation_hists_delta_eta (snd (run_projections env self))
           = correlation_hists_delta_eta self
       \<and> root_file (snd (run_projections env self)) = root_file self"
proof -
  have a: "run_2d_projections env self = compute_2d_correlations env self"
    using compute_mode by (auto simp add: run_2d_projections_def Let_def)
  have b: "fst (compute_2d_correlations env self) \<noteq> None"
    by (simp add: compute_2d_correlations_raises(2) split: sum.splits prod.splits)
  then obtain e s1 where c: "compute_2d_correlations env self = (Some e, s1)"
    by (cases "compute_2d_correlations env self") auto
  have d: "run_projections env self = run_2d_projections env self"
    by (simp add: run_projections_def a c)
  from b show ?thesis
    by (simp only: d a compute_2d_correlations_raises(2-7) simp_thms)
qed

theorem compute_mode_2d_projections_raise_witness:
  "run_2d_projections example_env (example_bin inclusive)
     = compute_2d_correlations example_env (example_bin inclusive)
   \<and> fst (run_projections example_env (example_bin inclusive)) = Some TypeError
   \<and> \<not> generate1DCorrelations
         (processing_options (snd (run_projections example_env (example_bin inclusive))))
   \<and> \<not> ran_projections (snd (run_projections example_env (example_bin inclusive)))
   \<and> correlation_hists_delta_phi (snd (run_projections example_env (example_bin inclusive)))
       = \<lparr>signal_dom = None, background_dom = None\<rparr>
   \<and> root_file (snd (run_projections example_env (example_bin inclusive))) = None"
proof -
  have p1: "generate2DCorrelations (processing_options (example_bin inclusive))
            \<or> root_file (example_bin inclusive) = None"
    by (simp add: example_bin_def example_task_config_def Correlations_init_def Let_def)
  have p2: "env_project_sparse example_env (example_bin inclusive) = Inr (Some (), Some (), Some ())"
    "env_determine_number_of_triggers example_env (Some ()) = Inr 10"
    by (simp_all add: example_env_def)
  have p3: "run_2d_projections example_env (example_bin inclusive)
     = compute_2d_correlations example_env (example_bin inclusive)"
    using p1 by (auto simp add: run_2d_projections_def Let_def)
  have p4: "processing_options (example_bin inclusive)
      = \<lparr>generate2DCorrelations = True, generate1DCorrelations = False,
         fit1DCorrelations = False\<rparr>"
    "\<not> ran_projections (example_bin inclusive)"
    "correlation_hists_delta_phi (example_bin inclusive)
       = \<lparr>signal_dom = None, background_dom = None\<rparr>"
    "root_file (example_bin inclusive) = None"
    by (simp_all add: example_bin_def example_task_config_def Correlations_init_def Let_def)
  note t = compute_mode_2d_projections_raise [OF p1, of example_env]
  from t have "fst (run_2d_projections example_env (example_bin inclusive)) = Some TypeError"
    by (simp add: p2)
  moreover from t have "run_projections example_env (example_bin inclusive)
      = run_2d_projections example_env (example_bin inclusive)"
    by blast
  ultimately have q1: "fst (run_projections example_env (example_bin inclusive)) = Some TypeError"
    by simp
  from t have "processing_options (snd (run_projections example_env (example_bin inclusive)))
      = processing_options (example_bin inclusive)"
    by blast
  then have q2: "\<not> generate1DCorrelations
         (processing_options (snd (run_projections example_env (example_bin inclusive))))"
    by (simp add: p4)
  from t have "ran_projections (snd (run_projections example_env (example_bin inclusive)))
      = ran_projections (example_bin inclusive)"
    by blast
  then have q3: "\<not> ran_projections (snd (run_projections example_env (example_bin inclusive)))"
    by (simp add: p4)
  from t have "correlation_hists_delta_phi (snd (run_projections example_env (example_bin inclusive)))
      = correlation_hists_delta_phi (example_bin inclusive)"
    by blast
  then have q4: "correlation_hists_delta_phi
         (snd (run_projections example_env (example_bin inclusive)))
       = \<lparr>signal_dom = None, background_dom = None\<rparr>"
    by (simp add: p4)
  from t have "root_file (snd (run_projections example_env (example_bin inclusive)))
      = root_file (example_bin inclusive)"
    by blast
  then have q5: "root_file (snd (run_projections example_env (example_bin inclusive))) = None"
    by (simp add: p4)
  from p3 q1 q2 q3 q4 q5 show ?thesis by blast
qed

text \<open>The sanity check of \<^verbatim>\<open>_subtract_reaction_plane_fits\<close> raises for an analysis that has
  not been fitted, when the loop reaches it; the loop runs over \<^verbatim>\<open>zip(..., self.fit_objects)\<close>
  and reaches nothing when no reaction plane fit has been stored.\<close>

lemma subtract_reaction_plane_fit_one_checks_ran_fitting:
  assumes "\<not> ran_fitting analysis"
  shows "subtract_reaction_plane_fit_one options analysis = (Some RuntimeError, analysis)"
  using assms by (simp add: subtract_reaction_plane_fit_one_def)

lemma subtract_reaction_plane_fits_without_fit_objects:
  assumes "fit_objects manager = []"
  shows "subtract_reaction_plane_fits manager = (None, manager)"
proof -
  have "subtract_reaction_plane_fit_groups options groups ([] :: string list) = (None, groups)"
    for options and groups :: "'a Correlations list list"
    by (cases groups) simp_all
  with assms show ?thesis by (simp add: subtract_reaction_plane_fits_def)
qed

lemma subtract_delta_eta_unfitted_bin:
  "subtract_delta_eta_fit_one (manager_processing_options unfitted_manager) unfitted_bin =
     (None, unfitted_bin
        \<lparr>correlation_hists_delta_eta_subtracted :=
           \<lparr>near = Some \<lparr>bin_edges = [- 1, 0, 1], y_values = [6, 8], errors_squared = [10, 17]\<rparr>,
            away = Some \<lparr>bin_edges = [- 1, 0, 1], y_values = [6, 8], errors_squared = [10, 17]\<rparr>\<rparr>,
         yaml_file := Some
           [(''jetH_delta_eta_jetPt_20_40_trackPt_1_2_near_side_subtracted'',
               YamlHist \<lparr>bin_edges = [- 1, 0, 1], y_values = [6, 8], errors_squared = [10, 17]\<rparr>),
            (''jetH_delta_eta_jetPt_20_40_trackPt_1_2_away_side_subtracted'',
               YamlHist \<lparr>bin_edges = [- 1, 0, 1], y_values = [6, 8], errors_squared = [10, 17]\<rparr>)]\<rparr>)"
  by (simp add: unfitted_manager_def subtract_delta_eta_fit_one_def
      subtract_delta_eta_correlations_def subtract_pedestal_def unfitted_bin_def example_bin_def
      Correlations_init_def Let_def example_hist_def Histogram1D_sub_def pedestal_background_hist_def
      Histogram1D_x_def write_1d_subtracted_delta_eta_correlations_def write_hists_to_yaml_def
      yaml_dump_def subtracted_name_def observable_name_def numeral_2_eq_2)

text \<open>
  C2. In a manager that has not run \<^verbatim>\<open>fit\<close> (no reaction plane fit is stored, the analysis
  object is projected, has \<^verbatim>\<open>ran_fitting = False\<close>, the pedestals of \<^verbatim>\<open>__init__\<close> and no YAML
  file), \<^verbatim>\<open>_subtract_reaction_plane_fits\<close> returns without raising and changes nothing,
  \<^verbatim>\<open>subtract_fits\<close> returns without raising, and afterwards the YAML file of the analysis
  object holds the two subtracted delta eta histograms, the placeholder pedestal
  \<open>-1 \<plusminus> -1\<close> subtracted from the entries \<open>5, 7\<close> with squared errors \<open>9, 16\<close>.
\<close>

theorem subtract_fits_before_fitting_raises_nothing:
  "\<not> ran_fitting unfitted_bin
   \<and> fit_objects unfitted_manager = []
   \<and> map (map yaml_file) (analyses unfitted_manager) = [[None]]
   \<and> subtract_reaction_plane_fits unfitted_manager = (None, unfitted_manager)
   \<and> fst (subtract_fits unfitted_manager) = None
   \<and> map (map yaml_file) (analyses (snd (subtract_fits unfitted_manager))) =
       [[Some
          [(''jetH_delta_eta_jetPt_20_40_trackPt_1_2_near_side_subtracted'',
              YamlHist \<lparr>bin_edges = [- 1, 0, 1], y_values = [6, 8], errors_squared = [10, 17]\<rparr>),
           (''jetH_delta_eta_jetPt_20_40_trackPt_1_2_away_side_subtracted'',
              YamlHist \<lparr>bin_edges = [- 1, 0, 1], y_values = [6, 8], errors_squared = [10, 17]\<rparr>)]]]"
proof -
  have a: "fit_objects unfitted_manager = []" by (simp add: unfitted_manager_def)
  have b: "subtract_reaction_plane_fits unfitted_manager = (None, unfitted_manager)"
    using a by (rule subtract_reaction_plane_fits_without_fit_objects)
  have c: "\<not> ran_fitting unfitted_bin"
    by (simp add: unfitted_bin_def example_bin_def Correlations_init_def Let_def)
  have d: "analyses unfitted_manager = [[unfitted_bin]]" by (simp add: unfitted_manager_def)
  have e: "yaml_file unfitted_bin = None"
    by (simp add: unfitted_bin_def example_bin_def Correlations_init_def Let_def)
  have f: "subtract_fits unfitted_manager = subtract_delta_eta_fits unfitted_manager"
    by (simp add: subtract_fits_def b)
  show ?thesis
    by (simp add: a b c d e f subtract_delta_eta_fits_def subtract_delta_eta_unfitted_bin)
qed

end
